theory Spec2Isabelle
  imports Main "HOL-Library.Word"
begin

unbundle bit_operations_syntax

section \<open>The DexServer controller (controllers/dexserver_controller.go)\<close>

text \<open>
  A shallow embedding of the reconciliation controller of the dex operator. Go structs are
  records, Go maps are partial functions, \<^verbatim>\<open>[]byte\<close> and \<^verbatim>\<open>string\<close> are
  both \<^typ>\<open>string\<close> (lists of 8-bit characters), an \<^verbatim>\<open>error\<close> result is an
  \<^typ>\<open>'a option\<close> or the left summand of a sum, and the cluster the controller talks to is
  an explicit state that every operation takes and returns. Logging has no effect on any result
  and is left out.
\<close>

subsection \<open>Errors\<close>

text \<open>
  A Go \<^verbatim>\<open>error\<close>: its message (\<^verbatim>\<open>err.Error()\<close>) and whether
  \<^verbatim>\<open>kubeerrors.IsNotFound(err)\<close> holds of it.
\<close>

datatype error = Error (isNotFound: bool) (errorMsg: string)

text \<open>\<^verbatim>\<open>errors.Wrap(err, msg)\<close>: the message is prefixed, the cause is kept.\<close>

definition Wrap :: "error \<Rightarrow> string \<Rightarrow> error" where
  "Wrap err m = Error (isNotFound err) (m @ '': '' @ errorMsg err)"

text \<open>\<^verbatim>\<open>fmt.Errorf(msg)\<close>: a plain error, never a not-found one.\<close>

definition Errorf :: "string \<Rightarrow> error" where
  "Errorf m = Error False m"

text \<open>\<^verbatim>\<open>client.IgnoreNotFound(err)\<close>.\<close>

definition IgnoreNotFound :: "error \<Rightarrow> error option" where
  "IgnoreNotFound err = (if isNotFound err then None else Some err)"

subsection \<open>Status conditions\<close>

type_synonym time = int \<comment> \<open>seconds since the Unix epoch\<close>

datatype ConditionStatus = ConditionTrue | ConditionFalse | ConditionUnknown

text \<open>\<^verbatim>\<open>metav1.Condition\<close>, with the fields the controller sets or the merge reads.\<close>

record Condition =
  Type :: string
  Status :: ConditionStatus
  Reason :: string
  Message :: string
  LastTransitionTime :: time

definition DexServerConditionTypeApplied :: string where
  "DexServerConditionTypeApplied = ''Applied''"

text \<open>
  Modelled from the spec: \<^verbatim>\<open>meta.SetStatusCondition\<close> belongs to
  k8s.io/apimachinery and is not among the sources. Section 4.5 of the specification gives
  its behaviour: find an existing record with the same type; if found, replace it in place
  only if status, reason, or message differs (updating the last-transition time), else leave
  it untouched; if not found, append. The first argument is the clock.
\<close>

fun SetStatusCondition :: "time \<Rightarrow> Condition list \<Rightarrow> Condition \<Rightarrow> Condition list" where
  "SetStatusCondition now [] c = [c]"
| "SetStatusCondition now (x # xs) c =
     (if Type x = Type c then
        (if Status x \<noteq> Status c \<or> Reason x \<noteq> Reason c \<or> Message x \<noteq> Message c
         then c\<lparr>LastTransitionTime := now\<rparr> # xs
         else x # xs)
      else x # SetStatusCondition now xs c)"

text \<open>
  \<^verbatim>\<open>mergeStatusConditions\<close>: a copy of the existing conditions, into which every
  new condition is set, in order.
\<close>

definition mergeStatusConditions :: "time \<Rightarrow> Condition list \<Rightarrow> Condition list \<Rightarrow> Condition list" where
  "mergeStatusConditions now conditions newConditions =
     foldl (SetStatusCondition now) ([] @ conditions) newConditions"

subsection \<open>Cluster objects\<close>

type_synonym key = "string \<times> string" \<comment> \<open>namespace and name\<close>

record OwnerReference =
  Kind :: string
  OwnerName :: string

text \<open>\<^verbatim>\<open>metav1.ObjectMeta\<close>, embedded in every object as in Go.\<close>

record ObjectMeta =
  Name :: string
  Namespace :: string
  Labels :: "string \<rightharpoonup> string"
  Annotations :: "string \<rightharpoonup> string"
  OwnerReferences :: "OwnerReference list"

record Secret = ObjectMeta +
  Data :: "string \<rightharpoonup> string"

record ConfigMap = ObjectMeta +
  ConfigData :: "string \<rightharpoonup> string"

text \<open>
  The connector types of api/v1alpha1 (declared outside the sources at hand). The Go type is a
  string with three named constants; every other value falls into the \<^verbatim>\<open>default\<close>
  branch of the switches below.
\<close>

datatype ConnectorType =
  ConnectorTypeGitHub | ConnectorTypeMicrosoft | ConnectorTypeLDAP | ConnectorTypeOther string

fun connectorTypeString :: "ConnectorType \<Rightarrow> string" where
  "connectorTypeString ConnectorTypeGitHub = ''github''"
| "connectorTypeString ConnectorTypeMicrosoft = ''microsoft''"
| "connectorTypeString ConnectorTypeLDAP = ''ldap''"
| "connectorTypeString (ConnectorTypeOther s) = s"

record SecretReference =
  RefName :: string
  RefNamespace :: string

record Org =
  OrgName :: string
  OrgTeams :: "string list"

record UserSearchSpec =
  US_BaseDN :: string
  US_Filter :: string
  US_Username :: string
  US_Scope :: string
  US_IDAttr :: string
  US_EmailAttr :: string
  US_NameAttr :: string

record UserMatcher =
  UserAttr :: string
  GroupAttr :: string

record GroupSearchSpec =
  GS_BaseDN :: string
  GS_Filter :: string
  GS_Scope :: string
  GS_UserMatchers :: "UserMatcher list"
  GS_NameAttr :: string

record GitHubConfigSpec =
  GitHub_ClientID :: string
  GitHub_ClientSecretRef :: SecretReference
  GitHub_RedirectURI :: string
  GitHub_Org :: string
  GitHub_Orgs :: "Org list"

record MicrosoftConfigSpec =
  Microsoft_ClientID :: string
  Microsoft_ClientSecretRef :: SecretReference
  Microsoft_RedirectURI :: string
  Microsoft_Tenant :: string

record LDAPConfigSpec =
  LDAP_Host :: string
  LDAP_InsecureNoSSL :: bool
  LDAP_InsecureSkipVerify :: bool
  LDAP_StartTLS :: bool
  LDAP_RootCARef :: SecretReference
  LDAP_BindDN :: string
  LDAP_BindPWRef :: SecretReference
  LDAP_UsernamePrompt :: string
  LDAP_UserSearch :: UserSearchSpec
  LDAP_GroupSearch :: GroupSearchSpec

record ConnectorSpec =
  ConnectorKind :: ConnectorType \<comment> \<open>the field \<^verbatim>\<open>Type\<close>\<close>
  ConnectorId :: string
  ConnectorName :: string
  GitHub :: GitHubConfigSpec
  Microsoft :: MicrosoftConfigSpec
  LDAP :: LDAPConfigSpec

record DexServerSpec =
  Issuer :: string
  IngressCertificateRef :: string \<comment> \<open>the name of the referenced secret\<close>
  Connectors :: "ConnectorSpec list"

record DexServer = ObjectMeta +
  Spec :: DexServerSpec
  Conditions :: "Condition list" \<comment> \<open>\<^verbatim>\<open>Status.Conditions\<close>\<close>

text \<open>The rendered connector configuration, \<^verbatim>\<open>DexConnectorConfigSpec\<close>.\<close>

record DexConnectorConfigSpec =
  ClientID :: string
  ClientSecret :: string
  RedirectURI :: string
  Org :: string
  Orgs :: "Org list"
  HostName :: string
  TeamNameField :: string
  LoadAllGroups :: bool
  UseLoginAsID :: bool
  Tenant :: string
  OnlySecurityGroups :: bool
  Groups :: "string list"
  Host :: string
  InsecureNoSSL :: bool
  InsecureSkipVerify :: bool
  StartTLS :: bool
  ClientCA :: string
  ClientKey :: string
  RootCAData :: string
  BindDN :: string
  BindPW :: string
  UsernamePrompt :: string
  UserSearch :: UserSearchSpec
  GroupSearch :: GroupSearchSpec
  RootCA :: string

record DexConnectorSpec =
  DexType :: string
  DexId :: string
  DexName :: string
  Config :: DexConnectorConfigSpec

text \<open>The zero values Go gives to fields that a composite literal leaves out.\<close>

definition zeroUserSearch :: UserSearchSpec where
  "zeroUserSearch = \<lparr>US_BaseDN = [], US_Filter = [], US_Username = [], US_Scope = [],
     US_IDAttr = [], US_EmailAttr = [], US_NameAttr = []\<rparr>"

definition zeroGroupSearch :: GroupSearchSpec where
  "zeroGroupSearch = \<lparr>GS_BaseDN = [], GS_Filter = [], GS_Scope = [], GS_UserMatchers = [],
     GS_NameAttr = []\<rparr>"

definition zeroConfig :: DexConnectorConfigSpec where
  "zeroConfig = \<lparr>ClientID = [], ClientSecret = [], RedirectURI = [], Org = [], Orgs = [],
     HostName = [], TeamNameField = [], LoadAllGroups = False, UseLoginAsID = False,
     Tenant = [], OnlySecurityGroups = False, Groups = [], Host = [], InsecureNoSSL = False,
     InsecureSkipVerify = False, StartTLS = False, ClientCA = [], ClientKey = [],
     RootCAData = [], BindDN = [], BindPW = [], UsernamePrompt = [],
     UserSearch = zeroUserSearch, GroupSearch = zeroGroupSearch, RootCA = []\<rparr>"

definition emptySecret :: Secret where
  "emptySecret = \<lparr>Name = [], Namespace = [], Labels = Map.empty, Annotations = Map.empty,
     OwnerReferences = [], Data = Map.empty\<rparr>"

text \<open>Reading a Go map at a key it does not hold gives the empty string.\<close>

definition lookupOrEmpty :: "(string \<rightharpoonup> string) \<Rightarrow> string \<Rightarrow> string" where
  "lookupOrEmpty m k = (case m k of None \<Rightarrow> [] | Some v \<Rightarrow> v)"

text \<open>The certificates and keys of \<^verbatim>\<open>generateMTLSCerts\<close> (PEM buffers) and their expiry.\<close>

record MTLSCerts =
  caPEM :: string
  caPrivKeyPEM :: string
  certPEM :: string
  certPrivKeyPEM :: string
  clientPEM :: string
  clientPrivKeyPEM :: string
  expiry :: time

record VolumeMount =
  MountName :: string
  MountPath :: string

record Volume =
  VolumeName :: string
  VolumeSecretName :: string

text \<open>
  One call of the manifest applier: the template file, the instance that owns the result, and
  the fields of the values struct the template is rendered with.
\<close>

record Manifest =
  Template :: string
  Owner :: key
  Values :: "(string \<times> string) list"

subsection \<open>The cluster and the collaborators\<close>

text \<open>
  The state of the cluster as far as the controller reads or writes it: the stored instances,
  secrets and config maps, and the manifests handed to the applier, oldest first.
\<close>

record World =
  dexServers :: "key \<rightharpoonup> DexServer"
  secrets :: "key \<rightharpoonup> Secret"
  configMaps :: "key \<rightharpoonup> ConfigMap"
  applied :: "Manifest list"

text \<open>
  What the controller takes from outside this file, each field named after the function it
  stands for: the clock and the process environment; \<^verbatim>\<open>generateMTLSCerts\<close> and
  \<^verbatim>\<open>inCertRenewalWindow\<close>, which the repository defines in a file that is not among
  the sources; \<^verbatim>\<open>time.Parse\<close> with the RFC 3339 layout, \<^verbatim>\<open>yaml.Marshal\<close>,
  \<^verbatim>\<open>json.Marshal\<close> and the host of \<^verbatim>\<open>url.Parse\<close> (\<open>None\<close>: the URL does not
  parse); and the failures of the cluster API and of the applier, by kind and key or by
  template (\<open>None\<close>: the call goes through). They stay the same during a pass.
\<close>

record Deps =
  now :: time
  Getenv :: "string \<rightharpoonup> string"
  generateMTLSCerts :: "string \<Rightarrow> error + MTLSCerts"
  inCertRenewalWindow :: "time \<Rightarrow> bool"
  ParseRFC3339 :: "string \<Rightarrow> time option"
  yamlMarshalConnectors :: "DexConnectorSpec list \<Rightarrow> error + string"
  yamlMarshalVolumeMounts :: "VolumeMount list \<Rightarrow> error + string"
  yamlMarshalVolumes :: "Volume list \<Rightarrow> error + string"
  jsonMarshal :: "ConfigMap \<Rightarrow> error + string"
  urlParseHost :: "string \<Rightarrow> string option"
  getFault :: "string \<Rightarrow> key \<Rightarrow> error option"
  createFault :: "key \<Rightarrow> error option"
  updateFault :: "key \<Rightarrow> error option"
  statusUpdateFault :: "key \<Rightarrow> error option"
  applyFault :: "string \<Rightarrow> error option"

definition notFound :: "string \<Rightarrow> key \<Rightarrow> error" where
  "notFound kind k = Error True (kind @ '' '' @ fst k @ ''/'' @ snd k @ '' not found'')"

definition alreadyExists :: "string \<Rightarrow> key \<Rightarrow> error" where
  "alreadyExists kind k = Error False (kind @ '' '' @ fst k @ ''/'' @ snd k @ '' already exists'')"

text \<open>\<^verbatim>\<open>r.Get\<close> for the three kinds the controller reads.\<close>

definition GetDexServer :: "Deps \<Rightarrow> key \<Rightarrow> World \<Rightarrow> error + DexServer" where
  "GetDexServer d k w =
     (case getFault d ''DexServer'' k of
        Some err \<Rightarrow> Inl err
      | None \<Rightarrow> (case dexServers w k of
                   None \<Rightarrow> Inl (notFound ''DexServer'' k)
                 | Some ds \<Rightarrow> Inr ds))"

definition GetSecret :: "Deps \<Rightarrow> key \<Rightarrow> World \<Rightarrow> error + Secret" where
  "GetSecret d k w =
     (case getFault d ''Secret'' k of
        Some err \<Rightarrow> Inl err
      | None \<Rightarrow> (case secrets w k of
                   None \<Rightarrow> Inl (notFound ''Secret'' k)
                 | Some s \<Rightarrow> Inr s))"

definition GetConfigMap :: "Deps \<Rightarrow> key \<Rightarrow> World \<Rightarrow> error + ConfigMap" where
  "GetConfigMap d k w =
     (case getFault d ''ConfigMap'' k of
        Some err \<Rightarrow> Inl err
      | None \<Rightarrow> (case configMaps w k of
                   None \<Rightarrow> Inl (notFound ''ConfigMap'' k)
                 | Some c \<Rightarrow> Inr c))"

text \<open>\<^verbatim>\<open>r.Create\<close> and \<^verbatim>\<open>r.Update\<close> of a secret.\<close>

definition CreateSecret :: "Deps \<Rightarrow> Secret \<Rightarrow> World \<Rightarrow> error option \<times> World" where
  "CreateSecret d s w =
     (let k = (Namespace s, Name s) in
      case createFault d k of
        Some err \<Rightarrow> (Some err, w)
      | None \<Rightarrow> (case secrets w k of
                   Some _ \<Rightarrow> (Some (alreadyExists ''Secret'' k), w)
                 | None \<Rightarrow> (None, w\<lparr>secrets := (secrets w)(k \<mapsto> s)\<rparr>)))"

definition UpdateSecret :: "Deps \<Rightarrow> Secret \<Rightarrow> World \<Rightarrow> error option \<times> World" where
  "UpdateSecret d s w =
     (let k = (Namespace s, Name s) in
      case updateFault d k of
        Some err \<Rightarrow> (Some err, w)
      | None \<Rightarrow> (case secrets w k of
                   None \<Rightarrow> (Some (notFound ''Secret'' k), w)
                 | Some _ \<Rightarrow> (None, w\<lparr>secrets := (secrets w)(k \<mapsto> s)\<rparr>)))"

text \<open>
  \<^verbatim>\<open>c.Status().Update\<close>: the status of the stored instance is replaced by the status
  of the given one.
\<close>

definition StatusUpdate :: "Deps \<Rightarrow> DexServer \<Rightarrow> World \<Rightarrow> error option \<times> World" where
  "StatusUpdate d ds w =
     (let k = (Namespace ds, Name ds) in
      case statusUpdateFault d k of
        Some err \<Rightarrow> (Some err, w)
      | None \<Rightarrow> (case dexServers w k of
                   None \<Rightarrow> (Some (notFound ''DexServer'' k), w)
                 | Some stored \<Rightarrow>
                     (None, w\<lparr>dexServers := (dexServers w)(k \<mapsto> stored\<lparr>Conditions := Conditions ds\<rparr>)\<rparr>)))"

text \<open>
  Modelled from the spec: the manifest applier (open-cluster-management clusteradm) and the
  template \<^verbatim>\<open>dex-server/config_map.yaml\<close> are not among the sources. By sections 2
  and 6 of the specification the applier renders a named template with a values object and
  creates or updates the result, owned by the instance, or fails. The model records the call;
  applying the config map template also stores the config resource, under the name and
  namespace of the instance (where \<^verbatim>\<open>syncDeployment\<close> looks it up), its content given
  by the values.
\<close>

definition CONFIG_MAP_TEMPLATE :: string where
  "CONFIG_MAP_TEMPLATE = ''dex-server/config_map.yaml''"

definition renderConfigMap :: "Manifest \<Rightarrow> ConfigMap" where
  "renderConfigMap m = \<lparr>Name = snd (Owner m), Namespace = fst (Owner m), Labels = Map.empty,
     Annotations = Map.empty, OwnerReferences = [\<lparr>Kind = ''DexServer'', OwnerName = snd (Owner m)\<rparr>],
     ConfigData = map_of (Values m)\<rparr>"

definition applyManifest :: "Deps \<Rightarrow> Manifest \<Rightarrow> World \<Rightarrow> error option \<times> World" where
  "applyManifest d m w =
     (case applyFault d (Template m) of
        Some err \<Rightarrow> (Some err, w)
      | None \<Rightarrow>
          (let w' = w\<lparr>applied := applied w @ [m]\<rparr> in
           if Template m = CONFIG_MAP_TEMPLATE
           then (None, w'\<lparr>configMaps := (configMaps w')(Owner m \<mapsto> renderConfigMap m)\<rparr>)
           else (None, w')))"

definition ApplyDirectly :: "Deps \<Rightarrow> Manifest \<Rightarrow> World \<Rightarrow> error option \<times> World" where
  "ApplyDirectly = applyManifest"

definition ApplyDeployments :: "Deps \<Rightarrow> Manifest \<Rightarrow> World \<Rightarrow> error option \<times> World" where
  "ApplyDeployments = applyManifest"

definition ApplyCustomResources :: "Deps \<Rightarrow> Manifest \<Rightarrow> World \<Rightarrow> error option \<times> World" where
  "ApplyCustomResources = applyManifest"

subsection \<open>Constants\<close>

definition SECRET_MTLS_NAME :: string where
  "SECRET_MTLS_NAME = ''grpc-mtls''"

definition SECRET_WEB_TLS_SUFFIX :: string where
  "SECRET_WEB_TLS_SUFFIX = ''-tls-secret''"

definition SERVICE_ACCOUNT_NAME :: string where
  "SERVICE_ACCOUNT_NAME = ''dex-operator-dexsso''"

definition GRPC_SERVICE_NAME :: string where
  "GRPC_SERVICE_NAME = ''grpc''"

definition DEX_IMAGE_ENV_NAME :: string where
  "DEX_IMAGE_ENV_NAME = ''RELATED_IMAGE_DEX''"

definition MTLS_CERT_EXPIRY_ANNOTATION :: string where
  "MTLS_CERT_EXPIRY_ANNOTATION = ''auth.identitatem.io/expiry''"

definition IDP_CREDENTIAL_LABEL :: string where
  "IDP_CREDENTIAL_LABEL = ''auth.identitatem.io/idp-credential''"

subsection \<open>Time stamps\<close>

text \<open>
  \<^verbatim>\<open>t.UTC().Format(time.RFC3339)\<close> for an instant given in seconds since the Unix
  epoch: the civil date of the day number, then \<^verbatim>\<open>2006-01-02T15:04:05Z\<close>. The
  year is written as \<^verbatim>\<open>appendInt(b, year, 4)\<close> of the Go library writes it: a minus sign
  before the year 0, then the decimal digits, filled with zeros to four; from the year 10000
  on there are five digits or more. The other fields have two digits.
\<close>

definition civilFromDays :: "int \<Rightarrow> int \<times> int \<times> int" where
  "civilFromDays z =
     (let z' = z + 719468;
          era = z' div 146097;
          doe = z' - era * 146097;
          yoe = (doe - doe div 1460 + doe div 36524 - doe div 146096) div 365;
          doy = doe - (365 * yoe + yoe div 4 - yoe div 100);
          mp = (5 * doy + 2) div 153;
          dd = doy - (153 * mp + 2) div 5 + 1;
          mm = (if mp < 10 then mp + 3 else mp - 9);
          yy = yoe + era * 400 + (if mm \<le> 2 then 1 else 0)
      in (yy, mm, dd))"

definition digit :: "int \<Rightarrow> char" where
  "digit n = ''0123456789'' ! nat (n mod 10)"

definition pad2 :: "int \<Rightarrow> string" where
  "pad2 n = [digit (n div 10), digit n]"

function decimal :: "int \<Rightarrow> string" where
  "decimal u = (if u < 10 then [digit u] else decimal (u div 10) @ [digit u])"
  by pat_completeness auto
termination by (relation "measure nat") auto

declare decimal.simps [simp del]

definition appendInt :: "int \<Rightarrow> nat \<Rightarrow> string" where
  "appendInt x width =
     (let ds = decimal \<bar>x\<bar>
      in (if x < 0 then ''-'' else []) @ replicate (width - length ds) CHR ''0'' @ ds)"

definition FormatRFC3339 :: "time \<Rightarrow> string" where
  "FormatRFC3339 t =
     (let (yy, mm, dd) = civilFromDays (t div 86400);
          s = t mod 86400
      in appendInt yy 4 @ ''-'' @ pad2 mm @ ''-'' @ pad2 dd @ ''T'' @
         pad2 (s div 3600) @ '':'' @ pad2 (s mod 3600 div 60) @ '':'' @ pad2 (s mod 60) @ ''Z'')"

text \<open>The zero \<^verbatim>\<open>time.Time\<close>, January 1 of the year 1, which a failed parse returns.\<close>

definition zeroTime :: time where
  "zeroTime = - 62135596800"

subsection \<open>Connector credentials\<close>

text \<open>
  \<^verbatim>\<open>checkAndAddLabelToSecret\<close>: a secret without the credential label gets it and is
  written back; a failed write is logged and nothing else.
\<close>

definition checkAndAddLabelToSecret :: "Deps \<Rightarrow> Secret \<Rightarrow> World \<Rightarrow> World" where
  "checkAndAddLabelToSecret d secret w =
     (if Labels secret IDP_CREDENTIAL_LABEL = None
      then snd (UpdateSecret d (secret\<lparr>Labels := (Labels secret)(IDP_CREDENTIAL_LABEL \<mapsto> [])\<rparr>) w)
      else w)"

text \<open>
  The body that the three known cases of \<^verbatim>\<open>getConnectorSecretFromRef\<close> share, for the
  secret reference and the data key of the case. The secret is read into a fresh object, which
  stays empty when the read fails; only a not-found failure is returned.
\<close>

definition readSecretRef ::
  "Deps \<Rightarrow> SecretReference \<Rightarrow> string \<Rightarrow> DexServer \<Rightarrow> World \<Rightarrow> (error + string) \<times> World" where
  "readSecretRef d ref dataKey m w =
     (let secretName = RefName ref;
          secretNamespace = (if RefNamespace ref = [] then Namespace m else RefNamespace ref)
      in case GetSecret d (secretNamespace, secretName) w of
           Inl err \<Rightarrow>
             if isNotFound err then (Inl err, w)
             else (Inr (lookupOrEmpty (Data emptySecret) dataKey),
                   checkAndAddLabelToSecret d emptySecret w)
         | Inr resource \<Rightarrow>
             (Inr (lookupOrEmpty (Data resource) dataKey),
              checkAndAddLabelToSecret d resource w))"

definition getConnectorSecretFromRef ::
  "Deps \<Rightarrow> ConnectorSpec \<Rightarrow> DexServer \<Rightarrow> World \<Rightarrow> (error + string) \<times> World" where
  "getConnectorSecretFromRef d connector m w =
     (case ConnectorKind connector of
        ConnectorTypeGitHub \<Rightarrow>
          readSecretRef d (GitHub_ClientSecretRef (GitHub connector)) ''clientSecret'' m w
      | ConnectorTypeMicrosoft \<Rightarrow>
          readSecretRef d (Microsoft_ClientSecretRef (Microsoft connector)) ''clientSecret'' m w
      | ConnectorTypeLDAP \<Rightarrow>
          readSecretRef d (LDAP_BindPWRef (LDAP connector)) ''bindPW'' m w
      | ConnectorTypeOther _ \<Rightarrow> (Inl (Errorf ''could not retrieve secret''), w))"

text \<open>
  The secret that a connector of a known type refers to: the reference of its case in
  \<^verbatim>\<open>getConnectorSecretFromRef\<close>, and the key it is read at, in the namespace of the
  instance when the reference names none.
\<close>

definition credentialRef :: "ConnectorSpec \<Rightarrow> SecretReference option" where
  "credentialRef connector =
     (case ConnectorKind connector of
        ConnectorTypeGitHub \<Rightarrow> Some (GitHub_ClientSecretRef (GitHub connector))
      | ConnectorTypeMicrosoft \<Rightarrow> Some (Microsoft_ClientSecretRef (Microsoft connector))
      | ConnectorTypeLDAP \<Rightarrow> Some (LDAP_BindPWRef (LDAP connector))
      | ConnectorTypeOther _ \<Rightarrow> None)"

definition secretRefKey :: "SecretReference \<Rightarrow> DexServer \<Rightarrow> key" where
  "secretRefKey ref m = (if RefNamespace ref = [] then Namespace m else RefNamespace ref, RefName ref)"

subsection \<open>The mutual-TLS secret\<close>

definition dexServerOwner :: "DexServer \<Rightarrow> OwnerReference" where
  "dexServerOwner m = \<lparr>Kind = ''DexServer'', OwnerName = Name m\<rparr>"

text \<open>
  \<^verbatim>\<open>defineMTLSSecret\<close>. \<^verbatim>\<open>append(b, b...)\<close> is the bytes of \<open>b\<close> twice.
\<close>

definition defineMTLSSecret :: "DexServer \<Rightarrow> MTLSCerts \<Rightarrow> Secret" where
  "defineMTLSSecret m mtlsCerts =
     \<lparr>Name = SECRET_MTLS_NAME,
      Namespace = Namespace m,
      Labels = [''app'' \<mapsto> Name m],
      Annotations = [MTLS_CERT_EXPIRY_ANNOTATION \<mapsto> FormatRFC3339 (expiry mtlsCerts)],
      OwnerReferences = [dexServerOwner m],
      Data = [''ca.crt'' \<mapsto> caPEM mtlsCerts,
              ''ca.key'' \<mapsto> caPrivKeyPEM mtlsCerts,
              ''tls.crt'' \<mapsto> certPEM mtlsCerts @ certPEM mtlsCerts,
              ''tls.key'' \<mapsto> certPrivKeyPEM mtlsCerts,
              ''client.crt'' \<mapsto> clientPEM mtlsCerts @ clientPEM mtlsCerts,
              ''client.key'' \<mapsto> clientPrivKeyPEM mtlsCerts]\<rparr>"

definition getMTLSSecret :: "Deps \<Rightarrow> DexServer \<Rightarrow> World \<Rightarrow> error + Secret" where
  "getMTLSSecret d m w = GetSecret d (Namespace m, SECRET_MTLS_NAME) w"

text \<open>
  The second half of \<^verbatim>\<open>manageMTLSSecret\<close>: with the two flags set, generate the
  certificates and create or update the secret, or do nothing.
\<close>

definition writeMTLSSecret :: "Deps \<Rightarrow> DexServer \<Rightarrow> bool \<Rightarrow> bool \<Rightarrow> World \<Rightarrow> error option \<times> World" where
  "writeMTLSSecret d dexServer secretExists regenerate w =
     (if \<not> secretExists \<or> regenerate then
        (case generateMTLSCerts d (Namespace dexServer) of
           Inl err \<Rightarrow> (Some (Wrap err ''error generating mtls certs''), w)
         | Inr mTLSCerts \<Rightarrow>
             (let spec = defineMTLSSecret dexServer mTLSCerts in
              if \<not> secretExists then
                (case CreateSecret d spec w of
                   (Some err, w') \<Rightarrow> (Some (Wrap err ''error creating mtls secret''), w')
                 | (None, w') \<Rightarrow> (None, w'))
              else
                (case UpdateSecret d spec w of
                   (Some err, w') \<Rightarrow> (Some (Wrap err ''error updating mtls secret''), w')
                 | (None, w') \<Rightarrow> (None, w'))))
      else (None, w))"

definition manageMTLSSecret :: "Deps \<Rightarrow> DexServer \<Rightarrow> World \<Rightarrow> error option \<times> World" where
  "manageMTLSSecret d dexServer w =
     (case getMTLSSecret d dexServer w of
        Inl err \<Rightarrow>
          if \<not> isNotFound err then (Some (Wrap err ''error getting mtls secret''), w)
          else writeMTLSSecret d dexServer False False w
      | Inr secret \<Rightarrow>
          (let expiry = lookupOrEmpty (Annotations secret) MTLS_CERT_EXPIRY_ANNOTATION in
           if expiry = [] then writeMTLSSecret d dexServer True True w
           else
             (let (expiryTime, failed) =
                    (case ParseRFC3339 d expiry of
                       None \<Rightarrow> (zeroTime, True)
                     | Some t \<Rightarrow> (t, False));
                  regenerate = (if inCertRenewalWindow d expiryTime then True else failed)
              in writeMTLSSecret d dexServer True regenerate w)))"

subsection \<open>The sync steps that only apply a template\<close>

definition instanceKey :: "DexServer \<Rightarrow> key" where
  "instanceKey dexServer = (Namespace dexServer, Name dexServer)"

definition syncServiceAccount :: "Deps \<Rightarrow> DexServer \<Rightarrow> World \<Rightarrow> error option \<times> World" where
  "syncServiceAccount d dexServer w =
     ApplyDirectly d
       \<lparr>Template = ''dex-server/service_account.yaml'', Owner = instanceKey dexServer,
        Values = [(''ServiceAccountName'', SERVICE_ACCOUNT_NAME)]\<rparr> w"

definition syncClusterRoleBinding :: "Deps \<Rightarrow> DexServer \<Rightarrow> World \<Rightarrow> error option \<times> World" where
  "syncClusterRoleBinding d dexServer w =
     (let clusterRoleBindingName = SERVICE_ACCOUNT_NAME @ ''-'' @ Namespace dexServer in
      ApplyDirectly d
        \<lparr>Template = ''dex-server/cluster_role_binding.yaml'', Owner = instanceKey dexServer,
         Values = [(''ClusterRoleName'', SERVICE_ACCOUNT_NAME),
                   (''ServiceAccountName'', SERVICE_ACCOUNT_NAME),
                   (''ClusterRoleBindingName'', clusterRoleBindingName)]\<rparr> w)"

definition syncService :: "Deps \<Rightarrow> DexServer \<Rightarrow> World \<Rightarrow> error option \<times> World" where
  "syncService d dexServer w =
     ApplyDirectly d
       \<lparr>Template = ''dex-server/service_http.yaml'', Owner = instanceKey dexServer,
        Values = [(''ServingCertSecretName'', Name dexServer @ SECRET_WEB_TLS_SUFFIX)]\<rparr> w"

definition syncServiceGrpc :: "Deps \<Rightarrow> DexServer \<Rightarrow> World \<Rightarrow> error option \<times> World" where
  "syncServiceGrpc d dexServer w =
     ApplyDirectly d
       \<lparr>Template = ''dex-server/service_grpc.yaml'', Owner = instanceKey dexServer,
        Values = [(''GrpcServiceName'', GRPC_SERVICE_NAME)]\<rparr> w"

subsection \<open>The configuration digest\<close>

text \<open>
  \<^verbatim>\<open>crypto/sha256\<close> of the Go standard library: SHA-256 as in FIPS 180-4, on bytes.
  The sixty-four round constants are written in decimal.
\<close>

definition K256 :: "32 word list" where
  "K256 =
     [1116352408, 1899447441, 3049323471, 3921009573, 961987163, 1508970993,
      2453635748, 2870763221, 3624381080, 310598401, 607225278, 1426881987,
      1925078388, 2162078206, 2614888103, 3248222580, 3835390401, 4022224774,
      264347078, 604807628, 770255983, 1249150122, 1555081692, 1996064986,
      2554220882, 2821834349, 2952996808, 3210313671, 3336571891, 3584528711,
      113926993, 338241895, 666307205, 773529912, 1294757372, 1396182291,
      1695183700, 1986661051, 2177026350, 2456956037, 2730485921, 2820302411,
      3259730800, 3345764771, 3516065817, 3600352804, 4094571909, 275423344,
      430227734, 506948616, 659060556, 883997877, 958139571, 1322822218,
      1537002063, 1747873779, 1955562222, 2024104815, 2227730452, 2361852424,
      2428436474, 2756734187, 3204031479, 3329325298]"

type_synonym sha256State =
  "32 word \<times> 32 word \<times> 32 word \<times> 32 word \<times> 32 word \<times> 32 word \<times> 32 word \<times> 32 word"

definition H256 :: sha256State where
  "H256 = (0x6a09e667, 0xbb67ae85, 0x3c6ef372, 0xa54ff53a,
           0x510e527f, 0x9b05688c, 0x1f83d9ab, 0x5be0cd19)"

definition rotr :: "nat \<Rightarrow> 32 word \<Rightarrow> 32 word" where
  "rotr n x = drop_bit n x OR push_bit (32 - n) x"

definition bsig0 :: "32 word \<Rightarrow> 32 word" where
  "bsig0 x = rotr 2 x XOR rotr 13 x XOR rotr 22 x"

definition bsig1 :: "32 word \<Rightarrow> 32 word" where
  "bsig1 x = rotr 6 x XOR rotr 11 x XOR rotr 25 x"

definition ssig0 :: "32 word \<Rightarrow> 32 word" where
  "ssig0 x = rotr 7 x XOR rotr 18 x XOR drop_bit 3 x"

definition ssig1 :: "32 word \<Rightarrow> 32 word" where
  "ssig1 x = rotr 17 x XOR rotr 19 x XOR drop_bit 10 x"

definition ch :: "32 word \<Rightarrow> 32 word \<Rightarrow> 32 word \<Rightarrow> 32 word" where
  "ch x y z = (x AND y) XOR (NOT x AND z)"

definition maj :: "32 word \<Rightarrow> 32 word \<Rightarrow> 32 word \<Rightarrow> 32 word" where
  "maj x y z = (x AND y) XOR (x AND z) XOR (y AND z)"

definition byteOf :: "char \<Rightarrow> 32 word" where
  "byteOf c = of_nat (of_char c)"

definition be32 :: "string \<Rightarrow> 32 word" where
  "be32 bs = foldl (\<lambda>acc c. push_bit 8 acc OR byteOf c) 0 (take 4 bs)"

definition bytesOf32 :: "32 word \<Rightarrow> string" where
  "bytesOf32 x = map (\<lambda>i. char_of (uint (drop_bit i x))) [24, 16, 8, 0]"

definition bytesOfLength :: "64 word \<Rightarrow> string" where
  "bytesOfLength n = map (\<lambda>i. char_of (uint (drop_bit i n))) [56, 48, 40, 32, 24, 16, 8, 0]"

text \<open>Padding: a one bit, zero bits, and the length in bits as 64 bits, to a multiple of 64 bytes.\<close>

definition sha256Pad :: "string \<Rightarrow> string" where
  "sha256Pad msg =
     msg @ [char_of (128::nat)] @ replicate ((64 - (length msg + 9) mod 64) mod 64) (char_of (0::nat))
       @ bytesOfLength (8 * of_nat (length msg))"

fun schedule :: "nat \<Rightarrow> 32 word list \<Rightarrow> 32 word list" where
  "schedule 0 ws = ws"
| "schedule (Suc n) ws =
     schedule n (ws @ [ssig1 (ws ! (length ws - 2)) + ws ! (length ws - 7)
                       + ssig0 (ws ! (length ws - 15)) + ws ! (length ws - 16)])"

definition sha256Round :: "sha256State \<Rightarrow> 32 word \<times> 32 word \<Rightarrow> sha256State" where
  "sha256Round st kw =
     (case st of (a, b, c, d, e, f, g, h) \<Rightarrow>
        (let T1 = h + bsig1 e + ch e f g + fst kw + snd kw;
             T2 = bsig0 a + maj a b c
         in (T1 + T2, a, b, c, d + T1, e, f, g)))"

definition sha256Block :: "sha256State \<Rightarrow> string \<Rightarrow> sha256State" where
  "sha256Block st block =
     (let ws = schedule 48 (map (\<lambda>i. be32 (drop (4 * i) block)) [0..<16]) in
      case (st, foldl sha256Round st (zip K256 ws)) of
        ((a, b, c, d, e, f, g, h), (a', b', c', d', e', f', g', h')) \<Rightarrow>
          (a + a', b + b', c + c', d + d', e + e', f + f', g + g', h + h'))"

definition sha256Sum :: "string \<Rightarrow> string" where
  "sha256Sum msg =
     (let padded = sha256Pad msg;
          blocks = map (\<lambda>i. take 64 (drop (64 * i) padded)) [0..<length padded div 64]
      in case foldl sha256Block H256 blocks of
           (a, b, c, d, e, f, g, h) \<Rightarrow>
             bytesOf32 a @ bytesOf32 b @ bytesOf32 c @ bytesOf32 d @
             bytesOf32 e @ bytesOf32 f @ bytesOf32 g @ bytesOf32 h)"

text \<open>\<^verbatim>\<open>fmt.Sprintf("%x", bytes)\<close>: two lower-case hexadecimal digits for each byte.\<close>

definition hexDigit :: "nat \<Rightarrow> char" where
  "hexDigit n = ''0123456789abcdef'' ! (n mod 16)"

definition hexEncode :: "string \<Rightarrow> string" where
  "hexEncode bs = concat (map (\<lambda>c. [hexDigit (of_char c div 16), hexDigit (of_char c)]) bs)"

text \<open>The digest that \<^verbatim>\<open>syncDeployment\<close> computes from the serialized config map.\<close>

definition dexConfigMapHash :: "string \<Rightarrow> string" where
  "dexConfigMapHash jsonData = hexEncode (sha256Sum jsonData)"

subsection \<open>The deployment\<close>

text \<open>\<^verbatim>\<open>os.Getenv\<close>: the empty string for a variable that is not set.\<close>

definition osGetenv :: "Deps \<Rightarrow> string \<Rightarrow> string" where
  "osGetenv d k = (case Getenv d k of None \<Rightarrow> [] | Some v \<Rightarrow> v)"

definition getDexImagePullSpec :: "Deps \<Rightarrow> error + string" where
  "getDexImagePullSpec d =
     (let imageName = osGetenv d DEX_IMAGE_ENV_NAME in
      if length imageName = 0
      then Inl (Errorf (''required environment variable '' @ DEX_IMAGE_ENV_NAME @ '' is empty or not set''))
      else Inr imageName)"



definition valueOf :: "(string \<times> string) list \<Rightarrow> string \<Rightarrow> string" where
  "valueOf vals k = (case map_of vals k of None \<Rightarrow> [] | Some v \<Rightarrow> v)"


definition needsLdapCerts :: "ConnectorSpec \<Rightarrow> bool" where
  "needsLdapCerts connector \<longleftrightarrow>
     ConnectorKind connector = ConnectorTypeLDAP \<and> RefName (LDAP_RootCARef (LDAP connector)) \<noteq> []"

definition additionalVolumeMounts :: "ConnectorSpec list \<Rightarrow> VolumeMount list" where
  "additionalVolumeMounts cs =
     map (\<lambda>connector. \<lparr>MountName = ''ldapcerts-'' @ ConnectorId connector,
                        MountPath = ''/etc/dex/ldapcerts/'' @ ConnectorId connector\<rparr>)
       (filter needsLdapCerts cs)"

definition additionalVolumes :: "ConnectorSpec list \<Rightarrow> Volume list" where
  "additionalVolumes cs =
     map (\<lambda>connector. \<lparr>VolumeName = ''ldapcerts-'' @ ConnectorId connector,
                        VolumeSecretName = RefName (LDAP_RootCARef (LDAP connector))\<rparr>)
       (filter needsLdapCerts cs)"

text \<open>A failed \<^verbatim>\<open>yaml.Marshal\<close> is logged and leaves no bytes.\<close>

definition yamlOrEmpty :: "error + string \<Rightarrow> string" where
  "yamlOrEmpty r = (case r of Inl _ \<Rightarrow> [] | Inr y \<Rightarrow> y)"

text \<open>
  The two lookups of \<^verbatim>\<open>syncDeployment\<close>: the digest of the config map, and the expiry
  annotation of the mutual-TLS secret. Each is the empty string when the object is not found.
\<close>

definition lookupConfigMapHash :: "Deps \<Rightarrow> DexServer \<Rightarrow> World \<Rightarrow> error + string" where
  "lookupConfigMapHash d dexServer w =
     (case GetConfigMap d (Namespace dexServer, Name dexServer) w of
        Inl err \<Rightarrow> if \<not> isNotFound err then Inl err else Inr []
      | Inr dexConfigMap \<Rightarrow>
          (case jsonMarshal d dexConfigMap of
             Inl err \<Rightarrow> Inl err
           | Inr jsonData \<Rightarrow> Inr (dexConfigMapHash jsonData)))"

definition lookupMtlsSecretExpiry :: "Deps \<Rightarrow> DexServer \<Rightarrow> World \<Rightarrow> error + string" where
  "lookupMtlsSecretExpiry d dexServer w =
     (case getMTLSSecret d dexServer w of
        Inl err \<Rightarrow>
          if \<not> isNotFound err then Inl (Wrap err ''error getting dex server grpc mtls secret'')
          else Inr []
      | Inr mtlsSecret \<Rightarrow> Inr (lookupOrEmpty (Annotations mtlsSecret) MTLS_CERT_EXPIRY_ANNOTATION))"

definition DEPLOYMENT_TEMPLATE :: string where
  "DEPLOYMENT_TEMPLATE = ''dex-server/deployment.yaml''"

definition syncDeployment :: "Deps \<Rightarrow> DexServer \<Rightarrow> World \<Rightarrow> error option \<times> World" where
  "syncDeployment d dexServer w =
     (case getDexImagePullSpec d of
        Inl err \<Rightarrow> (Some err, w)
      | Inr dexImage \<Rightarrow>
          (let mounts = additionalVolumeMounts (Connectors (Spec dexServer));
               volumes = additionalVolumes (Connectors (Spec dexServer));
               additionalVolumeMountsYaml =
                 (if length mounts > 0 then yamlOrEmpty (yamlMarshalVolumeMounts d mounts) else []);
               additionalVolumesYaml =
                 (if length mounts > 0 then yamlOrEmpty (yamlMarshalVolumes d volumes) else [])
           in case lookupConfigMapHash d dexServer w of
                Inl err \<Rightarrow> (Some err, w)
              | Inr configMapHash \<Rightarrow>
                  (case lookupMtlsSecretExpiry d dexServer w of
                     Inl err \<Rightarrow> (Some err, w)
                   | Inr mtlsSecretExpiry \<Rightarrow>
                       ApplyDeployments d
                         \<lparr>Template = DEPLOYMENT_TEMPLATE, Owner = instanceKey dexServer,
                          Values = [(''DexImage'', dexImage),
                                    (''DexConfigMapHash'', configMapHash),
                                    (''ServiceAccountName'', SERVICE_ACCOUNT_NAME),
                                    (''TlsSecretName'', Name dexServer @ SECRET_WEB_TLS_SUFFIX),
                                    (''MtlsSecretName'', SECRET_MTLS_NAME),
                                    (''MtlsSecretExpiry'', mtlsSecretExpiry),
                                    (''AdditionalVolumeMounts'', additionalVolumeMountsYaml),
                                    (''AdditionalVolumes'', additionalVolumesYaml)]\<rparr> w)))"

subsection \<open>The config map\<close>

definition githubConnector :: "ConnectorSpec \<Rightarrow> string \<Rightarrow> DexConnectorSpec" where
  "githubConnector connector clientSecret =
     \<lparr>DexType = connectorTypeString ConnectorTypeGitHub,
      DexId = ConnectorId connector,
      DexName = ConnectorName connector,
      Config = zeroConfig
        \<lparr>ClientID := GitHub_ClientID (GitHub connector),
         ClientSecret := clientSecret,
         RedirectURI := GitHub_RedirectURI (GitHub connector),
         Org := GitHub_Org (GitHub connector),
         Orgs := GitHub_Orgs (GitHub connector)\<rparr>\<rparr>"

definition microsoftConnector :: "ConnectorSpec \<Rightarrow> string \<Rightarrow> DexConnectorSpec" where
  "microsoftConnector connector clientSecret =
     \<lparr>DexType = connectorTypeString ConnectorTypeMicrosoft,
      DexId = ConnectorId connector,
      DexName = ConnectorName connector,
      Config = zeroConfig
        \<lparr>ClientID := Microsoft_ClientID (Microsoft connector),
         ClientSecret := clientSecret,
         RedirectURI := Microsoft_RedirectURI (Microsoft connector),
         Tenant := Microsoft_Tenant (Microsoft connector)\<rparr>\<rparr>"

definition ldapConnector ::
  "ConnectorSpec \<Rightarrow> string \<Rightarrow> string \<Rightarrow> string \<Rightarrow> string \<Rightarrow> DexConnectorSpec" where
  "ldapConnector connector bindPW rootCAPath clientCAPath clientKeyPath =
     \<lparr>DexType = connectorTypeString ConnectorTypeLDAP,
      DexId = ConnectorId connector,
      DexName = ConnectorName connector,
      Config = zeroConfig
        \<lparr>Host := LDAP_Host (LDAP connector),
         InsecureNoSSL := LDAP_InsecureNoSSL (LDAP connector),
         InsecureSkipVerify := LDAP_InsecureSkipVerify (LDAP connector),
         StartTLS := LDAP_StartTLS (LDAP connector),
         ClientCA := clientCAPath,
         ClientKey := clientKeyPath,
         BindDN := LDAP_BindDN (LDAP connector),
         BindPW := bindPW,
         UsernamePrompt := LDAP_UsernamePrompt (LDAP connector),
         UserSearch :=
           (if US_BaseDN (LDAP_UserSearch (LDAP connector)) \<noteq> []
            then LDAP_UserSearch (LDAP connector) else zeroUserSearch),
         GroupSearch :=
           (if GS_BaseDN (LDAP_GroupSearch (LDAP connector)) \<noteq> []
            then LDAP_GroupSearch (LDAP connector) else zeroGroupSearch),
         RootCA := rootCAPath\<rparr>\<rparr>"

text \<open>
  The certificate files of an LDAP connector with a root CA reference. The label is added to
  the fresh, still empty object before the secret is read into it; \<open>None\<close> is the early
  \<^verbatim>\<open>return nil\<close> on a secret that is not found.
\<close>

definition ldapCertPaths ::
  "Deps \<Rightarrow> ConnectorSpec \<Rightarrow> DexServer \<Rightarrow> World \<Rightarrow> (string \<times> string \<times> string) option \<times> World" where
  "ldapCertPaths d connector dexServer w =
     (if RefName (LDAP_RootCARef (LDAP connector)) \<noteq> [] then
        (let secretName = RefName (LDAP_RootCARef (LDAP connector));
             secretNamespace =
               (if RefNamespace (LDAP_RootCARef (LDAP connector)) = [] then Namespace dexServer
                else RefNamespace (LDAP_RootCARef (LDAP connector)));
             w' = checkAndAddLabelToSecret d emptySecret w;
             dir = ''/etc/dex/ldapcerts/'' @ ConnectorId connector
         in case GetSecret d (secretNamespace, secretName) w' of
              Inl err \<Rightarrow>
                if isNotFound err then (None, w')
                else (Some ([], [], []), w')
            | Inr resource \<Rightarrow>
                (Some (if lookupOrEmpty (Data resource) ''ca.crt'' \<noteq> [] then dir @ ''/ca.crt'' else [],
                       if lookupOrEmpty (Data resource) ''tls.crt'' \<noteq> [] then dir @ ''/tls.crt'' else [],
                       if lookupOrEmpty (Data resource) ''tls.key'' \<noteq> [] then dir @ ''/tls.key'' else []),
                 w'))
      else (Some ([], [], []), w))"

text \<open>
  The loop of \<^verbatim>\<open>syncConfigMap\<close> over the connectors, with the connectors rendered so
  far. \<open>None\<close> is an early \<^verbatim>\<open>return nil\<close> from inside the loop.
\<close>

fun renderConnectors ::
  "Deps \<Rightarrow> DexServer \<Rightarrow> ConnectorSpec list \<Rightarrow> DexConnectorSpec list \<Rightarrow> World
     \<Rightarrow> DexConnectorSpec list option \<times> World" where
  "renderConnectors d dexServer [] connectors w = (Some connectors, w)"
| "renderConnectors d dexServer (connector # rest) connectors w =
     (case ConnectorKind connector of
        ConnectorTypeGitHub \<Rightarrow>
          (case getConnectorSecretFromRef d connector dexServer w of
             (Inl err, w') \<Rightarrow> (None, w')
           | (Inr clientSecret, w') \<Rightarrow>
               renderConnectors d dexServer rest
                 (connectors @ [githubConnector connector clientSecret]) w')
      | ConnectorTypeMicrosoft \<Rightarrow>
          (case getConnectorSecretFromRef d connector dexServer w of
             (Inl err, w') \<Rightarrow> (None, w')
           | (Inr clientSecret, w') \<Rightarrow>
               renderConnectors d dexServer rest
                 (connectors @ [microsoftConnector connector clientSecret]) w')
      | ConnectorTypeLDAP \<Rightarrow>
          (case getConnectorSecretFromRef d connector dexServer w of
             (Inl err, w') \<Rightarrow> (None, w')
           | (Inr bindPW, w') \<Rightarrow>
               (case ldapCertPaths d connector dexServer w' of
                  (None, w'') \<Rightarrow> (None, w'')
                | (Some (rootCAPath, clientCAPath, clientKeyPath), w'') \<Rightarrow>
                    renderConnectors d dexServer rest
                      (connectors @ [ldapConnector connector bindPW rootCAPath clientCAPath clientKeyPath])
                      w''))
      | ConnectorTypeOther _ \<Rightarrow> (None, w))"

definition syncConfigMap :: "Deps \<Rightarrow> DexServer \<Rightarrow> World \<Rightarrow> error option \<times> World" where
  "syncConfigMap d dexServer w =
     (case renderConnectors d dexServer (Connectors (Spec dexServer)) [] w of
        (None, w') \<Rightarrow> (None, w')
      | (Some connectors, w') \<Rightarrow>
          (case yamlMarshalConnectors d connectors of
             Inl err \<Rightarrow> (Some err, w')
           | Inr connectorYaml \<Rightarrow>
               ApplyDirectly d
                 \<lparr>Template = CONFIG_MAP_TEMPLATE, Owner = instanceKey dexServer,
                  Values = [(''Issuer'', Issuer (Spec dexServer)),
                            (''ConnectorsYaml'', connectorYaml)]\<rparr> w'))"

subsection \<open>The ingress\<close>

text \<open>
  A Go call either returns or panics. \<^verbatim>\<open>syncIngress\<close> drops the error of
  \<^verbatim>\<open>url.Parse\<close> and reads the host of the result, a nil pointer when the issuer does not
  parse.
\<close>

datatype 'a go = Return 'a | Panic

definition syncIngress :: "Deps \<Rightarrow> DexServer \<Rightarrow> World \<Rightarrow> error option go \<times> World" where
  "syncIngress d dexServer w =
     (case urlParseHost d (Issuer (Spec dexServer)) of
        None \<Rightarrow> (Panic, w)
      | Some routeHost \<Rightarrow>
          (case ApplyCustomResources d
                  \<lparr>Template = ''dex-server/ingress.yaml'', Owner = instanceKey dexServer,
                   Values = [(''Host'', routeHost),
                             (''IngressCertificateName'', IngressCertificateRef (Spec dexServer))]\<rparr> w of
             (r, w') \<Rightarrow> (Return r, w')))"

subsection \<open>The convergence pass\<close>

text \<open>
  \<^verbatim>\<open>ctrl.Result\<close>; the duration is in nanoseconds, as \<^verbatim>\<open>time.Duration\<close> is.
\<close>

record Result =
  Requeue :: bool
  RequeueAfter :: int

definition noResult :: Result where
  "noResult = \<lparr>Requeue = False, RequeueAfter = 0\<rparr>"

definition Hour :: int where
  "Hour = 3600 * 1000000000"

text \<open>What a pass comes to: the result and the error it returns, or a panic.\<close>

datatype Outcome = Returned Result "error option" | Panicked

text \<open>
  \<^verbatim>\<open>updateDexServerStatusConditions\<close>: the conditions are merged into the instance at
  hand, whose status is then written. The instance is not read again after the call.
\<close>

definition updateDexServerStatusConditions ::
  "Deps \<Rightarrow> DexServer \<Rightarrow> Condition list \<Rightarrow> World \<Rightarrow> error option \<times> World" where
  "updateDexServerStatusConditions d dexServer newConditions w =
     StatusUpdate d
       (dexServer\<lparr>Conditions := mergeStatusConditions (now d) (Conditions dexServer) newConditions\<rparr>) w"

definition failedCondition :: "string \<Rightarrow> string \<Rightarrow> error \<Rightarrow> Condition" where
  "failedCondition reason what err =
     \<lparr>Type = DexServerConditionTypeApplied, Status = ConditionFalse, Reason = reason,
      Message = what @ errorMsg err, LastTransitionTime = zeroTime\<rparr>"

definition appliedCondition :: Condition where
  "appliedCondition =
     \<lparr>Type = DexServerConditionTypeApplied, Status = ConditionTrue, Reason = ''Applied'',
      Message = ''DexServer is applied'', LastTransitionTime = zeroTime\<rparr>"

text \<open>
  The block that follows each of the eight steps in \<^verbatim>\<open>Reconcile\<close>, for the reason code
  and the message prefix of the step: record the condition, return the error of the status
  write if it fails and the error of the step otherwise.
\<close>

definition stepFailed ::
  "Deps \<Rightarrow> DexServer \<Rightarrow> string \<Rightarrow> string \<Rightarrow> error \<Rightarrow> World \<Rightarrow> Outcome \<times> World" where
  "stepFailed d dexServer reason what err w =
     (case updateDexServerStatusConditions d dexServer [failedCondition reason what err] w of
        (Some err', w') \<Rightarrow> (Returned noResult (Some err'), w')
      | (None, w') \<Rightarrow> (Returned noResult (Some err), w'))"

definition Reconcile :: "Deps \<Rightarrow> key \<Rightarrow> World \<Rightarrow> Outcome \<times> World" where
  "Reconcile d req w =
     (case GetDexServer d req w of
        Inl err \<Rightarrow> (Returned noResult (IgnoreNotFound err), w)
      | Inr dexServer \<Rightarrow>
     (case manageMTLSSecret d dexServer w of
        (Some err, w1) \<Rightarrow>
          stepFailed d dexServer ''ConfigMTLSSecretFailed''
            ''failed to configure MTLS secret. error: '' err w1
      | (None, w1) \<Rightarrow>
     (case syncConfigMap d dexServer w1 of
        (Some err, w2) \<Rightarrow>
          stepFailed d dexServer ''ConfigMapFailed'' ''failed to sync ConfigMap. error: '' err w2
      | (None, w2) \<Rightarrow>
     (case syncService d dexServer w2 of
        (Some err, w3) \<Rightarrow>
          stepFailed d dexServer ''ConfigHTTPServiceFailed''
            ''failed to sync http service. error: '' err w3
      | (None, w3) \<Rightarrow>
     (case syncServiceGrpc d dexServer w3 of
        (Some err, w4) \<Rightarrow>
          stepFailed d dexServer ''ConfigGRPCServiceFailed''
            ''failed to sync grpc service. error: '' err w4
      | (None, w4) \<Rightarrow>
     (case syncServiceAccount d dexServer w4 of
        (Some err, w5) \<Rightarrow>
          stepFailed d dexServer ''ConfigServiceAccountFailed''
            ''failed to sync ServiceAccount. error: '' err w5
      | (None, w5) \<Rightarrow>
     (case syncClusterRoleBinding d dexServer w5 of
        (Some err, w6) \<Rightarrow>
          stepFailed d dexServer ''ConfigClusterRoleBindingFailed''
            ''failed to sync ClusterRoleBinding. error: '' err w6
      | (None, w6) \<Rightarrow>
     (case syncDeployment d dexServer w6 of
        (Some err, w7) \<Rightarrow>
          stepFailed d dexServer ''ConfigDeploymentFailed''
            ''failed to sync Deployment. error: '' err w7
      | (None, w7) \<Rightarrow>
     (case syncIngress d dexServer w7 of
        (Panic, w8) \<Rightarrow> (Panicked, w8)
      | (Return (Some err), w8) \<Rightarrow>
          stepFailed d dexServer ''ConfigIngressFailed'' ''failed to sync Ingress. error: '' err w8
      | (Return None, w8) \<Rightarrow>
     (case updateDexServerStatusConditions d dexServer [appliedCondition] w8 of
        (Some err, w9) \<Rightarrow> (Returned noResult (Some err), w9)
      | (None, w9) \<Rightarrow>
          (Returned \<lparr>Requeue = True, RequeueAfter = 1 * Hour\<rparr> None, w9)))))))))))"

text \<open>
  The pass as section 4.1 and the design notes of the specification describe it: a table of
  the steps in their order, each with its reason code and message prefix, and one loop that
  runs the steps, stops at the first failure and records its condition.
\<close>

type_synonym step = "Deps \<Rightarrow> DexServer \<Rightarrow> World \<Rightarrow> error option go \<times> World"

definition returning ::
  "(Deps \<Rightarrow> DexServer \<Rightarrow> World \<Rightarrow> error option \<times> World) \<Rightarrow> step" where
  "returning f d dexServer w = (case f d dexServer w of (r, w') \<Rightarrow> (Return r, w'))"

record StepEntry =
  action :: step
  reasonCode :: string
  messagePrefix :: string

definition stepTable :: "StepEntry list" where
  "stepTable =
     [\<lparr>action = returning manageMTLSSecret, reasonCode = ''ConfigMTLSSecretFailed'',
       messagePrefix = ''failed to configure MTLS secret. error: ''\<rparr>,
      \<lparr>action = returning syncConfigMap, reasonCode = ''ConfigMapFailed'',
       messagePrefix = ''failed to sync ConfigMap. error: ''\<rparr>,
      \<lparr>action = returning syncService, reasonCode = ''ConfigHTTPServiceFailed'',
       messagePrefix = ''failed to sync http service. error: ''\<rparr>,
      \<lparr>action = returning syncServiceGrpc, reasonCode = ''ConfigGRPCServiceFailed'',
       messagePrefix = ''failed to sync grpc service. error: ''\<rparr>,
      \<lparr>action = returning syncServiceAccount, reasonCode = ''ConfigServiceAccountFailed'',
       messagePrefix = ''failed to sync ServiceAccount. error: ''\<rparr>,
      \<lparr>action = returning syncClusterRoleBinding, reasonCode = ''ConfigClusterRoleBindingFailed'',
       messagePrefix = ''failed to sync ClusterRoleBinding. error: ''\<rparr>,
      \<lparr>action = returning syncDeployment, reasonCode = ''ConfigDeploymentFailed'',
       messagePrefix = ''failed to sync Deployment. error: ''\<rparr>,
      \<lparr>action = syncIngress, reasonCode = ''ConfigIngressFailed'',
       messagePrefix = ''failed to sync Ingress. error: ''\<rparr>]"

fun runSteps :: "Deps \<Rightarrow> DexServer \<Rightarrow> StepEntry list \<Rightarrow> World \<Rightarrow> Outcome \<times> World" where
  "runSteps d dexServer [] w =
     (case updateDexServerStatusConditions d dexServer [appliedCondition] w of
        (Some err, w') \<Rightarrow> (Returned noResult (Some err), w')
      | (None, w') \<Rightarrow> (Returned \<lparr>Requeue = True, RequeueAfter = Hour\<rparr> None, w'))"
| "runSteps d dexServer (s # rest) w =
     (case action s d dexServer w of
        (Panic, w') \<Rightarrow> (Panicked, w')
      | (Return (Some err), w') \<Rightarrow>
          stepFailed d dexServer (reasonCode s) (messagePrefix s) err w'
      | (Return None, w') \<Rightarrow> runSteps d dexServer rest w')"

text \<open>
  The steps of a list that run before the first one that does not succeed, and the state they
  leave: \<open>Some\<close> if all of them succeed.
\<close>

fun runAll :: "Deps \<Rightarrow> DexServer \<Rightarrow> StepEntry list \<Rightarrow> World \<Rightarrow> World option" where
  "runAll d dexServer [] w = Some w"
| "runAll d dexServer (s # rest) w =
     (case action s d dexServer w of
        (Return None, w') \<Rightarrow> runAll d dexServer rest w'
      | _ \<Rightarrow> None)"

text \<open>Whether a deployment was handed to the applier.\<close>

definition deploymentApplied :: "World \<Rightarrow> bool" where
  "deploymentApplied w \<longleftrightarrow> DEPLOYMENT_TEMPLATE \<in> Template ` set (applied w)"

subsection \<open>The restart predicate of the owned deployment\<close>

text \<open>
  The deployments of an update event: the metadata, the generation and the annotations of the
  pod template (\<^verbatim>\<open>Spec.Template.ObjectMeta.Annotations\<close>), as a list of pairs with one
  pair for each key, so that the length is that of the Go map.
\<close>

record Deployment = ObjectMeta +
  Generation :: int
  TemplateAnnotations :: "(string \<times> string) list"

record UpdateEvent =
  ObjectOld :: Deployment
  ObjectNew :: Deployment

definition RESTARTED_AT :: string where
  "RESTARTED_AT = ''kubectl.kubernetes.io/restartedAt''"

text \<open>
  \<^verbatim>\<open>UpdateFunc\<close> of \<^verbatim>\<open>ignoreDeploymentRestartPredicate\<close>, with the map
  \<^verbatim>\<open>restartsInProgress\<close> that the closure keeps: whether the event is admitted, and the
  map afterwards.
\<close>

definition UpdateFunc ::
  "(string \<rightharpoonup> int) \<Rightarrow> UpdateEvent \<Rightarrow> bool \<times> (string \<rightharpoonup> int)" where
  "UpdateFunc restartsInProgress e =
     (if length (OwnerReferences (ObjectOld e)) = 0 then (False, restartsInProgress)
      else if Kind (OwnerReferences (ObjectOld e) ! 0) \<noteq> ''DexServer'' then (False, restartsInProgress)
      else
        (let namespacedName = Namespace (ObjectNew e) @ '':'' @ Name (ObjectNew e);
             (ignore, restarts) =
               (case restartsInProgress namespacedName of
                  Some restartInProgressGeneration \<Rightarrow>
                    if restartInProgressGeneration = Generation (ObjectNew e)
                    then (True, restartsInProgress)
                    else (False, restartsInProgress(namespacedName := None))
                | None \<Rightarrow> (False, restartsInProgress))
         in if ignore then (False, restarts)
            else
              (case map_of (TemplateAnnotations (ObjectNew e)) RESTARTED_AT of
                 Some newDeploymentRestartedAt \<Rightarrow>
                   if length (TemplateAnnotations (ObjectOld e)) = 0 \<or>
                      newDeploymentRestartedAt \<noteq> valueOf (TemplateAnnotations (ObjectOld e)) RESTARTED_AT
                   then (False, restarts(namespacedName \<mapsto> Generation (ObjectNew e)))
                   else (True, restarts)
               | None \<Rightarrow> (True, restarts))))"

text \<open>
  The two guards at the head of \<^verbatim>\<open>UpdateFunc\<close>, passed: the old object has an owner and
  the first owner is a DexServer. And the key of the map, namespace and name of the new object.
\<close>

definition ownedByDexServer :: "UpdateEvent \<Rightarrow> bool" where
  "ownedByDexServer e \<longleftrightarrow>
     length (OwnerReferences (ObjectOld e)) \<noteq> 0 \<and>
     Kind (OwnerReferences (ObjectOld e) ! 0) = ''DexServer''"

definition namespacedName :: "UpdateEvent \<Rightarrow> string" where
  "namespacedName e = Namespace (ObjectNew e) @ '':'' @ Name (ObjectNew e)"

text \<open>The predicate over a sequence of events: the decisions, and the map at the end.\<close>

fun processEvents ::
  "(string \<rightharpoonup> int) \<Rightarrow> UpdateEvent list \<Rightarrow> bool list \<times> (string \<rightharpoonup> int)" where
  "processEvents restarts [] = ([], restarts)"
| "processEvents restarts (e # es) =
     (case UpdateFunc restarts e of
        (admitted, restarts') \<Rightarrow>
          (case processEvents restarts' es of
             (decisions, final) \<Rightarrow> (admitted # decisions, final)))"

subsection \<open>Example inputs\<close>

text \<open>
  An instance \<open>idp/dex\<close> with one GitHub connector whose client secret is the secret
  \<open>idp/github-secret\<close>, and collaborators that do not fail: the image is set, certificates
  are generated with an expiry on January 1, 2030, the renewal window is the day before the
  expiry, and the serializers give stand-ins for the YAML and JSON texts.
\<close>

definition zeroRef :: SecretReference where
  "zeroRef = \<lparr>RefName = [], RefNamespace = []\<rparr>"

definition zeroGitHub :: GitHubConfigSpec where
  "zeroGitHub = \<lparr>GitHub_ClientID = [], GitHub_ClientSecretRef = zeroRef, GitHub_RedirectURI = [],
     GitHub_Org = [], GitHub_Orgs = []\<rparr>"

definition zeroMicrosoft :: MicrosoftConfigSpec where
  "zeroMicrosoft = \<lparr>Microsoft_ClientID = [], Microsoft_ClientSecretRef = zeroRef,
     Microsoft_RedirectURI = [], Microsoft_Tenant = []\<rparr>"

definition zeroLDAP :: LDAPConfigSpec where
  "zeroLDAP = \<lparr>LDAP_Host = [], LDAP_InsecureNoSSL = False, LDAP_InsecureSkipVerify = False,
     LDAP_StartTLS = False, LDAP_RootCARef = zeroRef, LDAP_BindDN = [], LDAP_BindPWRef = zeroRef,
     LDAP_UsernamePrompt = [], LDAP_UserSearch = zeroUserSearch, LDAP_GroupSearch = zeroGroupSearch\<rparr>"

definition exampleConnector :: ConnectorSpec where
  "exampleConnector =
     \<lparr>ConnectorKind = ConnectorTypeGitHub, ConnectorId = ''gh'', ConnectorName = ''GitHub'',
      GitHub = zeroGitHub\<lparr>GitHub_ClientID := ''client-id'',
                 GitHub_ClientSecretRef := \<lparr>RefName = ''github-secret'', RefNamespace = []\<rparr>\<rparr>,
      Microsoft = zeroMicrosoft, LDAP = zeroLDAP\<rparr>"

definition exampleLdapConnector :: ConnectorSpec where
  "exampleLdapConnector =
     \<lparr>ConnectorKind = ConnectorTypeLDAP, ConnectorId = ''ad'', ConnectorName = ''Directory'',
      GitHub = zeroGitHub, Microsoft = zeroMicrosoft,
      LDAP = zeroLDAP\<lparr>LDAP_Host := ''ldap.example.com:636'',
               LDAP_BindPWRef := \<lparr>RefName = ''ldap-secret'', RefNamespace = []\<rparr>\<rparr>\<rparr>"

definition exampleDexServer :: DexServer where
  "exampleDexServer =
     \<lparr>Name = ''dex'', Namespace = ''idp'', Labels = Map.empty, Annotations = Map.empty,
      OwnerReferences = [],
      Spec = \<lparr>Issuer = ''https://dex.example.com'', IngressCertificateRef = [],
              Connectors = [exampleConnector]\<rparr>,
      Conditions = []\<rparr>"

definition exampleSecret :: Secret where
  "exampleSecret =
     \<lparr>Name = ''github-secret'', Namespace = ''idp'', Labels = [IDP_CREDENTIAL_LABEL \<mapsto> []],
      Annotations = Map.empty, OwnerReferences = [], Data = [''clientSecret'' \<mapsto> ''s3cr3t'']\<rparr>"

definition exampleCerts :: MTLSCerts where
  "exampleCerts =
     \<lparr>caPEM = ''CA'', caPrivKeyPEM = ''CAKEY'', certPEM = ''CERT'', certPrivKeyPEM = ''KEY'',
      clientPEM = ''CLIENT'', clientPrivKeyPEM = ''CLIENTKEY'', expiry = 1893456000\<rparr>"

definition exampleDeps :: Deps where
  "exampleDeps =
     \<lparr>now = 1700000000,
      Getenv = [DEX_IMAGE_ENV_NAME \<mapsto> ''quay.io/dexidp/dex:v2.30''],
      generateMTLSCerts = (\<lambda>ns. Inr exampleCerts),
      inCertRenewalWindow = (\<lambda>t. t - 86400 \<le> 1700000000),
      ParseRFC3339 = (\<lambda>s. if s = ''2030-01-01T00:00:00Z'' then Some 1893456000
                           else if s = ''2023-11-15T00:00:00Z'' then Some 1700006400 else None),
      yamlMarshalConnectors = (\<lambda>cs. Inr (concat (map (\<lambda>c. DexId c @ ''='' @ ClientSecret (Config c) @ '';'') cs))),
      yamlMarshalVolumeMounts = (\<lambda>ms. Inr (concat (map MountPath ms))),
      yamlMarshalVolumes = (\<lambda>vs. Inr (concat (map VolumeName vs))),
      jsonMarshal = (\<lambda>c. Inr (Name c @ '':'' @ lookupOrEmpty (ConfigData c) ''ConnectorsYaml'')),
      urlParseHost = (\<lambda>u. if u = ''https://dex.example.com'' then Some ''dex.example.com'' else None),
      getFault = (\<lambda>kind k. None),
      createFault = (\<lambda>k. None),
      updateFault = (\<lambda>k. None),
      statusUpdateFault = (\<lambda>k. None),
      applyFault = (\<lambda>template. None)\<rparr>"

text \<open>The cluster with the instance and nothing else: the credential secret does not exist.\<close>

definition exampleWorld :: World where
  "exampleWorld =
     \<lparr>dexServers = [(''idp'', ''dex'') \<mapsto> exampleDexServer], secrets = Map.empty,
      configMaps = Map.empty, applied = []\<rparr>"

text \<open>The same cluster with the credential secret.\<close>

definition exampleWorldWithSecret :: World where
  "exampleWorldWithSecret =
     exampleWorld\<lparr>secrets := [(''idp'', ''github-secret'') \<mapsto> exampleSecret]\<rparr>"



text \<open>
  An instance with an issuer that \<^verbatim>\<open>url.Parse\<close> rejects (a colon at the head of the
  string: missing protocol scheme), and the cluster that holds it with the credential secret.
\<close>

definition exampleDexServerBadIssuer :: DexServer where
  "exampleDexServerBadIssuer =
     exampleDexServer\<lparr>Spec := (Spec exampleDexServer)\<lparr>Issuer := ''://dex.example.com''\<rparr>\<rparr>"

definition exampleWorldBadIssuer :: World where
  "exampleWorldBadIssuer =
     exampleWorldWithSecret\<lparr>dexServers := [(''idp'', ''dex'') \<mapsto> exampleDexServerBadIssuer]\<rparr>"

text \<open>
  Three variations of the collaborators: the applier fails on the gRPC service, the image is
  not set, and reading the credential secret fails with an error other than not-found.
\<close>

definition exampleDepsGrpcDown :: Deps where
  "exampleDepsGrpcDown =
     exampleDeps\<lparr>applyFault := (\<lambda>template.
        if template = ''dex-server/service_grpc.yaml'' then Some (Error False ''connection refused'')
        else None)\<rparr>"

definition exampleDepsNoImage :: Deps where
  "exampleDepsNoImage = exampleDeps\<lparr>Getenv := Map.empty\<rparr>"

definition exampleDepsTimeout :: Deps where
  "exampleDepsTimeout =
     exampleDeps\<lparr>getFault := (\<lambda>kind k.
        if kind = ''Secret'' \<and> k = (''idp'', ''github-secret'') then Some (Error False ''i/o timeout'')
        else None)\<rparr>"

text \<open>
  Update events on the deployment \<open>idp/dex\<close>, owned by the instance: the deployment at a
  generation with given annotations of its pod template, and a restart stamp.
\<close>

definition exampleDeployment :: "int \<Rightarrow> (string \<times> string) list \<Rightarrow> Deployment" where
  "exampleDeployment g annotations =
     \<lparr>Name = ''dex'', Namespace = ''idp'', Labels = Map.empty, Annotations = Map.empty,
      OwnerReferences = [\<lparr>Kind = ''DexServer'', OwnerName = ''dex''\<rparr>],
      Generation = g, TemplateAnnotations = annotations\<rparr>"

definition exampleStamp :: "(string \<times> string) list" where
  "exampleStamp = [(RESTARTED_AT, ''2024-02-29T12:34:56Z'')]"

section \<open>Properties\<close>

subsection \<open>Merging status conditions\<close>

lemma SetStatusCondition_absent:
  "Type u \<notin> Type ` set xs \<Longrightarrow> SetStatusCondition clock xs u = xs @ [u]"
  by (induction xs) auto

lemma SetStatusCondition_found:
  "i < length xs \<Longrightarrow> Type (xs ! i) = Type u \<Longrightarrow> \<forall>j<i. Type (xs ! j) \<noteq> Type u \<Longrightarrow>
   SetStatusCondition clock xs u =
     (if Status (xs ! i) \<noteq> Status u \<or> Reason (xs ! i) \<noteq> Reason u \<or> Message (xs ! i) \<noteq> Message u
      then xs[i := u\<lparr>LastTransitionTime := clock\<rparr>] else xs)"
proof (induction xs arbitrary: i)
  case Nil
  then show ?case by simp
next
  case (Cons x xs)
  show ?case
  proof (cases i)
    case 0
    with Cons.prems show ?thesis by simp
  next
    case (Suc k)
    with Cons.prems have hd: "Type x \<noteq> Type u" by auto
    from Suc Cons.prems have "k < length xs" "Type (xs ! k) = Type u" "\<forall>j<k. Type (xs ! j) \<noteq> Type u"
      by auto
    from Cons.IH[OF this] hd Suc show ?thesis by simp
  qed
qed

lemma SetStatusCondition_types:
  "map Type (SetStatusCondition clock xs u) =
     (if Type u \<in> Type ` set xs then map Type xs else map Type xs @ [Type u])"
  by (induction xs) auto

lemma SetStatusCondition_length: "length xs \<le> length (SetStatusCondition clock xs u)"
  by (induction xs) auto

lemma SetStatusCondition_other:
  "i < length xs \<Longrightarrow> Type (xs ! i) \<noteq> Type u \<Longrightarrow> SetStatusCondition clock xs u ! i = xs ! i"
proof (induction xs arbitrary: i)
  case Nil
  then show ?case by simp
next
  case (Cons x xs)
  then show ?case by (cases i) auto
qed

lemma SetStatusCondition_distinct:
  "distinct (map Type xs) \<Longrightarrow> distinct (map Type (SetStatusCondition clock xs u))"
  by (simp add: SetStatusCondition_types)

lemma merge_snoc:
  "mergeStatusConditions clock ex (ups @ [u]) = SetStatusCondition clock (mergeStatusConditions clock ex ups) u"
  by (simp add: mergeStatusConditions_def)

lemma merge_distinct:
  "distinct (map Type ex) \<Longrightarrow> distinct (map Type (mergeStatusConditions clock ex ups))"
  by (induction ups rule: rev_induct) (simp_all add: mergeStatusConditions_def SetStatusCondition_distinct)

lemma merge_preserved:
  "i < length ex \<Longrightarrow> Type (ex ! i) \<notin> Type ` set ups \<Longrightarrow>
   i < length (mergeStatusConditions clock ex ups) \<and> mergeStatusConditions clock ex ups ! i = ex ! i"
proof (induction ups rule: rev_induct)
  case Nil
  then show ?case by (simp add: mergeStatusConditions_def)
next
  case (snoc u ups)
  then have IH: "i < length (mergeStatusConditions clock ex ups)" "mergeStatusConditions clock ex ups ! i = ex ! i"
    and ne: "Type (ex ! i) \<noteq> Type u" by auto
  have "i < length (SetStatusCondition clock (mergeStatusConditions clock ex ups) u)"
    using IH(1) SetStatusCondition_length[of "mergeStatusConditions clock ex ups" clock u] by simp
  moreover have "SetStatusCondition clock (mergeStatusConditions clock ex ups) u ! i = ex ! i"
    using SetStatusCondition_other[of i "mergeStatusConditions clock ex ups" u clock] IH ne by simp
  ultimately show ?case by (simp add: merge_snoc)
qed

lemma merges_distinct:
  "distinct (map Type (foldl (mergeStatusConditions clock) [] batches))"
  by (induction batches rule: rev_induct) (simp_all add: merge_distinct)

text \<open>
  C4. Merging condition lists by type. With no update the existing list is returned, and each
  further update is set into the result of the updates before it. Setting one update: if a
  record of its type exists, the first such record is replaced in place, with the clock as its
  last-transition time, if status, reason or message differs, and the list is left untouched
  otherwise; if no record has its type, the update is appended. An existing record whose type
  no update has keeps its place and its content. If the existing list has at most one record
  for each type, so has the result; hence every list that merges build from the empty list
  has at most one record for each type. Existing \<open>[{A, true}]\<close> merged with \<open>[{A, false, R}]\<close> is
  the single record \<open>{A, false, R}\<close>, and merged with \<open>[{B, true}]\<close> it is both records.
\<close>

theorem mergeStatusConditions_by_type:
  "mergeStatusConditions clock existing [] = existing \<and>
   mergeStatusConditions clock existing (updates @ [u]) =
     SetStatusCondition clock (mergeStatusConditions clock existing updates) u \<and>
   (i < length xs \<and> Type (xs ! i) = Type u \<and> (\<forall>j<i. Type (xs ! j) \<noteq> Type u) \<longrightarrow>
      SetStatusCondition clock xs u =
        (if Status (xs ! i) \<noteq> Status u \<or> Reason (xs ! i) \<noteq> Reason u \<or> Message (xs ! i) \<noteq> Message u
         then xs[i := u\<lparr>LastTransitionTime := clock\<rparr>] else xs)) \<and>
   (Type u \<notin> Type ` set xs \<longrightarrow> SetStatusCondition clock xs u = xs @ [u]) \<and>
   (k < length existing \<and> Type (existing ! k) \<notin> Type ` set updates \<longrightarrow>
      k < length (mergeStatusConditions clock existing updates) \<and>
      mergeStatusConditions clock existing updates ! k = existing ! k) \<and>
   (distinct (map Type existing) \<longrightarrow>
      distinct (map Type (mergeStatusConditions clock existing updates))) \<and>
   distinct (map Type (foldl (mergeStatusConditions clock) [] batches)) \<and>
   mergeStatusConditions clock
     [\<lparr>Type = A, Status = ConditionTrue, Reason = r, Message = m, LastTransitionTime = t\<rparr>]
     [\<lparr>Type = A, Status = ConditionFalse, Reason = R, Message = m', LastTransitionTime = t'\<rparr>] =
     [\<lparr>Type = A, Status = ConditionFalse, Reason = R, Message = m', LastTransitionTime = clock\<rparr>] \<and>
   (A \<noteq> B \<longrightarrow>
      mergeStatusConditions clock
        [\<lparr>Type = A, Status = ConditionTrue, Reason = r, Message = m, LastTransitionTime = t\<rparr>]
        [\<lparr>Type = B, Status = ConditionTrue, Reason = R, Message = m', LastTransitionTime = t'\<rparr>] =
        [\<lparr>Type = A, Status = ConditionTrue, Reason = r, Message = m, LastTransitionTime = t\<rparr>,
         \<lparr>Type = B, Status = ConditionTrue, Reason = R, Message = m', LastTransitionTime = t'\<rparr>])"
proof (intro conjI impI)
  show "mergeStatusConditions clock existing [] = existing"
    by (simp add: mergeStatusConditions_def)
  show "mergeStatusConditions clock existing (updates @ [u]) =
     SetStatusCondition clock (mergeStatusConditions clock existing updates) u"
    by (rule merge_snoc)
  show "SetStatusCondition clock xs u =
        (if Status (xs ! i) \<noteq> Status u \<or> Reason (xs ! i) \<noteq> Reason u \<or> Message (xs ! i) \<noteq> Message u
         then xs[i := u\<lparr>LastTransitionTime := clock\<rparr>] else xs)"
    if "i < length xs \<and> Type (xs ! i) = Type u \<and> (\<forall>j<i. Type (xs ! j) \<noteq> Type u)"
    using that SetStatusCondition_found[of i xs u clock] by blast
  show "SetStatusCondition clock xs u = xs @ [u]" if "Type u \<notin> Type ` set xs"
    using that by (rule SetStatusCondition_absent)
  show "k < length (mergeStatusConditions clock existing updates)"
    if "k < length existing \<and> Type (existing ! k) \<notin> Type ` set updates"
    using that merge_preserved[of k existing updates clock] by blast
  show "mergeStatusConditions clock existing updates ! k = existing ! k"
    if "k < length existing \<and> Type (existing ! k) \<notin> Type ` set updates"
    using that merge_preserved[of k existing updates clock] by blast
  show "distinct (map Type (mergeStatusConditions clock existing updates))"
    if "distinct (map Type existing)"
    using that by (rule merge_distinct)
  show "distinct (map Type (foldl (mergeStatusConditions clock) [] batches))"
    by (rule merges_distinct)
  show "mergeStatusConditions clock
     [\<lparr>Type = A, Status = ConditionTrue, Reason = r, Message = m, LastTransitionTime = t\<rparr>]
     [\<lparr>Type = A, Status = ConditionFalse, Reason = R, Message = m', LastTransitionTime = t'\<rparr>] =
     [\<lparr>Type = A, Status = ConditionFalse, Reason = R, Message = m', LastTransitionTime = clock\<rparr>]"
    by (simp add: mergeStatusConditions_def)
  show "mergeStatusConditions clock
        [\<lparr>Type = A, Status = ConditionTrue, Reason = r, Message = m, LastTransitionTime = t\<rparr>]
        [\<lparr>Type = B, Status = ConditionTrue, Reason = R, Message = m', LastTransitionTime = t'\<rparr>] =
        [\<lparr>Type = A, Status = ConditionTrue, Reason = r, Message = m, LastTransitionTime = t\<rparr>,
         \<lparr>Type = B, Status = ConditionTrue, Reason = R, Message = m', LastTransitionTime = t'\<rparr>]"
    if "A \<noteq> B"
    using that by (simp add: mergeStatusConditions_def)
qed

theorem mergeStatusConditions_by_type_witness:
  "(0::nat) < length [\<lparr>Type = ''Applied'', Status = ConditionTrue, Reason = ''Applied'', Message = ''ok'', LastTransitionTime = 1\<rparr>] \<and>
   SetStatusCondition 7
     [\<lparr>Type = ''Applied'', Status = ConditionTrue, Reason = ''Applied'', Message = ''ok'', LastTransitionTime = 1\<rparr>]
     \<lparr>Type = ''Applied'', Status = ConditionFalse, Reason = ''ConfigMapFailed'', Message = ''no'', LastTransitionTime = 0\<rparr> =
     [\<lparr>Type = ''Applied'', Status = ConditionFalse, Reason = ''ConfigMapFailed'', Message = ''no'', LastTransitionTime = 7\<rparr>] \<and>
   ''Ready'' \<notin> Type ` set [\<lparr>Type = ''Applied'', Status = ConditionTrue, Reason = ''Applied'', Message = ''ok'', LastTransitionTime = 1\<rparr>] \<and>
   distinct (map Type [\<lparr>Type = ''Applied'', Status = ConditionTrue, Reason = ''Applied'', Message = ''ok'', LastTransitionTime = 1\<rparr>]) \<and>
   distinct (map Type (mergeStatusConditions 7
     [\<lparr>Type = ''Applied'', Status = ConditionTrue, Reason = ''Applied'', Message = ''ok'', LastTransitionTime = 1\<rparr>]
     [\<lparr>Type = ''Ready'', Status = ConditionTrue, Reason = ''Up'', Message = ''yes'', LastTransitionTime = 3\<rparr>])) \<and>
   mergeStatusConditions 7
     [\<lparr>Type = ''Applied'', Status = ConditionTrue, Reason = ''Applied'', Message = ''ok'', LastTransitionTime = 1\<rparr>]
     [\<lparr>Type = ''Ready'', Status = ConditionTrue, Reason = ''Up'', Message = ''yes'', LastTransitionTime = 3\<rparr>] ! 0 =
     \<lparr>Type = ''Applied'', Status = ConditionTrue, Reason = ''Applied'', Message = ''ok'', LastTransitionTime = 1\<rparr> \<and>
   mergeStatusConditions 7
     [\<lparr>Type = ''Applied'', Status = ConditionTrue, Reason = ''Applied'', Message = ''ok'', LastTransitionTime = 1\<rparr>]
     [\<lparr>Type = ''Ready'', Status = ConditionTrue, Reason = ''Up'', Message = ''yes'', LastTransitionTime = 3\<rparr>] =
     [\<lparr>Type = ''Applied'', Status = ConditionTrue, Reason = ''Applied'', Message = ''ok'', LastTransitionTime = 1\<rparr>,
      \<lparr>Type = ''Ready'', Status = ConditionTrue, Reason = ''Up'', Message = ''yes'', LastTransitionTime = 3\<rparr>]"
  using mergeStatusConditions_by_type
    [where clock = 7
       and existing = "[\<lparr>Type = ''Applied'', Status = ConditionTrue, Reason = ''Applied'', Message = ''ok'', LastTransitionTime = 1\<rparr>]"
       and updates = "[]"
       and u = "\<lparr>Type = ''Ready'', Status = ConditionTrue, Reason = ''Up'', Message = ''yes'', LastTransitionTime = 3\<rparr>"
       and i = 0
       and xs = "[\<lparr>Type = ''Applied'', Status = ConditionTrue, Reason = ''Applied'', Message = ''ok'', LastTransitionTime = 1\<rparr>]"
       and k = 0 and A = "''Applied''" and B = "''Ready''"]
  by (simp add: mergeStatusConditions_def)

subsection \<open>The mutual-TLS secret\<close>

lemma digit_0: "digit 0 = CHR ''0''"
  by (simp add: digit_def)

lemma decimal_1: "0 \<le> u \<Longrightarrow> u < 10 \<Longrightarrow> decimal u = [digit u]"
  by (simp add: decimal.simps[of u])

lemma decimal_step: "10 \<le> u \<Longrightarrow> decimal u = decimal (u div 10) @ [digit u]"
  by (simp add: decimal.simps[of u])

lemma decimal_2: "10 \<le> u \<Longrightarrow> u < 100 \<Longrightarrow> decimal u = [digit (u div 10), digit u]"
  by (simp add: decimal_step decimal_1)

lemma decimal_3:
  assumes "100 \<le> u" "u < 1000"
  shows "decimal u = [digit (u div 100), digit (u div 10), digit u]"
proof -
  have "10 \<le> u div 10" "u div 10 < 100" "u div 10 div 10 = u div 100" using assms by linarith+
  then show ?thesis using assms decimal_step[of u] decimal_2[of "u div 10"] by simp
qed

lemma decimal_4:
  assumes "1000 \<le> u" "u < 10000"
  shows "decimal u = [digit (u div 1000), digit (u div 100), digit (u div 10), digit u]"
proof -
  have "100 \<le> u div 10" "u div 10 < 1000" "u div 10 div 100 = u div 1000"
    "u div 10 div 10 = u div 100" using assms by linarith+
  then show ?thesis using assms decimal_step[of u] decimal_3[of "u div 10"] by simp
qed

lemma appendInt_year:
  assumes "0 \<le> y" "y \<le> 9999"
  shows "appendInt y 4 = [digit (y div 1000), digit (y div 100), digit (y div 10), digit y]"
proof -
  consider "y < 10" | "10 \<le> y" "y < 100" | "100 \<le> y" "y < 1000" | "1000 \<le> y"
    by linarith
  then show ?thesis
  proof cases
    case 1
    then show ?thesis using assms
      by (simp add: appendInt_def decimal_1 digit_0 numeral_eq_Suc)
  next
    case 2
    then show ?thesis using assms
      by (simp add: appendInt_def decimal_2 digit_0 numeral_eq_Suc)
  next
    case 3
    then show ?thesis using assms
      by (simp add: appendInt_def decimal_3 digit_0 numeral_eq_Suc)
  next
    case 4
    then show ?thesis using assms
      by (simp add: appendInt_def decimal_4 digit_0)
  qed
qed




lemma civil_n_lower: "0 \<le> (doe::int) \<Longrightarrow> doe \<le> 146096 \<Longrightarrow> 0 \<le> doe - doe div 1460 + doe div 36524 - doe div 146096"
  by linarith
lemma civil_n_upper:
  assumes "0 \<le> (doe::int)" "doe \<le> 146096"
  shows "doe - doe div 1460 + doe div 36524 - doe div 146096 < 146000"
proof (cases "doe = 146096")
  case True
  then show ?thesis by simp
next
  case False
  then have "doe \<le> 146095" using assms by simp
  then have "doe div 36524 \<le> 3" "0 \<le> doe div 146096" using assms by linarith+
  moreover have "doe - doe div 1460 \<le> 145996" using assms by linarith
  ultimately show ?thesis by linarith
qed
lemma civil_n_last_year: "146037 \<le> (doe::int) \<Longrightarrow> doe \<le> 146096 \<Longrightarrow> 145635 \<le> doe - doe div 1460 + doe div 36524 - doe div 146096"
  by linarith
lemma civil_doe_last_year:
  assumes "0 \<le> (doe::int)" "145635 \<le> doe - doe div 1460 + doe div 36524 - doe div 146096"
  shows "145731 \<le> doe"
proof (rule ccontr)
  assume "\<not> 145731 \<le> doe"
  then have d: "doe \<le> 145730" by simp
  then have a: "doe div 36524 \<le> 3" "0 \<le> doe div 146096" using assms(1) by linarith+
  have "doe - doe div 1460 \<le> 145631" using d assms(1) by linarith
  with a assms(2) show False by linarith
qed

lemma civil_year_range:
  assumes "- 719528 \<le> z" "z \<le> 2932896"
  shows "0 \<le> fst (civilFromDays z) \<and> fst (civilFromDays z) \<le> 9999"
proof -
  define zp where "zp = z + 719468"
  define era where "era = zp div 146097"
  define doe where "doe = zp - era * 146097"
  define n where "n = doe - doe div 1460 + doe div 36524 - doe div 146096"
  define yoe where "yoe = n div 365"
  define doy where "doy = doe - (365 * yoe + yoe div 4 - yoe div 100)"
  define mp where "mp = (5 * doy + 2) div 153"
  define mm where "mm = (if mp < 10 then mp + 3 else mp - 9)"
  have yy: "fst (civilFromDays z) = yoe + era * 400 + (if mm \<le> 2 then 1 else 0)"
    unfolding civilFromDays_def Let_def mm_def mp_def doy_def yoe_def n_def doe_def era_def zp_def
    by (rule fst_conv)
  have zp: "- 60 \<le> zp" "zp \<le> 3652364" using assms by (simp_all add: zp_def)
  have era: "- 1 \<le> era" "era \<le> 24" using zp unfolding era_def by linarith+
  have doe: "0 \<le> doe" "doe \<le> 146096" unfolding doe_def era_def by linarith+
  have n: "0 \<le> n" "n < 146000"
    using doe civil_n_lower[of doe] civil_n_upper[of doe] unfolding n_def by blast+
  have yoe: "0 \<le> yoe" "yoe \<le> 399" using n unfolding yoe_def by linarith+
  have low: "0 \<le> yoe + era * 400 + (if mm \<le> 2 then 1 else 0)"
  proof (cases "0 \<le> era")
    case True
    then show ?thesis using yoe by simp
  next
    case False
    then have e: "era = - 1" using era by linarith
    then have d: "146037 \<le> doe" using zp unfolding doe_def by linarith
    then have "145635 \<le> n" using doe civil_n_last_year[of doe] unfolding n_def by blast
    then have y: "yoe = 399" using n unfolding yoe_def by linarith
    then have "306 \<le> doy" "doy \<le> 365" using d doe unfolding doy_def by simp_all
    then have "10 \<le> mp" "mp \<le> 11" unfolding mp_def by linarith+
    then have "mm \<le> 2" unfolding mm_def by simp
    then show ?thesis using e y by simp
  qed
  have high: "yoe + era * 400 + (if mm \<le> 2 then 1 else 0) \<le> 9999"
  proof (cases "era \<le> 23")
    case True
    then show ?thesis using yoe by simp
  next
    case False
    then have e: "era = 24" using era by linarith
    have d: "doe \<le> 146036" using zp e unfolding doe_def by linarith
    show ?thesis
    proof (cases "yoe \<le> 398")
      case True
      then show ?thesis using e by simp
    next
      case False
      then have y: "yoe = 399" using yoe by linarith
      then have "145635 \<le> n" unfolding yoe_def by linarith
      then have "145731 \<le> doe" using doe civil_doe_last_year[of doe] unfolding n_def by blast
      then have "0 \<le> doy" "doy \<le> 305" using y d unfolding doy_def by simp_all
      then have "0 \<le> mp" "mp < 10" unfolding mp_def by linarith+
      then have "\<not> mm \<le> 2" unfolding mm_def by simp
      then show ?thesis using e y by simp
    qed
  qed
  show ?thesis using low high yy by simp
qed

lemma FormatRFC3339_in_range:
  assumes "- 62167219200 \<le> t" "t \<le> 253402300799"
  shows "FormatRFC3339 t =
     (let (yy, mm, dd) = civilFromDays (t div 86400); s = t mod 86400
      in [digit (yy div 1000), digit (yy div 100), digit (yy div 10), digit yy] @ ''-'' @
         pad2 mm @ ''-'' @ pad2 dd @ ''T'' @
         pad2 (s div 3600) @ '':'' @ pad2 (s mod 3600 div 60) @ '':'' @ pad2 (s mod 60) @ ''Z'')"
proof -
  have "- 719528 \<le> t div 86400" "t div 86400 \<le> 2932896" using assms by linarith+
  then have "0 \<le> fst (civilFromDays (t div 86400)) \<and> fst (civilFromDays (t div 86400)) \<le> 9999"
    by (rule civil_year_range)
  moreover obtain yy mm dd where c: "civilFromDays (t div 86400) = (yy, mm, dd)"
    by (cases "civilFromDays (t div 86400)") auto
  ultimately have "appendInt yy 4 = [digit (yy div 1000), digit (yy div 100), digit (yy div 10), digit yy]"
    by (simp add: appendInt_year)
  then show ?thesis
    by (simp add: FormatRFC3339_def Let_def c)
qed

lemma FormatRFC3339_shape:
  assumes "- 62167219200 \<le> t" "t \<le> 253402300799"
  shows "length (FormatRFC3339 t) = 20 \<and> FormatRFC3339 t ! 4 = CHR ''-'' \<and>
   FormatRFC3339 t ! 7 = CHR ''-'' \<and> FormatRFC3339 t ! 10 = CHR ''T'' \<and>
   FormatRFC3339 t ! 13 = CHR '':'' \<and> FormatRFC3339 t ! 16 = CHR '':'' \<and>
   FormatRFC3339 t ! 19 = CHR ''Z''"
  unfolding FormatRFC3339_in_range[OF assms]
  by (simp add: pad2_def Let_def split: prod.splits)

lemma FormatRFC3339_samples:
  "FormatRFC3339 0 = ''1970-01-01T00:00:00Z'' \<and>
   FormatRFC3339 1709210096 = ''2024-02-29T12:34:56Z'' \<and>
   FormatRFC3339 253402300799 = ''9999-12-31T23:59:59Z'' \<and>
   FormatRFC3339 253402300800 = ''10000-01-01T00:00:00Z''"
  by code_simp

lemma defineMTLSSecret_Data:
  "Data (defineMTLSSecret m c) =
      [''ca.crt'' \<mapsto> caPEM c, ''ca.key'' \<mapsto> caPrivKeyPEM c,
       ''tls.crt'' \<mapsto> certPEM c @ certPEM c, ''tls.key'' \<mapsto> certPrivKeyPEM c,
       ''client.crt'' \<mapsto> clientPEM c @ clientPEM c, ''client.key'' \<mapsto> clientPrivKeyPEM c]"
  by (simp add: defineMTLSSecret_def)

lemma defineMTLSSecret_meta:
  "Name (defineMTLSSecret m c) = SECRET_MTLS_NAME \<and> Namespace (defineMTLSSecret m c) = Namespace m \<and>
   Annotations (defineMTLSSecret m c) = [MTLS_CERT_EXPIRY_ANNOTATION \<mapsto> FormatRFC3339 (expiry c)]"
  by (simp add: defineMTLSSecret_def)

text \<open>
  C10. In the secret that \<^verbatim>\<open>defineMTLSSecret\<close> builds, \<^verbatim>\<open>tls.crt\<close> and
  \<^verbatim>\<open>client.crt\<close> hold the PEM of the certificate twice in a row, the other four keys
  hold their PEM once, there is no further key, and the only annotation is the expiry,
  formatted as an RFC 3339 time stamp in UTC. For an expiry in the years 0000 to 9999 the
  stamp has twenty characters, with the two hyphens, the \<open>T\<close>, the two colons and the
  final \<open>Z\<close> in their places; the four instants show the digits, the last one in the year
  10000, where the stamp has twenty-one characters.
\<close>

theorem defineMTLSSecret_layout:
  "Data (defineMTLSSecret m c) ''tls.crt'' = Some (certPEM c @ certPEM c) \<and>
   Data (defineMTLSSecret m c) ''client.crt'' = Some (clientPEM c @ clientPEM c) \<and>
   Data (defineMTLSSecret m c) ''ca.crt'' = Some (caPEM c) \<and>
   Data (defineMTLSSecret m c) ''ca.key'' = Some (caPrivKeyPEM c) \<and>
   Data (defineMTLSSecret m c) ''tls.key'' = Some (certPrivKeyPEM c) \<and>
   Data (defineMTLSSecret m c) ''client.key'' = Some (clientPrivKeyPEM c) \<and>
   dom (Data (defineMTLSSecret m c)) =
     {''ca.crt'', ''ca.key'', ''tls.crt'', ''tls.key'', ''client.crt'', ''client.key''} \<and>
   Annotations (defineMTLSSecret m c) = [''auth.identitatem.io/expiry'' \<mapsto> FormatRFC3339 (expiry c)] \<and>
   (- 62167219200 \<le> expiry c \<and> expiry c \<le> 253402300799 \<longrightarrow>
      length (FormatRFC3339 (expiry c)) = 20 \<and>
      FormatRFC3339 (expiry c) ! 4 = CHR ''-'' \<and>
      FormatRFC3339 (expiry c) ! 7 = CHR ''-'' \<and>
      FormatRFC3339 (expiry c) ! 10 = CHR ''T'' \<and>
      FormatRFC3339 (expiry c) ! 13 = CHR '':'' \<and>
      FormatRFC3339 (expiry c) ! 16 = CHR '':'' \<and>
      FormatRFC3339 (expiry c) ! 19 = CHR ''Z'') \<and>
   FormatRFC3339 0 = ''1970-01-01T00:00:00Z'' \<and>
   FormatRFC3339 1709210096 = ''2024-02-29T12:34:56Z'' \<and>
   FormatRFC3339 253402300799 = ''9999-12-31T23:59:59Z'' \<and>
   FormatRFC3339 253402300800 = ''10000-01-01T00:00:00Z''"
proof -
  have dom: "dom (Data (defineMTLSSecret m c)) =
     {''ca.crt'', ''ca.key'', ''tls.crt'', ''tls.key'', ''client.crt'', ''client.key''}"
    unfolding defineMTLSSecret_Data by auto
  have ann: "Annotations (defineMTLSSecret m c) = [''auth.identitatem.io/expiry'' \<mapsto> FormatRFC3339 (expiry c)]"
    using defineMTLSSecret_meta[of m c] by (simp add: MTLS_CERT_EXPIRY_ANNOTATION_def)
  have vals: "Data (defineMTLSSecret m c) ''tls.crt'' = Some (certPEM c @ certPEM c)"
    "Data (defineMTLSSecret m c) ''client.crt'' = Some (clientPEM c @ clientPEM c)"
    "Data (defineMTLSSecret m c) ''ca.crt'' = Some (caPEM c)"
    "Data (defineMTLSSecret m c) ''ca.key'' = Some (caPrivKeyPEM c)"
    "Data (defineMTLSSecret m c) ''tls.key'' = Some (certPrivKeyPEM c)"
    "Data (defineMTLSSecret m c) ''client.key'' = Some (clientPrivKeyPEM c)"
    by (simp_all add: defineMTLSSecret_Data)
  from vals dom ann FormatRFC3339_shape[of "expiry c"] FormatRFC3339_samples
  show ?thesis by blast
qed

lemma FormatRFC3339_example: "FormatRFC3339 1893456000 = ''2030-01-01T00:00:00Z''"
  by code_simp

theorem defineMTLSSecret_layout_witness:
  "- 62167219200 \<le> expiry exampleCerts \<and> expiry exampleCerts \<le> 253402300799 \<and>
   Data (defineMTLSSecret exampleDexServer exampleCerts) ''tls.crt'' = Some ''CERTCERT'' \<and>
   Data (defineMTLSSecret exampleDexServer exampleCerts) ''client.crt'' = Some ''CLIENTCLIENT'' \<and>
   Data (defineMTLSSecret exampleDexServer exampleCerts) ''tls.key'' = Some ''KEY'' \<and>
   Annotations (defineMTLSSecret exampleDexServer exampleCerts) =
     [''auth.identitatem.io/expiry'' \<mapsto> ''2030-01-01T00:00:00Z''] \<and>
   length (FormatRFC3339 (expiry exampleCerts)) = 20 \<and>
   FormatRFC3339 (expiry exampleCerts) ! 10 = CHR ''T'' \<and>
   FormatRFC3339 (expiry exampleCerts) ! 19 = CHR ''Z''"
proof -
  have e: "expiry exampleCerts = 1893456000" "certPEM exampleCerts = ''CERT''"
    "clientPEM exampleCerts = ''CLIENT''" "certPrivKeyPEM exampleCerts = ''KEY''"
    by (simp_all add: exampleCerts_def)
  show ?thesis
    using defineMTLSSecret_layout[of exampleDexServer exampleCerts]
    by (simp add: e FormatRFC3339_example)
qed

subsection \<open>Connector credentials\<close>

lemma readSecretRef_result:
  "fst (readSecretRef d ref dataKey m w) =
     (case GetSecret d (secretRefKey ref m) w of
        Inl err \<Rightarrow> if isNotFound err then Inl err else Inr []
      | Inr resource \<Rightarrow> Inr (lookupOrEmpty (Data resource) dataKey))"
  by (simp add: readSecretRef_def secretRefKey_def Let_def lookupOrEmpty_def emptySecret_def
      split: sum.splits)

lemma readSecretRef_world:
  "snd (readSecretRef d ref dataKey m w) =
     (case GetSecret d (secretRefKey ref m) w of
        Inl err \<Rightarrow> if isNotFound err then w else checkAndAddLabelToSecret d emptySecret w
      | Inr resource \<Rightarrow> checkAndAddLabelToSecret d resource w)"
  by (simp add: readSecretRef_def secretRefKey_def Let_def split: sum.splits)

lemma getConnectorSecretFromRef_result:
  "credentialRef c = Some ref \<Longrightarrow>
   fst (getConnectorSecretFromRef d c m w) =
     (case GetSecret d (secretRefKey ref m) w of
        Inl err \<Rightarrow> if isNotFound err then Inl err else Inr []
      | Inr resource \<Rightarrow>
          Inr (lookupOrEmpty (Data resource)
                 (if ConnectorKind c = ConnectorTypeLDAP then ''bindPW'' else ''clientSecret'')))"
  by (cases "ConnectorKind c")
     (simp_all add: getConnectorSecretFromRef_def credentialRef_def readSecretRef_result)

lemma getConnectorSecretFromRef_world:
  "credentialRef c = Some ref \<Longrightarrow>
   snd (getConnectorSecretFromRef d c m w) =
     (case GetSecret d (secretRefKey ref m) w of
        Inl err \<Rightarrow> if isNotFound err then w else checkAndAddLabelToSecret d emptySecret w
      | Inr resource \<Rightarrow> checkAndAddLabelToSecret d resource w)"
  by (cases "ConnectorKind c")
     (simp_all add: getConnectorSecretFromRef_def credentialRef_def readSecretRef_world)

lemma renderConnectors_github_other_failure:
  assumes "ConnectorKind c = ConnectorTypeGitHub"
    and "GetSecret d (secretRefKey (GitHub_ClientSecretRef (GitHub c)) m) w = Inl err"
    and "\<not> isNotFound err"
  shows "renderConnectors d m [c] [] w =
           (Some [githubConnector c []], checkAndAddLabelToSecret d emptySecret w)"
proof -
  have ref: "credentialRef c = Some (GitHub_ClientSecretRef (GitHub c))"
    using assms(1) by (simp add: credentialRef_def)
  have "getConnectorSecretFromRef d c m w = (Inr [], checkAndAddLabelToSecret d emptySecret w)"
    using getConnectorSecretFromRef_result[OF ref, of d m w]
      getConnectorSecretFromRef_world[OF ref, of d m w] assms(2,3)
    by (simp add: prod_eq_iff)
  then show ?thesis using assms(1) by simp
qed

lemma renderConnectors_ldap_other_failure:
  assumes "ConnectorKind c = ConnectorTypeLDAP"
    and "GetSecret d (secretRefKey (LDAP_BindPWRef (LDAP c)) m) w = Inl err"
    and "\<not> isNotFound err"
    and "RefName (LDAP_RootCARef (LDAP c)) = []"
  shows "renderConnectors d m [c] [] w =
           (Some [ldapConnector c [] [] [] []], checkAndAddLabelToSecret d emptySecret w)"
proof -
  have ref: "credentialRef c = Some (LDAP_BindPWRef (LDAP c))"
    using assms(1) by (simp add: credentialRef_def)
  have "getConnectorSecretFromRef d c m w = (Inr [], checkAndAddLabelToSecret d emptySecret w)"
    using getConnectorSecretFromRef_result[OF ref, of d m w]
      getConnectorSecretFromRef_world[OF ref, of d m w] assms(2,3)
    by (simp add: prod_eq_iff)
  then show ?thesis using assms(1,4) by (simp add: ldapCertPaths_def)
qed

text \<open>
  C9. For a connector of a known type, \<^verbatim>\<open>getConnectorSecretFromRef\<close> returns an error
  exactly when reading the referenced secret fails with a not-found error. When the read fails
  in any other way the error is dropped and the empty string is returned with no error. The
  empty value then goes into the rendered connector: for a GitHub connector as the client
  secret, for an LDAP connector (here without a root CA reference) as the bind password.
\<close>

theorem getConnectorSecretFromRef_only_not_found:
  "credentialRef c = Some ref \<longrightarrow>
     ((\<exists>err. fst (getConnectorSecretFromRef d c m w) = Inl err) \<longleftrightarrow>
        (\<exists>err. GetSecret d (secretRefKey ref m) w = Inl err \<and> isNotFound err)) \<and>
     (GetSecret d (secretRefKey ref m) w = Inl err \<and> \<not> isNotFound err \<longrightarrow>
        fst (getConnectorSecretFromRef d c m w) = Inr [] \<and>
        (ConnectorKind c = ConnectorTypeGitHub \<longrightarrow>
           fst (renderConnectors d m [c] [] w) = Some [githubConnector c []] \<and>
           ClientSecret (Config (githubConnector c [])) = []) \<and>
        (ConnectorKind c = ConnectorTypeLDAP \<and> RefName (LDAP_RootCARef (LDAP c)) = [] \<longrightarrow>
           fst (renderConnectors d m [c] [] w) = Some [ldapConnector c [] [] [] []] \<and>
           BindPW (Config (ldapConnector c [] [] [] [])) = []))"
proof (intro impI conjI)
  assume ref: "credentialRef c = Some ref"
  show "(\<exists>err. fst (getConnectorSecretFromRef d c m w) = Inl err) \<longleftrightarrow>
        (\<exists>err. GetSecret d (secretRefKey ref m) w = Inl err \<and> isNotFound err)"
    unfolding getConnectorSecretFromRef_result[OF ref]
    by (auto split: sum.splits if_splits)
next
  assume ref: "credentialRef c = Some ref"
    and fails: "GetSecret d (secretRefKey ref m) w = Inl err \<and> \<not> isNotFound err"
  show "fst (getConnectorSecretFromRef d c m w) = Inr []"
    unfolding getConnectorSecretFromRef_result[OF ref] using fails by simp
next
  assume ref: "credentialRef c = Some ref"
    and fails: "GetSecret d (secretRefKey ref m) w = Inl err \<and> \<not> isNotFound err"
    and kind: "ConnectorKind c = ConnectorTypeGitHub"
  from ref kind have "ref = GitHub_ClientSecretRef (GitHub c)" by (simp add: credentialRef_def)
  with fails kind show "fst (renderConnectors d m [c] [] w) = Some [githubConnector c []]"
    using renderConnectors_github_other_failure[of c d m w err] by simp
next
  show "ClientSecret (Config (githubConnector c [])) = []"
    by (simp add: githubConnector_def)
next
  assume ref: "credentialRef c = Some ref"
    and fails: "GetSecret d (secretRefKey ref m) w = Inl err \<and> \<not> isNotFound err"
    and kind: "ConnectorKind c = ConnectorTypeLDAP \<and> RefName (LDAP_RootCARef (LDAP c)) = []"
  from ref kind have "ref = LDAP_BindPWRef (LDAP c)" by (simp add: credentialRef_def)
  with fails kind show "fst (renderConnectors d m [c] [] w) = Some [ldapConnector c [] [] [] []]"
    using renderConnectors_ldap_other_failure[of c d m w err] by simp
next
  show "BindPW (Config (ldapConnector c [] [] [] [])) = []"
    by (simp add: ldapConnector_def)
qed

theorem getConnectorSecretFromRef_only_not_found_witness:
  "credentialRef exampleConnector = Some \<lparr>RefName = ''github-secret'', RefNamespace = []\<rparr> \<and>
   secretRefKey \<lparr>RefName = ''github-secret'', RefNamespace = []\<rparr> exampleDexServer = (''idp'', ''github-secret'') \<and>
   GetSecret exampleDepsTimeout (''idp'', ''github-secret'') exampleWorldWithSecret =
     Inl (Error False ''i/o timeout'') \<and>
   fst (getConnectorSecretFromRef exampleDepsTimeout exampleConnector exampleDexServer exampleWorldWithSecret) =
     Inr [] \<and>
   fst (renderConnectors exampleDepsTimeout exampleDexServer [exampleConnector] [] exampleWorldWithSecret) =
     Some [githubConnector exampleConnector []] \<and>
   GetSecret exampleDeps (''idp'', ''github-secret'') exampleWorld =
     Inl (Error True ''Secret idp/github-secret not found'') \<and>
   (\<exists>err. fst (getConnectorSecretFromRef exampleDeps exampleConnector exampleDexServer exampleWorld) = Inl err) \<and>
   credentialRef exampleLdapConnector = Some \<lparr>RefName = ''ldap-secret'', RefNamespace = []\<rparr> \<and>
   GetSecret (exampleDeps\<lparr>getFault := \<lambda>kind k. Some (Error False ''conflict'')\<rparr>) (''idp'', ''ldap-secret'') exampleWorld =
     Inl (Error False ''conflict'') \<and>
   fst (renderConnectors (exampleDeps\<lparr>getFault := \<lambda>kind k. Some (Error False ''conflict'')\<rparr>)
          exampleDexServer [exampleLdapConnector] [] exampleWorld) =
     Some [ldapConnector exampleLdapConnector [] [] [] []]"
proof -
  let ?ref = "\<lparr>RefName = ''github-secret'', RefNamespace = []\<rparr>"
  let ?lref = "\<lparr>RefName = ''ldap-secret'', RefNamespace = []\<rparr>"
  let ?dc = "exampleDeps\<lparr>getFault := \<lambda>kind k. Some (Error False ''conflict'')\<rparr>"
  have ref: "credentialRef exampleConnector = Some ?ref"
    by (simp add: credentialRef_def exampleConnector_def zeroGitHub_def)
  have lref: "credentialRef exampleLdapConnector = Some ?lref"
    by (simp add: credentialRef_def exampleLdapConnector_def zeroLDAP_def)
  have key: "secretRefKey ?ref exampleDexServer = (''idp'', ''github-secret'')"
    by (simp add: secretRefKey_def exampleDexServer_def)
  have lkey: "secretRefKey ?lref exampleDexServer = (''idp'', ''ldap-secret'')"
    by (simp add: secretRefKey_def exampleDexServer_def)
  have timeout: "GetSecret exampleDepsTimeout (''idp'', ''github-secret'') exampleWorldWithSecret =
     Inl (Error False ''i/o timeout'')"
    by (simp add: GetSecret_def exampleDepsTimeout_def exampleDeps_def)
  have missing: "GetSecret exampleDeps (''idp'', ''github-secret'') exampleWorld =
     Inl (Error True ''Secret idp/github-secret not found'')"
    by (simp add: GetSecret_def notFound_def exampleDeps_def exampleWorld_def)
  have conflict: "GetSecret ?dc (''idp'', ''ldap-secret'') exampleWorld = Inl (Error False ''conflict'')"
    by (simp add: GetSecret_def exampleDeps_def)
  have kinds: "ConnectorKind exampleConnector = ConnectorTypeGitHub"
    "ConnectorKind exampleLdapConnector = ConnectorTypeLDAP"
    "RefName (LDAP_RootCARef (LDAP exampleLdapConnector)) = []"
    by (simp_all add: exampleConnector_def exampleLdapConnector_def zeroLDAP_def zeroRef_def)
  note t1 = getConnectorSecretFromRef_only_not_found
    [of exampleConnector ?ref exampleDepsTimeout exampleDexServer exampleWorldWithSecret
        "Error False ''i/o timeout''"]
  note t2 = getConnectorSecretFromRef_only_not_found
    [of exampleConnector ?ref exampleDeps exampleDexServer exampleWorld
        "Error False ''i/o timeout''"]
  note t3 = getConnectorSecretFromRef_only_not_found
    [of exampleLdapConnector ?lref ?dc exampleDexServer exampleWorld "Error False ''conflict''"]
  have r1: "fst (getConnectorSecretFromRef exampleDepsTimeout exampleConnector exampleDexServer exampleWorldWithSecret) = Inr []"
    "fst (renderConnectors exampleDepsTimeout exampleDexServer [exampleConnector] [] exampleWorldWithSecret) =
       Some [githubConnector exampleConnector []]"
    using t1 ref key timeout kinds by simp_all
  have r2: "\<exists>err. fst (getConnectorSecretFromRef exampleDeps exampleConnector exampleDexServer exampleWorld) = Inl err"
    using t2 ref key missing by simp
  have r3: "fst (renderConnectors ?dc exampleDexServer [exampleLdapConnector] [] exampleWorld) =
     Some [ldapConnector exampleLdapConnector [] [] [] []]"
    using t3 lref lkey conflict kinds by simp
  from ref lref key timeout missing conflict r1 r2 r3 show ?thesis by blast
qed

subsection \<open>Managing the mutual-TLS secret\<close>

lemma defineMTLSSecret_key:
  "(Namespace (defineMTLSSecret m c), Name (defineMTLSSecret m c)) = (Namespace m, SECRET_MTLS_NAME)"
  by (simp add: defineMTLSSecret_def)

lemma writeMTLSSecret_create:
  assumes "generateMTLSCerts d (Namespace m) = Inr c"
    and "createFault d (Namespace m, SECRET_MTLS_NAME) = None"
    and "secrets w (Namespace m, SECRET_MTLS_NAME) = None"
  shows "writeMTLSSecret d m False r w =
           (None, w\<lparr>secrets := (secrets w)((Namespace m, SECRET_MTLS_NAME) \<mapsto> defineMTLSSecret m c)\<rparr>)"
  using assms defineMTLSSecret_key[of m c]
  by (simp add: writeMTLSSecret_def CreateSecret_def Let_def)

lemma writeMTLSSecret_update:
  assumes "generateMTLSCerts d (Namespace m) = Inr c"
    and "updateFault d (Namespace m, SECRET_MTLS_NAME) = None"
    and "secrets w (Namespace m, SECRET_MTLS_NAME) = Some s"
  shows "writeMTLSSecret d m True True w =
           (None, w\<lparr>secrets := (secrets w)((Namespace m, SECRET_MTLS_NAME) \<mapsto> defineMTLSSecret m c)\<rparr>)"
  using assms defineMTLSSecret_key[of m c]
  by (simp add: writeMTLSSecret_def UpdateSecret_def Let_def)

lemma writeMTLSSecret_nothing: "writeMTLSSecret d m True False w = (None, w)"
  by (simp add: writeMTLSSecret_def)

lemma getMTLSSecret_stored:
  "getFault d ''Secret'' (Namespace m, SECRET_MTLS_NAME) = None \<Longrightarrow>
   getMTLSSecret d m w =
     (case secrets w (Namespace m, SECRET_MTLS_NAME) of
        None \<Rightarrow> Inl (notFound ''Secret'' (Namespace m, SECRET_MTLS_NAME))
      | Some s \<Rightarrow> Inr s)"
  by (simp add: getMTLSSecret_def GetSecret_def)

lemma manageMTLSSecret_absent:
  assumes "getFault d ''Secret'' (Namespace m, SECRET_MTLS_NAME) = None"
    and "secrets w (Namespace m, SECRET_MTLS_NAME) = None"
  shows "manageMTLSSecret d m w = writeMTLSSecret d m False False w"
  using assms by (simp add: manageMTLSSecret_def getMTLSSecret_stored notFound_def)

lemma manageMTLSSecret_present:
  assumes "getFault d ''Secret'' (Namespace m, SECRET_MTLS_NAME) = None"
    and "secrets w (Namespace m, SECRET_MTLS_NAME) = Some s"
  shows "manageMTLSSecret d m w =
     writeMTLSSecret d m True
       (case Annotations s MTLS_CERT_EXPIRY_ANNOTATION of
          None \<Rightarrow> True
        | Some a \<Rightarrow> a = [] \<or>
            (case ParseRFC3339 d a of None \<Rightarrow> True | Some t \<Rightarrow> inCertRenewalWindow d t)) w"
  using assms
  by (simp add: manageMTLSSecret_def getMTLSSecret_stored lookupOrEmpty_def Let_def
      split: option.splits)

text \<open>
  C3. Managing the mutual-TLS secret of an instance, when reading it does not fail otherwise
  than by not finding it, the certificates can be generated and the write goes through. No
  secret: a fresh chain is generated and the secret is created. A secret whose expiry
  annotation is missing, empty or does not parse: the chain is generated anew and the secret is
  updated in place, whatever the renewal window says. An annotation that parses to a time in
  the renewal window: the same. An annotation that parses to a time outside the window:
  nothing is written.
\<close>

theorem manageMTLSSecret_cases:
  "getFault d ''Secret'' (Namespace m, SECRET_MTLS_NAME) = None \<longrightarrow>
   (secrets w (Namespace m, SECRET_MTLS_NAME) = None \<and>
    generateMTLSCerts d (Namespace m) = Inr c \<and>
    createFault d (Namespace m, SECRET_MTLS_NAME) = None \<longrightarrow>
      manageMTLSSecret d m w =
        (None, w\<lparr>secrets := (secrets w)((Namespace m, SECRET_MTLS_NAME) \<mapsto> defineMTLSSecret m c)\<rparr>)) \<and>
   (secrets w (Namespace m, SECRET_MTLS_NAME) = Some s \<and>
    (Annotations s MTLS_CERT_EXPIRY_ANNOTATION = None \<or>
     Annotations s MTLS_CERT_EXPIRY_ANNOTATION = Some [] \<or>
     (\<exists>a. Annotations s MTLS_CERT_EXPIRY_ANNOTATION = Some a \<and> ParseRFC3339 d a = None)) \<and>
    generateMTLSCerts d (Namespace m) = Inr c \<and>
    updateFault d (Namespace m, SECRET_MTLS_NAME) = None \<longrightarrow>
      manageMTLSSecret d m w =
        (None, w\<lparr>secrets := (secrets w)((Namespace m, SECRET_MTLS_NAME) \<mapsto> defineMTLSSecret m c)\<rparr>)) \<and>
   (secrets w (Namespace m, SECRET_MTLS_NAME) = Some s \<and>
    Annotations s MTLS_CERT_EXPIRY_ANNOTATION = Some a \<and> ParseRFC3339 d a = Some t \<and>
    inCertRenewalWindow d t \<and>
    generateMTLSCerts d (Namespace m) = Inr c \<and>
    updateFault d (Namespace m, SECRET_MTLS_NAME) = None \<longrightarrow>
      manageMTLSSecret d m w =
        (None, w\<lparr>secrets := (secrets w)((Namespace m, SECRET_MTLS_NAME) \<mapsto> defineMTLSSecret m c)\<rparr>)) \<and>
   (secrets w (Namespace m, SECRET_MTLS_NAME) = Some s \<and>
    Annotations s MTLS_CERT_EXPIRY_ANNOTATION = Some a \<and> a \<noteq> [] \<and> ParseRFC3339 d a = Some t \<and>
    \<not> inCertRenewalWindow d t \<longrightarrow>
      manageMTLSSecret d m w = (None, w))"
proof (intro impI conjI)
  assume get: "getFault d ''Secret'' (Namespace m, SECRET_MTLS_NAME) = None"
  {
    assume h: "secrets w (Namespace m, SECRET_MTLS_NAME) = None \<and>
      generateMTLSCerts d (Namespace m) = Inr c \<and>
      createFault d (Namespace m, SECRET_MTLS_NAME) = None"
    then show "manageMTLSSecret d m w =
        (None, w\<lparr>secrets := (secrets w)((Namespace m, SECRET_MTLS_NAME) \<mapsto> defineMTLSSecret m c)\<rparr>)"
      using manageMTLSSecret_absent[OF get, of w] writeMTLSSecret_create[of d m c w False] by simp
  }
  {
    assume h: "secrets w (Namespace m, SECRET_MTLS_NAME) = Some s \<and>
      (Annotations s MTLS_CERT_EXPIRY_ANNOTATION = None \<or>
       Annotations s MTLS_CERT_EXPIRY_ANNOTATION = Some [] \<or>
       (\<exists>a. Annotations s MTLS_CERT_EXPIRY_ANNOTATION = Some a \<and> ParseRFC3339 d a = None)) \<and>
      generateMTLSCerts d (Namespace m) = Inr c \<and>
      updateFault d (Namespace m, SECRET_MTLS_NAME) = None"
    then have "manageMTLSSecret d m w = writeMTLSSecret d m True True w"
      using manageMTLSSecret_present[OF get, of w s] by auto
    with h show "manageMTLSSecret d m w =
        (None, w\<lparr>secrets := (secrets w)((Namespace m, SECRET_MTLS_NAME) \<mapsto> defineMTLSSecret m c)\<rparr>)"
      using writeMTLSSecret_update[of d m c w s] by simp
  }
  {
    assume h: "secrets w (Namespace m, SECRET_MTLS_NAME) = Some s \<and>
      Annotations s MTLS_CERT_EXPIRY_ANNOTATION = Some a \<and> ParseRFC3339 d a = Some t \<and>
      inCertRenewalWindow d t \<and>
      generateMTLSCerts d (Namespace m) = Inr c \<and>
      updateFault d (Namespace m, SECRET_MTLS_NAME) = None"
    then have "manageMTLSSecret d m w = writeMTLSSecret d m True True w"
      using manageMTLSSecret_present[OF get, of w s] by auto
    with h show "manageMTLSSecret d m w =
        (None, w\<lparr>secrets := (secrets w)((Namespace m, SECRET_MTLS_NAME) \<mapsto> defineMTLSSecret m c)\<rparr>)"
      using writeMTLSSecret_update[of d m c w s] by simp
  }
  {
    assume h: "secrets w (Namespace m, SECRET_MTLS_NAME) = Some s \<and>
      Annotations s MTLS_CERT_EXPIRY_ANNOTATION = Some a \<and> a \<noteq> [] \<and> ParseRFC3339 d a = Some t \<and>
      \<not> inCertRenewalWindow d t"
    then have "manageMTLSSecret d m w = writeMTLSSecret d m True False w"
      using manageMTLSSecret_present[OF get, of w s] by auto
    then show "manageMTLSSecret d m w = (None, w)"
      by (simp add: writeMTLSSecret_nothing)
  }
qed

theorem manageMTLSSecret_cases_witness:
  "secrets exampleWorld (''idp'', ''grpc-mtls'') = None \<and>
   manageMTLSSecret exampleDeps exampleDexServer exampleWorld =
     (None, exampleWorld\<lparr>secrets := [(''idp'', ''grpc-mtls'') \<mapsto> defineMTLSSecret exampleDexServer exampleCerts]\<rparr>) \<and>
   manageMTLSSecret exampleDeps exampleDexServer
     (exampleWorld\<lparr>secrets := [(''idp'', ''grpc-mtls'') \<mapsto> emptySecret]\<rparr>) =
     (None, exampleWorld\<lparr>secrets := [(''idp'', ''grpc-mtls'') \<mapsto> defineMTLSSecret exampleDexServer exampleCerts]\<rparr>) \<and>
   ParseRFC3339 exampleDeps ''next year'' = None \<and>
   manageMTLSSecret exampleDeps exampleDexServer
     (exampleWorld\<lparr>secrets := [(''idp'', ''grpc-mtls'') \<mapsto>
        emptySecret\<lparr>Annotations := [MTLS_CERT_EXPIRY_ANNOTATION \<mapsto> ''next year'']\<rparr>]\<rparr>) =
     (None, exampleWorld\<lparr>secrets := [(''idp'', ''grpc-mtls'') \<mapsto> defineMTLSSecret exampleDexServer exampleCerts]\<rparr>) \<and>
   ParseRFC3339 exampleDeps ''2023-11-15T00:00:00Z'' = Some 1700006400 \<and>
   inCertRenewalWindow exampleDeps 1700006400 \<and>
   manageMTLSSecret exampleDeps exampleDexServer
     (exampleWorld\<lparr>secrets := [(''idp'', ''grpc-mtls'') \<mapsto>
        emptySecret\<lparr>Annotations := [MTLS_CERT_EXPIRY_ANNOTATION \<mapsto> ''2023-11-15T00:00:00Z'']\<rparr>]\<rparr>) =
     (None, exampleWorld\<lparr>secrets := [(''idp'', ''grpc-mtls'') \<mapsto> defineMTLSSecret exampleDexServer exampleCerts]\<rparr>) \<and>
   ParseRFC3339 exampleDeps ''2030-01-01T00:00:00Z'' = Some 1893456000 \<and>
   \<not> inCertRenewalWindow exampleDeps 1893456000 \<and>
   manageMTLSSecret exampleDeps exampleDexServer
     (exampleWorld\<lparr>secrets := [(''idp'', ''grpc-mtls'') \<mapsto>
        emptySecret\<lparr>Annotations := [MTLS_CERT_EXPIRY_ANNOTATION \<mapsto> ''2030-01-01T00:00:00Z'']\<rparr>]\<rparr>) =
     (None, exampleWorld\<lparr>secrets := [(''idp'', ''grpc-mtls'') \<mapsto>
        emptySecret\<lparr>Annotations := [MTLS_CERT_EXPIRY_ANNOTATION \<mapsto> ''2030-01-01T00:00:00Z'']\<rparr>]\<rparr>)"
proof -
  let ?w = "\<lambda>s. exampleWorld\<lparr>secrets := [(''idp'', ''grpc-mtls'') \<mapsto> s]\<rparr>"
  let ?s = "\<lambda>a. emptySecret\<lparr>Annotations := [MTLS_CERT_EXPIRY_ANNOTATION \<mapsto> a]\<rparr>"
  have facts:
    "Namespace exampleDexServer = ''idp''" "SECRET_MTLS_NAME = ''grpc-mtls''"
    "getFault exampleDeps ''Secret'' (''idp'', ''grpc-mtls'') = None"
    "createFault exampleDeps (''idp'', ''grpc-mtls'') = None"
    "updateFault exampleDeps (''idp'', ''grpc-mtls'') = None"
    "generateMTLSCerts exampleDeps ''idp'' = Inr exampleCerts"
    "ParseRFC3339 exampleDeps ''next year'' = None"
    "ParseRFC3339 exampleDeps ''2023-11-15T00:00:00Z'' = Some 1700006400"
    "ParseRFC3339 exampleDeps ''2030-01-01T00:00:00Z'' = Some 1893456000"
    "inCertRenewalWindow exampleDeps 1700006400"
    "\<not> inCertRenewalWindow exampleDeps 1893456000"
    "secrets exampleWorld = Map.empty"
    "Annotations emptySecret = Map.empty"
    by (simp_all add: exampleDexServer_def SECRET_MTLS_NAME_def exampleDeps_def exampleWorld_def
        emptySecret_def)
  have a: "manageMTLSSecret exampleDeps exampleDexServer exampleWorld =
     (None, ?w (defineMTLSSecret exampleDexServer exampleCerts))"
    using manageMTLSSecret_cases
      [of exampleDeps exampleDexServer exampleWorld exampleCerts emptySecret "''x''" 0]
    by (simp add: facts)
  have b: "manageMTLSSecret exampleDeps exampleDexServer (?w emptySecret) =
     (None, ?w (defineMTLSSecret exampleDexServer exampleCerts))"
    using manageMTLSSecret_cases
      [of exampleDeps exampleDexServer "?w emptySecret" exampleCerts emptySecret "''x''" 0]
    by (simp add: facts)
  have c: "manageMTLSSecret exampleDeps exampleDexServer (?w (?s ''next year'')) =
     (None, ?w (defineMTLSSecret exampleDexServer exampleCerts))"
    using manageMTLSSecret_cases
      [of exampleDeps exampleDexServer "?w (?s ''next year'')" exampleCerts "?s ''next year''" "''x''" 0]
    by (simp add: facts)
  have d: "manageMTLSSecret exampleDeps exampleDexServer (?w (?s ''2023-11-15T00:00:00Z'')) =
     (None, ?w (defineMTLSSecret exampleDexServer exampleCerts))"
    using manageMTLSSecret_cases
      [of exampleDeps exampleDexServer "?w (?s ''2023-11-15T00:00:00Z'')" exampleCerts
          "?s ''2023-11-15T00:00:00Z''" "''2023-11-15T00:00:00Z''" 1700006400]
    by (simp add: facts)
  have e: "manageMTLSSecret exampleDeps exampleDexServer (?w (?s ''2030-01-01T00:00:00Z'')) =
     (None, ?w (?s ''2030-01-01T00:00:00Z''))"
    using manageMTLSSecret_cases
      [of exampleDeps exampleDexServer "?w (?s ''2030-01-01T00:00:00Z'')" exampleCerts
          "?s ''2030-01-01T00:00:00Z''" "''2030-01-01T00:00:00Z''" 1893456000]
    by (simp add: facts)
  from a b c d e facts show ?thesis by simp
qed

subsection \<open>The pass and the table of its steps\<close>

lemma Reconcile_runSteps:
  "Reconcile d req w =
     (case GetDexServer d req w of
        Inl err \<Rightarrow> (Returned noResult (IgnoreNotFound err), w)
      | Inr ds \<Rightarrow> runSteps d ds stepTable w)"
  by (simp add: Reconcile_def stepTable_def returning_def
      split: sum.splits prod.splits option.splits go.splits)

lemma runSteps_first_failure:
  "runAll d ds pre w = Some w' \<Longrightarrow> action s d ds w' = (Return (Some err), w'') \<Longrightarrow>
   runSteps d ds (pre @ s # post) w = stepFailed d ds (reasonCode s) (messagePrefix s) err w''"
  by (induction pre arbitrary: w) (auto split: prod.splits go.splits option.splits)

lemma runSteps_all_succeed:
  "runAll d ds steps w = Some w' \<Longrightarrow> runSteps d ds steps w = runSteps d ds [] w'"
  by (induction steps arbitrary: w) (auto split: prod.splits go.splits option.splits)

lemma StatusUpdate_rest:
  "applied (snd (StatusUpdate d ds w)) = applied w \<and>
   secrets (snd (StatusUpdate d ds w)) = secrets w \<and>
   configMaps (snd (StatusUpdate d ds w)) = configMaps w"
  by (simp add: StatusUpdate_def Let_def split: option.splits)

lemma snd_stepFailed:
  "snd (stepFailed d ds reason what err w) =
     snd (StatusUpdate d
            (ds\<lparr>Conditions := mergeStatusConditions (now d) (Conditions ds)
                   [failedCondition reason what err]\<rparr>) w)"
  by (simp add: stepFailed_def updateDexServerStatusConditions_def split: prod.splits option.splits)

lemma stepFailed_rest:
  "applied (snd (stepFailed d ds reason what err w)) = applied w \<and>
   secrets (snd (stepFailed d ds reason what err w)) = secrets w \<and>
   configMaps (snd (stepFailed d ds reason what err w)) = configMaps w"
  unfolding snd_stepFailed by (rule StatusUpdate_rest)

lemma stepFailed_unfold:
  "stepFailed d ds reason what err w =
     (case StatusUpdate d
             (ds\<lparr>Conditions := mergeStatusConditions (now d) (Conditions ds)
                    [\<lparr>Type = ''Applied'', Status = ConditionFalse, Reason = reason,
                      Message = what @ errorMsg err, LastTransitionTime = zeroTime\<rparr>]\<rparr>) w of
        (Some err', w') \<Rightarrow> (Returned noResult (Some err'), w')
      | (None, w') \<Rightarrow> (Returned noResult (Some err), w'))"
  by (simp add: stepFailed_def updateDexServerStatusConditions_def failedCondition_def
      DexServerConditionTypeApplied_def)

lemma UpdateSecret_dexServers: "dexServers (snd (UpdateSecret d s w)) = dexServers w"
  by (simp add: UpdateSecret_def Let_def split: option.splits)

lemma CreateSecret_dexServers: "dexServers (snd (CreateSecret d s w)) = dexServers w"
  by (simp add: CreateSecret_def Let_def split: option.splits)

lemma applyManifest_dexServers: "dexServers (snd (applyManifest d m w)) = dexServers w"
  by (simp add: applyManifest_def Let_def split: option.splits)

lemma checkAndAddLabelToSecret_dexServers:
  "dexServers (checkAndAddLabelToSecret d s w) = dexServers w"
  by (simp add: checkAndAddLabelToSecret_def UpdateSecret_dexServers)

lemma readSecretRef_dexServers: "dexServers (snd (readSecretRef d ref k m w)) = dexServers w"
  by (simp add: readSecretRef_def Let_def checkAndAddLabelToSecret_dexServers split: sum.splits)

lemma getConnectorSecretFromRef_dexServers:
  "dexServers (snd (getConnectorSecretFromRef d c m w)) = dexServers w"
  by (simp add: getConnectorSecretFromRef_def readSecretRef_dexServers split: ConnectorType.splits)

lemma ldapCertPaths_dexServers: "dexServers (snd (ldapCertPaths d c m w)) = dexServers w"
  by (simp add: ldapCertPaths_def Let_def checkAndAddLabelToSecret_dexServers split: sum.splits)

lemma renderConnectors_dexServers:
  "dexServers (snd (renderConnectors d m cs acc w)) = dexServers w"
proof (induction cs arbitrary: acc w)
  case Nil
  then show ?case by simp
next
  case (Cons c cs)
  show ?case
  proof (cases "ConnectorKind c")
    case ConnectorTypeGitHub
    then show ?thesis
      using Cons.IH getConnectorSecretFromRef_dexServers[of d c m w]
      by (auto split: prod.splits sum.splits)
  next
    case ConnectorTypeMicrosoft
    then show ?thesis
      using Cons.IH getConnectorSecretFromRef_dexServers[of d c m w]
      by (auto split: prod.splits sum.splits)
  next
    case ConnectorTypeLDAP
    then show ?thesis
      using Cons.IH getConnectorSecretFromRef_dexServers[of d c m w]
        ldapCertPaths_dexServers[of d c m "snd (getConnectorSecretFromRef d c m w)"]
      by (auto split: prod.splits sum.splits option.splits)
  next
    case (ConnectorTypeOther x)
    then show ?thesis by simp
  qed
qed

lemma syncConfigMap_dexServers: "dexServers (snd (syncConfigMap d m w)) = dexServers w"
  using renderConnectors_dexServers[of d m "Connectors (Spec m)" "[]" w]
  by (auto simp: syncConfigMap_def ApplyDirectly_def applyManifest_dexServers
      split: prod.splits option.splits sum.splits)

lemma CreateSecret_dexServersD: "CreateSecret d s w = (r, w') \<Longrightarrow> dexServers w' = dexServers w"
  using CreateSecret_dexServers[of d s w] by simp

lemma UpdateSecret_dexServersD: "UpdateSecret d s w = (r, w') \<Longrightarrow> dexServers w' = dexServers w"
  using UpdateSecret_dexServers[of d s w] by simp

lemma applyManifest_dexServersD: "applyManifest d m w = (r, w') \<Longrightarrow> dexServers w' = dexServers w"
  using applyManifest_dexServers[of d m w] by simp

lemma writeMTLSSecret_dexServers: "dexServers (snd (writeMTLSSecret d m e r w)) = dexServers w"
  by (auto simp: writeMTLSSecret_def Let_def split: sum.splits prod.splits option.splits
      dest: CreateSecret_dexServersD UpdateSecret_dexServersD)

lemma manageMTLSSecret_dexServers: "dexServers (snd (manageMTLSSecret d m w)) = dexServers w"
  by (simp add: manageMTLSSecret_def Let_def writeMTLSSecret_dexServers
      split: sum.splits prod.splits option.splits)

lemma syncDeployment_dexServers: "dexServers (snd (syncDeployment d m w)) = dexServers w"
  by (simp add: syncDeployment_def Let_def ApplyDeployments_def applyManifest_dexServers
      split: sum.splits)

lemma syncIngress_dexServers: "dexServers (snd (syncIngress d m w)) = dexServers w"
  by (auto simp: syncIngress_def ApplyCustomResources_def split: option.splits prod.splits
      dest: applyManifest_dexServersD)

lemma returning_dexServers:
  "(\<And>w. dexServers (snd (f d m w)) = dexServers w) \<Longrightarrow>
   dexServers (snd (returning f d m w)) = dexServers w"
  by (simp add: returning_def split: prod.splits) (metis snd_conv)

lemma stepTable_dexServers:
  "s \<in> set stepTable \<Longrightarrow> dexServers (snd (action s d m w)) = dexServers w"
  by (auto simp: stepTable_def syncIngress_dexServers
      intro!: returning_dexServers manageMTLSSecret_dexServers syncConfigMap_dexServers
        syncDeployment_dexServers
      simp: syncService_def syncServiceGrpc_def syncServiceAccount_def syncClusterRoleBinding_def
        ApplyDirectly_def applyManifest_dexServers Let_def)

lemma runAll_dexServers:
  "(\<And>s w. s \<in> set steps \<Longrightarrow> dexServers (snd (action s d m w)) = dexServers w) \<Longrightarrow>
   runAll d m steps w = Some w' \<Longrightarrow> dexServers w' = dexServers w"
proof (induction steps arbitrary: w)
  case Nil
  then show ?case by simp
next
  case (Cons s steps)
  from Cons.prems(2) obtain w1 where step: "action s d m w = (Return None, w1)"
    and rest: "runAll d m steps w1 = Some w'"
    by (auto split: prod.splits go.splits option.splits)
  have "dexServers w1 = dexServers w"
    using Cons.prems(1)[of s w] step by simp
  moreover have "dexServers w' = dexServers w1"
    using Cons.IH[OF _ rest] Cons.prems(1) by simp
  ultimately show ?case by simp
qed

lemma GetDexServer_stored: "GetDexServer d req w = Inr ds \<Longrightarrow> dexServers w req = Some ds"
  by (simp add: GetDexServer_def split: option.splits)

text \<open>
  The ingress step panics on an issuer that does not parse; the pass then panics with it and
  records nothing.
\<close>

lemma syncIngress_panics:
  "urlParseHost d (Issuer (Spec ds)) = None \<Longrightarrow> syncIngress d ds w = (Panic, w)"
  by (simp add: syncIngress_def)

text \<open>The definitions that evaluate a pass on the example inputs.\<close>

lemmas example_defs =
  exampleDeps_def exampleDepsGrpcDown_def exampleDepsNoImage_def exampleDepsTimeout_def
  exampleWorld_def exampleWorldWithSecret_def exampleDexServer_def
  exampleConnector_def exampleSecret_def
  zeroRef_def zeroGitHub_def zeroMicrosoft_def zeroLDAP_def

lemmas const_defs =
  SECRET_MTLS_NAME_def SECRET_WEB_TLS_SUFFIX_def SERVICE_ACCOUNT_NAME_def GRPC_SERVICE_NAME_def
  DEX_IMAGE_ENV_NAME_def MTLS_CERT_EXPIRY_ANNOTATION_def IDP_CREDENTIAL_LABEL_def
  CONFIG_MAP_TEMPLATE_def DEPLOYMENT_TEMPLATE_def

lemmas step_defs =
  GetDexServer_def GetSecret_def GetConfigMap_def CreateSecret_def UpdateSecret_def StatusUpdate_def
  applyManifest_def ApplyDirectly_def ApplyDeployments_def ApplyCustomResources_def
  manageMTLSSecret_def getMTLSSecret_def writeMTLSSecret_def defineMTLSSecret_def
  syncConfigMap_def getConnectorSecretFromRef_def readSecretRef_def checkAndAddLabelToSecret_def
  syncService_def syncServiceGrpc_def syncServiceAccount_def syncClusterRoleBinding_def
  syncDeployment_def getDexImagePullSpec_def osGetenv_def lookupConfigMapHash_def
  lookupMtlsSecretExpiry_def additionalVolumeMounts_def additionalVolumes_def needsLdapCerts_def
  syncIngress_def instanceKey_def notFound_def alreadyExists_def Errorf_def Wrap_def
  lookupOrEmpty_def renderConfigMap_def Let_def
  stepFailed_def updateDexServerStatusConditions_def failedCondition_def appliedCondition_def
  mergeStatusConditions_def DexServerConditionTypeApplied_def
  githubConnector_def microsoftConnector_def ldapConnector_def ldapCertPaths_def zeroConfig_def
  connectorTypeString.simps

text \<open>
  The steps in their order. A pass over an instance that is found runs the table of the eight
  steps: the mutual-TLS secret, the config map, the http service, the gRPC service, the
  service account, the cluster role binding, the deployment, the ingress, in this order. When
  the steps before one have all succeeded and that one returns an error, the pass sets one
  condition into the conditions of the instance: type \<open>Applied\<close>, status false, the reason
  code of the step and its message prefix followed by the message of the error; it writes the
  status and returns the error of the step, or the error of the status write if that fails.
  No later step runs: the secrets, the config maps and the applied manifests are as the failed
  step left them. This covers a step that fails by returning its error, and only that: a step
  that panics, or one that returns nil on a failure, is not such a step.
\<close>

theorem Reconcile_steps_in_order:
  "map reasonCode stepTable =
     [''ConfigMTLSSecretFailed'', ''ConfigMapFailed'', ''ConfigHTTPServiceFailed'',
      ''ConfigGRPCServiceFailed'', ''ConfigServiceAccountFailed'',
      ''ConfigClusterRoleBindingFailed'', ''ConfigDeploymentFailed'', ''ConfigIngressFailed''] \<and>
   map action stepTable =
     [returning manageMTLSSecret, returning syncConfigMap, returning syncService,
      returning syncServiceGrpc, returning syncServiceAccount, returning syncClusterRoleBinding,
      returning syncDeployment, syncIngress] \<and>
   (GetDexServer d req w = Inr ds \<longrightarrow>
      Reconcile d req w = runSteps d ds stepTable w \<and>
      (stepTable = pre @ s # post \<and> runAll d ds pre w = Some w' \<and>
       action s d ds w' = (Return (Some err), w'') \<longrightarrow>
         Reconcile d req w =
           (case StatusUpdate d
                   (ds\<lparr>Conditions := mergeStatusConditions (now d) (Conditions ds)
                          [\<lparr>Type = ''Applied'', Status = ConditionFalse, Reason = reasonCode s,
                            Message = messagePrefix s @ errorMsg err,
                            LastTransitionTime = zeroTime\<rparr>]\<rparr>) w'' of
              (Some err', w3) \<Rightarrow> (Returned noResult (Some err'), w3)
            | (None, w3) \<Rightarrow> (Returned noResult (Some err), w3)) \<and>
         applied (snd (Reconcile d req w)) = applied w'' \<and>
         secrets (snd (Reconcile d req w)) = secrets w'' \<and>
         configMaps (snd (Reconcile d req w)) = configMaps w''))"
proof (intro conjI impI)
  show "map reasonCode stepTable =
     [''ConfigMTLSSecretFailed'', ''ConfigMapFailed'', ''ConfigHTTPServiceFailed'',
      ''ConfigGRPCServiceFailed'', ''ConfigServiceAccountFailed'',
      ''ConfigClusterRoleBindingFailed'', ''ConfigDeploymentFailed'', ''ConfigIngressFailed'']"
    by (simp add: stepTable_def)
  show "map action stepTable =
     [returning manageMTLSSecret, returning syncConfigMap, returning syncService,
      returning syncServiceGrpc, returning syncServiceAccount, returning syncClusterRoleBinding,
      returning syncDeployment, syncIngress]"
    by (simp add: stepTable_def)
next
  assume get: "GetDexServer d req w = Inr ds"
  then show run: "Reconcile d req w = runSteps d ds stepTable w"
    by (simp add: Reconcile_runSteps)
  assume fail: "stepTable = pre @ s # post \<and> runAll d ds pre w = Some w' \<and>
       action s d ds w' = (Return (Some err), w'')"
  then have eq: "Reconcile d req w = stepFailed d ds (reasonCode s) (messagePrefix s) err w''"
    using run runSteps_first_failure[of d ds pre w w' s err w'' post] by simp
  then show "Reconcile d req w =
           (case StatusUpdate d
                   (ds\<lparr>Conditions := mergeStatusConditions (now d) (Conditions ds)
                          [\<lparr>Type = ''Applied'', Status = ConditionFalse, Reason = reasonCode s,
                            Message = messagePrefix s @ errorMsg err,
                            LastTransitionTime = zeroTime\<rparr>]\<rparr>) w'' of
              (Some err', w3) \<Rightarrow> (Returned noResult (Some err'), w3)
            | (None, w3) \<Rightarrow> (Returned noResult (Some err), w3))"
    by (simp add: stepFailed_unfold)
  from eq stepFailed_rest[of d ds "reasonCode s" "messagePrefix s" err w'']
  show "applied (snd (Reconcile d req w)) = applied w''"
    and "secrets (snd (Reconcile d req w)) = secrets w''"
    and "configMaps (snd (Reconcile d req w)) = configMaps w''"
    by simp_all
qed

lemma ex_grpc_prefix:
  "runAll exampleDepsGrpcDown exampleDexServer (take 3 stepTable) exampleWorldWithSecret =
     Some (exampleWorldWithSecret
       \<lparr>secrets := [(''idp'', ''github-secret'') \<mapsto> exampleSecret,
                    (''idp'', ''grpc-mtls'') \<mapsto> defineMTLSSecret exampleDexServer exampleCerts],
        configMaps := [(''idp'', ''dex'') \<mapsto>
          renderConfigMap \<lparr>Template = ''dex-server/config_map.yaml'', Owner = (''idp'', ''dex''),
            Values = [(''Issuer'', ''https://dex.example.com''), (''ConnectorsYaml'', ''gh=s3cr3t;'')]\<rparr>],
        applied :=
          [\<lparr>Template = ''dex-server/config_map.yaml'', Owner = (''idp'', ''dex''),
            Values = [(''Issuer'', ''https://dex.example.com''), (''ConnectorsYaml'', ''gh=s3cr3t;'')]\<rparr>,
           \<lparr>Template = ''dex-server/service_http.yaml'', Owner = (''idp'', ''dex''),
            Values = [(''ServingCertSecretName'', ''dex-tls-secret'')]\<rparr>]\<rparr>)"
  by (simp add: stepTable_def returning_def step_defs example_defs const_defs)


lemma stepTable_at_3:
  "stepTable ! 3 =
     \<lparr>action = returning syncServiceGrpc, reasonCode = ''ConfigGRPCServiceFailed'',
      messagePrefix = ''failed to sync grpc service. error: ''\<rparr>"
  by (simp add: stepTable_def)

theorem Reconcile_steps_in_order_witness:
  "GetDexServer exampleDepsGrpcDown (''idp'', ''dex'') exampleWorldWithSecret = Inr exampleDexServer \<and>
   stepTable = take 3 stepTable @ stepTable ! 3 # drop 4 stepTable \<and>
   (\<exists>w'. runAll exampleDepsGrpcDown exampleDexServer (take 3 stepTable) exampleWorldWithSecret = Some w' \<and>
         action (stepTable ! 3) exampleDepsGrpcDown exampleDexServer w' =
           (Return (Some (Error False ''connection refused'')), w')) \<and>
   fst (Reconcile exampleDepsGrpcDown (''idp'', ''dex'') exampleWorldWithSecret) =
     Returned noResult (Some (Error False ''connection refused'')) \<and>
   map Template (applied (snd (Reconcile exampleDepsGrpcDown (''idp'', ''dex'') exampleWorldWithSecret))) =
     [''dex-server/config_map.yaml'', ''dex-server/service_http.yaml''] \<and>
   map_option Conditions
     (dexServers (snd (Reconcile exampleDepsGrpcDown (''idp'', ''dex'') exampleWorldWithSecret))
        (''idp'', ''dex'')) =
     Some [\<lparr>Type = ''Applied'', Status = ConditionFalse, Reason = ''ConfigGRPCServiceFailed'',
            Message = ''failed to sync grpc service. error: connection refused'',
            LastTransitionTime = zeroTime\<rparr>]"
proof -
  let ?w3 = "exampleWorldWithSecret
       \<lparr>secrets := [(''idp'', ''github-secret'') \<mapsto> exampleSecret,
                    (''idp'', ''grpc-mtls'') \<mapsto> defineMTLSSecret exampleDexServer exampleCerts],
        configMaps := [(''idp'', ''dex'') \<mapsto>
          renderConfigMap \<lparr>Template = ''dex-server/config_map.yaml'', Owner = (''idp'', ''dex''),
            Values = [(''Issuer'', ''https://dex.example.com''), (''ConnectorsYaml'', ''gh=s3cr3t;'')]\<rparr>],
        applied :=
          [\<lparr>Template = ''dex-server/config_map.yaml'', Owner = (''idp'', ''dex''),
            Values = [(''Issuer'', ''https://dex.example.com''), (''ConnectorsYaml'', ''gh=s3cr3t;'')]\<rparr>,
           \<lparr>Template = ''dex-server/service_http.yaml'', Owner = (''idp'', ''dex''),
            Values = [(''ServingCertSecretName'', ''dex-tls-secret'')]\<rparr>]\<rparr>"
  have get: "GetDexServer exampleDepsGrpcDown (''idp'', ''dex'') exampleWorldWithSecret = Inr exampleDexServer"
    by (simp add: GetDexServer_def example_defs)
  have split: "stepTable = take 3 stepTable @ stepTable ! 3 # drop 4 stepTable"
    by (simp add: stepTable_def)
  have pre: "runAll exampleDepsGrpcDown exampleDexServer (take 3 stepTable) exampleWorldWithSecret = Some ?w3"
    by (rule ex_grpc_prefix)
  have step: "action (stepTable ! 3) exampleDepsGrpcDown exampleDexServer ?w3 =
      (Return (Some (Error False ''connection refused'')), ?w3)"
    by (simp add: stepTable_at_3 returning_def step_defs example_defs)
  let ?w4 = "?w3\<lparr>dexServers := [(''idp'', ''dex'') \<mapsto>
          exampleDexServer\<lparr>Conditions :=
            [\<lparr>Type = ''Applied'', Status = ConditionFalse, Reason = ''ConfigGRPCServiceFailed'',
              Message = ''failed to sync grpc service. error: connection refused'',
              LastTransitionTime = zeroTime\<rparr>]\<rparr>]\<rparr>"
  have eq: "Reconcile exampleDepsGrpcDown (''idp'', ''dex'') exampleWorldWithSecret =
      (case StatusUpdate exampleDepsGrpcDown
              (exampleDexServer\<lparr>Conditions :=
                 mergeStatusConditions (now exampleDepsGrpcDown) (Conditions exampleDexServer)
                   [\<lparr>Type = ''Applied'', Status = ConditionFalse, Reason = reasonCode (stepTable ! 3),
                     Message = messagePrefix (stepTable ! 3) @ errorMsg (Error False ''connection refused''),
                     LastTransitionTime = zeroTime\<rparr>]\<rparr>) ?w3 of
         (Some err', w3) \<Rightarrow> (Returned noResult (Some err'), w3)
       | (None, w3) \<Rightarrow> (Returned noResult (Some (Error False ''connection refused'')), w3))"
    using Reconcile_steps_in_order
      [of exampleDepsGrpcDown "(''idp'', ''dex'')" exampleWorldWithSecret exampleDexServer
          "take 3 stepTable" "stepTable ! 3" "drop 4 stepTable" ?w3 "Error False ''connection refused''" ?w3]
      get split pre step
    by blast
  have su: "StatusUpdate exampleDepsGrpcDown
              (exampleDexServer\<lparr>Conditions :=
                 mergeStatusConditions (now exampleDepsGrpcDown) (Conditions exampleDexServer)
                   [\<lparr>Type = ''Applied'', Status = ConditionFalse, Reason = reasonCode (stepTable ! 3),
                     Message = messagePrefix (stepTable ! 3) @ errorMsg (Error False ''connection refused''),
                     LastTransitionTime = zeroTime\<rparr>]\<rparr>) ?w3 = (None, ?w4)"
    by (simp add: stepTable_at_3 StatusUpdate_def mergeStatusConditions_def Let_def example_defs)
  have rec: "Reconcile exampleDepsGrpcDown (''idp'', ''dex'') exampleWorldWithSecret =
      (Returned noResult (Some (Error False ''connection refused'')), ?w4)"
    unfolding eq su by simp
  from pre step have ex: "\<exists>w'. runAll exampleDepsGrpcDown exampleDexServer (take 3 stepTable) exampleWorldWithSecret = Some w' \<and>
         action (stepTable ! 3) exampleDepsGrpcDown exampleDexServer w' =
           (Return (Some (Error False ''connection refused'')), w')"
    by blast
  show ?thesis
    apply (intro conjI)
         apply (rule get)
        apply (rule split)
       apply (rule ex)
      apply (simp add: rec)
     apply (simp add: rec)
    apply (simp add: rec)
    done
qed

text \<open>
  C7. When the instance is found and all eight steps succeed, the pass sets the one condition
  \<open>Applied\<close>, status true, reason \<open>Applied\<close>, into the conditions of the instance and writes
  the status; when the write goes through, the pass returns no error and asks to be run again
  after one hour (3600000000000 nanoseconds), whatever else triggers it.
\<close>

theorem Reconcile_applied_and_requeued:
  "GetDexServer d req w = Inr ds \<and> runAll d ds stepTable w = Some w' \<longrightarrow>
     Reconcile d req w =
       (case StatusUpdate d
               (ds\<lparr>Conditions := mergeStatusConditions (now d) (Conditions ds)
                      [\<lparr>Type = ''Applied'', Status = ConditionTrue, Reason = ''Applied'',
                        Message = ''DexServer is applied'', LastTransitionTime = zeroTime\<rparr>]\<rparr>) w' of
          (Some err, w9) \<Rightarrow> (Returned noResult (Some err), w9)
        | (None, w9) \<Rightarrow> (Returned \<lparr>Requeue = True, RequeueAfter = 3600000000000\<rparr> None, w9)) \<and>
     ((Namespace ds, Name ds) = req \<and> statusUpdateFault d req = None \<longrightarrow>
        Reconcile d req w =
          (Returned \<lparr>Requeue = True, RequeueAfter = 3600000000000\<rparr> None,
           w'\<lparr>dexServers := (dexServers w')(req \<mapsto>
                 ds\<lparr>Conditions := mergeStatusConditions (now d) (Conditions ds)
                        [\<lparr>Type = ''Applied'', Status = ConditionTrue, Reason = ''Applied'',
                          Message = ''DexServer is applied'', LastTransitionTime = zeroTime\<rparr>]\<rparr>)\<rparr>))"
proof (intro impI conjI)
  assume h: "GetDexServer d req w = Inr ds \<and> runAll d ds stepTable w = Some w'"
  then have run: "Reconcile d req w = runSteps d ds [] w'"
    using runSteps_all_succeed[of d ds stepTable w w'] by (simp add: Reconcile_runSteps)
  have last: "runSteps d ds [] w' =
       (case StatusUpdate d
               (ds\<lparr>Conditions := mergeStatusConditions (now d) (Conditions ds)
                      [\<lparr>Type = ''Applied'', Status = ConditionTrue, Reason = ''Applied'',
                        Message = ''DexServer is applied'', LastTransitionTime = zeroTime\<rparr>]\<rparr>) w' of
          (Some err, w9) \<Rightarrow> (Returned noResult (Some err), w9)
        | (None, w9) \<Rightarrow> (Returned \<lparr>Requeue = True, RequeueAfter = 3600000000000\<rparr> None, w9))"
    by (simp add: updateDexServerStatusConditions_def appliedCondition_def Hour_def
        DexServerConditionTypeApplied_def split: prod.splits option.splits)
  show gen: "Reconcile d req w =
       (case StatusUpdate d
               (ds\<lparr>Conditions := mergeStatusConditions (now d) (Conditions ds)
                      [\<lparr>Type = ''Applied'', Status = ConditionTrue, Reason = ''Applied'',
                        Message = ''DexServer is applied'', LastTransitionTime = zeroTime\<rparr>]\<rparr>) w' of
          (Some err, w9) \<Rightarrow> (Returned noResult (Some err), w9)
        | (None, w9) \<Rightarrow> (Returned \<lparr>Requeue = True, RequeueAfter = 3600000000000\<rparr> None, w9))"
    unfolding run last by (rule refl)
  assume ok: "(Namespace ds, Name ds) = req \<and> statusUpdateFault d req = None"
  have "dexServers w' = dexServers w"
    using runAll_dexServers[of stepTable d ds w w'] stepTable_dexServers h by blast
  then have stored: "dexServers w' req = Some ds"
    using h GetDexServer_stored[of d req w ds] by simp
  show "Reconcile d req w =
          (Returned \<lparr>Requeue = True, RequeueAfter = 3600000000000\<rparr> None,
           w'\<lparr>dexServers := (dexServers w')(req \<mapsto>
                 ds\<lparr>Conditions := mergeStatusConditions (now d) (Conditions ds)
                        [\<lparr>Type = ''Applied'', Status = ConditionTrue, Reason = ''Applied'',
                          Message = ''DexServer is applied'', LastTransitionTime = zeroTime\<rparr>]\<rparr>)\<rparr>)"
    unfolding gen using ok stored by (simp add: StatusUpdate_def Let_def)
qed

lemma ex_all_steps:
  "\<exists>w'. runAll exampleDeps exampleDexServer stepTable exampleWorldWithSecret = Some w'"
  by (simp add: stepTable_def returning_def step_defs example_defs const_defs)

theorem Reconcile_applied_and_requeued_witness:
  "GetDexServer exampleDeps (''idp'', ''dex'') exampleWorldWithSecret = Inr exampleDexServer \<and>
   (\<exists>w'. runAll exampleDeps exampleDexServer stepTable exampleWorldWithSecret = Some w') \<and>
   (Namespace exampleDexServer, Name exampleDexServer) = (''idp'', ''dex'') \<and>
   statusUpdateFault exampleDeps (''idp'', ''dex'') = None \<and>
   fst (Reconcile exampleDeps (''idp'', ''dex'') exampleWorldWithSecret) =
     Returned \<lparr>Requeue = True, RequeueAfter = 3600000000000\<rparr> None \<and>
   map_option Conditions
     (dexServers (snd (Reconcile exampleDeps (''idp'', ''dex'') exampleWorldWithSecret)) (''idp'', ''dex'')) =
     Some [\<lparr>Type = ''Applied'', Status = ConditionTrue, Reason = ''Applied'',
            Message = ''DexServer is applied'', LastTransitionTime = zeroTime\<rparr>]"
proof -
  have get: "GetDexServer exampleDeps (''idp'', ''dex'') exampleWorldWithSecret = Inr exampleDexServer"
    by (simp add: GetDexServer_def example_defs)
  have key: "(Namespace exampleDexServer, Name exampleDexServer) = (''idp'', ''dex'')"
    by (simp add: exampleDexServer_def)
  have nofault: "statusUpdateFault exampleDeps (''idp'', ''dex'') = None"
    by (simp add: exampleDeps_def)
  obtain w' where run: "runAll exampleDeps exampleDexServer stepTable exampleWorldWithSecret = Some w'"
    using ex_all_steps by blast
  have rec: "Reconcile exampleDeps (''idp'', ''dex'') exampleWorldWithSecret =
          (Returned \<lparr>Requeue = True, RequeueAfter = 3600000000000\<rparr> None,
           w'\<lparr>dexServers := (dexServers w')((''idp'', ''dex'') \<mapsto>
                 exampleDexServer\<lparr>Conditions :=
                   mergeStatusConditions (now exampleDeps) (Conditions exampleDexServer)
                     [\<lparr>Type = ''Applied'', Status = ConditionTrue, Reason = ''Applied'',
                       Message = ''DexServer is applied'', LastTransitionTime = zeroTime\<rparr>]\<rparr>)\<rparr>)"
    using Reconcile_applied_and_requeued
      [of exampleDeps "(''idp'', ''dex'')" exampleWorldWithSecret exampleDexServer w']
      get key nofault run
    by blast
  have conds: "mergeStatusConditions (now exampleDeps) (Conditions exampleDexServer)
                     [\<lparr>Type = ''Applied'', Status = ConditionTrue, Reason = ''Applied'',
                       Message = ''DexServer is applied'', LastTransitionTime = zeroTime\<rparr>] =
               [\<lparr>Type = ''Applied'', Status = ConditionTrue, Reason = ''Applied'',
                       Message = ''DexServer is applied'', LastTransitionTime = zeroTime\<rparr>]"
    by (simp add: mergeStatusConditions_def exampleDexServer_def)
  show ?thesis
    apply (intro conjI)
         apply (rule get)
        apply (rule ex_all_steps)
       apply (rule key)
      apply (rule nofault)
     apply (simp add: rec)
    apply (simp add: rec conds)
    done
qed

subsection \<open>An issuer that does not parse\<close>

lemmas bad_issuer_defs = exampleDexServerBadIssuer_def exampleWorldBadIssuer_def

lemma ex_bad_issuer_prefix:
  "\<exists>w. runAll exampleDeps exampleDexServerBadIssuer (take 7 stepTable) exampleWorldBadIssuer = Some w"
  by (simp add: stepTable_def returning_def step_defs example_defs const_defs bad_issuer_defs)

text \<open>
  C2, evaluated. The instance \<open>idp/dex\<close> has the issuer \<open>://dex.example.com\<close>, which
  \<^verbatim>\<open>url.Parse\<close> rejects. The first seven steps succeed: the config map, the two services,
  the service account, the cluster role binding and the deployment are applied. The eighth
  step fails, but not by returning an error: \<^verbatim>\<open>syncIngress\<close> drops the error of
  \<^verbatim>\<open>url.Parse\<close> and reads the host of the nil result, so the pass panics. No condition is
  recorded: the conditions of the stored instance are as empty as before the pass.
\<close>

theorem unparseable_issuer_pass:
  "dexServers exampleWorldBadIssuer (''idp'', ''dex'') = Some exampleDexServerBadIssuer \<and>
   Issuer (Spec exampleDexServerBadIssuer) = ''://dex.example.com'' \<and>
   urlParseHost exampleDeps ''://dex.example.com'' = None \<and>
   (\<exists>w. runAll exampleDeps exampleDexServerBadIssuer (take 7 stepTable) exampleWorldBadIssuer = Some w \<and>
        action (stepTable ! 7) exampleDeps exampleDexServerBadIssuer w = (Panic, w)) \<and>
   reasonCode (stepTable ! 7) = ''ConfigIngressFailed'' \<and>
   fst (Reconcile exampleDeps (''idp'', ''dex'') exampleWorldBadIssuer) = Panicked \<and>
   map Template (applied (snd (Reconcile exampleDeps (''idp'', ''dex'') exampleWorldBadIssuer))) =
     [''dex-server/config_map.yaml'', ''dex-server/service_http.yaml'',
      ''dex-server/service_grpc.yaml'', ''dex-server/service_account.yaml'',
      ''dex-server/cluster_role_binding.yaml'', ''dex-server/deployment.yaml''] \<and>
   deploymentApplied (snd (Reconcile exampleDeps (''idp'', ''dex'') exampleWorldBadIssuer)) \<and>
   Conditions exampleDexServerBadIssuer = [] \<and>
   map_option Conditions
     (dexServers (snd (Reconcile exampleDeps (''idp'', ''dex'') exampleWorldBadIssuer)) (''idp'', ''dex'')) =
     Some []"
proof (intro conjI)
  show "dexServers exampleWorldBadIssuer (''idp'', ''dex'') = Some exampleDexServerBadIssuer"
    by (simp add: exampleWorldBadIssuer_def)
  show "Issuer (Spec exampleDexServerBadIssuer) = ''://dex.example.com''"
    by (simp add: exampleDexServerBadIssuer_def)
  show none: "urlParseHost exampleDeps ''://dex.example.com'' = None"
    by (simp add: exampleDeps_def)
  have "urlParseHost exampleDeps (Issuer (Spec exampleDexServerBadIssuer)) = None"
    using none by (simp add: exampleDexServerBadIssuer_def)
  then have "action (stepTable ! 7) exampleDeps exampleDexServerBadIssuer w = (Panic, w)" for w
    by (simp add: stepTable_def syncIngress_panics)
  with ex_bad_issuer_prefix
  show "\<exists>w. runAll exampleDeps exampleDexServerBadIssuer (take 7 stepTable) exampleWorldBadIssuer = Some w \<and>
        action (stepTable ! 7) exampleDeps exampleDexServerBadIssuer w = (Panic, w)"
    by blast
  show "reasonCode (stepTable ! 7) = ''ConfigIngressFailed''"
    by (simp add: stepTable_def)
  show "fst (Reconcile exampleDeps (''idp'', ''dex'') exampleWorldBadIssuer) = Panicked"
    by (simp add: Reconcile_def Hour_def step_defs example_defs const_defs bad_issuer_defs)
  show tpl: "map Template (applied (snd (Reconcile exampleDeps (''idp'', ''dex'') exampleWorldBadIssuer))) =
     [''dex-server/config_map.yaml'', ''dex-server/service_http.yaml'',
      ''dex-server/service_grpc.yaml'', ''dex-server/service_account.yaml'',
      ''dex-server/cluster_role_binding.yaml'', ''dex-server/deployment.yaml'']"
    by (simp add: Reconcile_def Hour_def step_defs example_defs const_defs bad_issuer_defs)
  have "deploymentApplied w \<longleftrightarrow> ''dex-server/deployment.yaml'' \<in> set (map Template (applied w))" for w
    by (simp add: deploymentApplied_def DEPLOYMENT_TEMPLATE_def)
  then have "deploymentApplied (snd (Reconcile exampleDeps (''idp'', ''dex'') exampleWorldBadIssuer)) \<longleftrightarrow>
      ''dex-server/deployment.yaml'' \<in> set (map Template (applied (snd (Reconcile exampleDeps (''idp'', ''dex'') exampleWorldBadIssuer))))"
    by blast
  also have "\<dots>" unfolding tpl by simp
  finally show "deploymentApplied (snd (Reconcile exampleDeps (''idp'', ''dex'') exampleWorldBadIssuer))" .
  show "Conditions exampleDexServerBadIssuer = []"
    by (simp add: exampleDexServerBadIssuer_def exampleDexServer_def)
  show "map_option Conditions
     (dexServers (snd (Reconcile exampleDeps (''idp'', ''dex'') exampleWorldBadIssuer)) (''idp'', ''dex'')) =
     Some []"
    by (simp add: Reconcile_def Hour_def step_defs example_defs const_defs bad_issuer_defs)
qed

subsection \<open>A credential secret that does not exist\<close>

text \<open>
  C1, evaluated. The instance \<open>idp/dex\<close> refers to the secret \<open>idp/github-secret\<close>, which
  does not exist. Reading the credential returns the not-found error, but the config map step
  returns no error and leaves the cluster as it is: the loop of \<^verbatim>\<open>syncConfigMap\<close> logs the
  error and returns nil. The pass goes on through the remaining steps: the deployment is
  applied, the condition recorded is \<open>Applied\<close> with status true, and the pass returns no
  error.
\<close>

theorem missing_credential_secret_pass:
  "secrets exampleWorld (''idp'', ''github-secret'') = None \<and>
   fst (getConnectorSecretFromRef exampleDeps exampleConnector exampleDexServer exampleWorld) =
     Inl (Error True ''Secret idp/github-secret not found'') \<and>
   syncConfigMap exampleDeps exampleDexServer exampleWorld = (None, exampleWorld) \<and>
   fst (Reconcile exampleDeps (''idp'', ''dex'') exampleWorld) =
     Returned \<lparr>Requeue = True, RequeueAfter = 3600000000000\<rparr> None \<and>
   deploymentApplied (snd (Reconcile exampleDeps (''idp'', ''dex'') exampleWorld)) \<and>
   map Template (applied (snd (Reconcile exampleDeps (''idp'', ''dex'') exampleWorld))) =
     [''dex-server/service_http.yaml'', ''dex-server/service_grpc.yaml'',
      ''dex-server/service_account.yaml'', ''dex-server/cluster_role_binding.yaml'',
      ''dex-server/deployment.yaml'', ''dex-server/ingress.yaml''] \<and>
   map_option Conditions
     (dexServers (snd (Reconcile exampleDeps (''idp'', ''dex'') exampleWorld)) (''idp'', ''dex'')) =
     Some [\<lparr>Type = ''Applied'', Status = ConditionTrue, Reason = ''Applied'',
            Message = ''DexServer is applied'', LastTransitionTime = zeroTime\<rparr>]"
proof (intro conjI)
  show "secrets exampleWorld (''idp'', ''github-secret'') = None"
    by (simp add: exampleWorld_def)
  show "fst (getConnectorSecretFromRef exampleDeps exampleConnector exampleDexServer exampleWorld) =
     Inl (Error True ''Secret idp/github-secret not found'')"
    by (simp add: step_defs example_defs)
  show "syncConfigMap exampleDeps exampleDexServer exampleWorld = (None, exampleWorld)"
    by (simp add: step_defs example_defs)
  have rec: "Reconcile exampleDeps (''idp'', ''dex'') exampleWorld =
    (Returned \<lparr>Requeue = True, RequeueAfter = 3600000000000\<rparr> None,
     snd (Reconcile exampleDeps (''idp'', ''dex'') exampleWorld))"
    by (simp add: Reconcile_def Hour_def step_defs example_defs const_defs)
  show "fst (Reconcile exampleDeps (''idp'', ''dex'') exampleWorld) =
     Returned \<lparr>Requeue = True, RequeueAfter = 3600000000000\<rparr> None"
    by (subst rec) simp
  show tpl: "map Template (applied (snd (Reconcile exampleDeps (''idp'', ''dex'') exampleWorld))) =
     [''dex-server/service_http.yaml'', ''dex-server/service_grpc.yaml'',
      ''dex-server/service_account.yaml'', ''dex-server/cluster_role_binding.yaml'',
      ''dex-server/deployment.yaml'', ''dex-server/ingress.yaml'']"
    by (simp add: Reconcile_def Hour_def step_defs example_defs const_defs)
  have "deploymentApplied w \<longleftrightarrow> ''dex-server/deployment.yaml'' \<in> set (map Template (applied w))" for w
    by (simp add: deploymentApplied_def DEPLOYMENT_TEMPLATE_def)
  then have "deploymentApplied (snd (Reconcile exampleDeps (''idp'', ''dex'') exampleWorld)) \<longleftrightarrow>
      ''dex-server/deployment.yaml'' \<in> set (map Template (applied (snd (Reconcile exampleDeps (''idp'', ''dex'') exampleWorld))))"
    by blast
  also have "\<dots>" unfolding tpl by simp
  finally show "deploymentApplied (snd (Reconcile exampleDeps (''idp'', ''dex'') exampleWorld))" .
  show "map_option Conditions
     (dexServers (snd (Reconcile exampleDeps (''idp'', ''dex'') exampleWorld)) (''idp'', ''dex'')) =
     Some [\<lparr>Type = ''Applied'', Status = ConditionTrue, Reason = ''Applied'',
            Message = ''DexServer is applied'', LastTransitionTime = zeroTime\<rparr>]"
    by (simp add: Reconcile_def Hour_def step_defs example_defs const_defs)
qed

subsection \<open>The image of the identity-provider server\<close>

lemma getDexImagePullSpec_unset:
  "Getenv d DEX_IMAGE_ENV_NAME = None \<or> Getenv d DEX_IMAGE_ENV_NAME = Some [] \<Longrightarrow>
   getDexImagePullSpec d =
     Inl (Error False ''required environment variable RELATED_IMAGE_DEX is empty or not set'')"
  by (auto simp: getDexImagePullSpec_def osGetenv_def Errorf_def DEX_IMAGE_ENV_NAME_def)

lemma getDexImagePullSpec_set:
  "Getenv d DEX_IMAGE_ENV_NAME = Some v \<Longrightarrow> v \<noteq> [] \<Longrightarrow> getDexImagePullSpec d = Inr v"
  by (simp add: getDexImagePullSpec_def osGetenv_def)

lemma stepTable_at_6:
  "stepTable = take 6 stepTable @
     \<lparr>action = returning syncDeployment, reasonCode = ''ConfigDeploymentFailed'',
      messagePrefix = ''failed to sync Deployment. error: ''\<rparr> # drop 7 stepTable"
  by (simp add: stepTable_def)

text \<open>
  C8, as the code has it. When the environment variable \<open>RELATED_IMAGE_DEX\<close> is not set or
  empty, \<^verbatim>\<open>getDexImagePullSpec\<close> returns an error that names the variable, and the
  deployment step returns this error at once, before it reads or writes anything. In a pass
  whose first six steps succeed, the pass then records the condition \<open>Applied\<close>, status false,
  reason \<open>ConfigDeploymentFailed\<close>, with this message, and returns the error. With a value
  that is not empty the image is that value.
\<close>

theorem missing_image_fails_deployment_step:
  "(Getenv d DEX_IMAGE_ENV_NAME = None \<or> Getenv d DEX_IMAGE_ENV_NAME = Some [] \<longrightarrow>
      getDexImagePullSpec d =
        Inl (Error False ''required environment variable RELATED_IMAGE_DEX is empty or not set'') \<and>
      syncDeployment d ds w =
        (Some (Error False ''required environment variable RELATED_IMAGE_DEX is empty or not set''), w) \<and>
      (GetDexServer d req w0 = Inr ds \<and> runAll d ds (take 6 stepTable) w0 = Some w \<longrightarrow>
         Reconcile d req w0 =
           (case StatusUpdate d
                   (ds\<lparr>Conditions := mergeStatusConditions (now d) (Conditions ds)
                          [\<lparr>Type = ''Applied'', Status = ConditionFalse,
                            Reason = ''ConfigDeploymentFailed'',
                            Message = ''failed to sync Deployment. error: required environment variable RELATED_IMAGE_DEX is empty or not set'',
                            LastTransitionTime = zeroTime\<rparr>]\<rparr>) w of
              (Some err', w3) \<Rightarrow> (Returned noResult (Some err'), w3)
            | (None, w3) \<Rightarrow>
                (Returned noResult
                   (Some (Error False ''required environment variable RELATED_IMAGE_DEX is empty or not set'')),
                 w3)))) \<and>
   (Getenv d DEX_IMAGE_ENV_NAME = Some v \<and> v \<noteq> [] \<longrightarrow> getDexImagePullSpec d = Inr v)"
proof (intro conjI impI)
  assume unset: "Getenv d DEX_IMAGE_ENV_NAME = None \<or> Getenv d DEX_IMAGE_ENV_NAME = Some []"
  show spec: "getDexImagePullSpec d =
        Inl (Error False ''required environment variable RELATED_IMAGE_DEX is empty or not set'')"
    using unset by (rule getDexImagePullSpec_unset)
  show dep: "syncDeployment d ds w =
        (Some (Error False ''required environment variable RELATED_IMAGE_DEX is empty or not set''), w)"
    by (simp add: syncDeployment_def spec)
  assume pass: "GetDexServer d req w0 = Inr ds \<and> runAll d ds (take 6 stepTable) w0 = Some w"
  have "action \<lparr>action = returning syncDeployment, reasonCode = ''ConfigDeploymentFailed'',
           messagePrefix = ''failed to sync Deployment. error: ''\<rparr> d ds w =
        (Return (Some (Error False ''required environment variable RELATED_IMAGE_DEX is empty or not set'')), w)"
    by (simp add: returning_def dep)
  with pass have "runSteps d ds (take 6 stepTable @
       \<lparr>action = returning syncDeployment, reasonCode = ''ConfigDeploymentFailed'',
        messagePrefix = ''failed to sync Deployment. error: ''\<rparr> # drop 7 stepTable) w0 =
     stepFailed d ds ''ConfigDeploymentFailed'' ''failed to sync Deployment. error: ''
       (Error False ''required environment variable RELATED_IMAGE_DEX is empty or not set'') w"
    using runSteps_first_failure[of d ds "take 6 stepTable" w0 w _ _ w "drop 7 stepTable"] by simp
  then have "Reconcile d req w0 =
     stepFailed d ds ''ConfigDeploymentFailed'' ''failed to sync Deployment. error: ''
       (Error False ''required environment variable RELATED_IMAGE_DEX is empty or not set'') w"
    using pass stepTable_at_6 by (simp add: Reconcile_runSteps)
  then show "Reconcile d req w0 =
           (case StatusUpdate d
                   (ds\<lparr>Conditions := mergeStatusConditions (now d) (Conditions ds)
                          [\<lparr>Type = ''Applied'', Status = ConditionFalse,
                            Reason = ''ConfigDeploymentFailed'',
                            Message = ''failed to sync Deployment. error: required environment variable RELATED_IMAGE_DEX is empty or not set'',
                            LastTransitionTime = zeroTime\<rparr>]\<rparr>) w of
              (Some err', w3) \<Rightarrow> (Returned noResult (Some err'), w3)
            | (None, w3) \<Rightarrow>
                (Returned noResult
                   (Some (Error False ''required environment variable RELATED_IMAGE_DEX is empty or not set'')),
                 w3))"
    by (simp add: stepFailed_unfold)
next
  assume "Getenv d DEX_IMAGE_ENV_NAME = Some v \<and> v \<noteq> []"
  then show "getDexImagePullSpec d = Inr v"
    using getDexImagePullSpec_set[of d v] by simp
qed

lemma ex_noimage_prefix:
  "\<exists>w. runAll exampleDepsNoImage exampleDexServer (take 6 stepTable) exampleWorldWithSecret = Some w"
  by (simp add: stepTable_def returning_def step_defs example_defs const_defs)

theorem missing_image_fails_deployment_step_witness:
  "Getenv exampleDepsNoImage DEX_IMAGE_ENV_NAME = None \<and>
   getDexImagePullSpec exampleDepsNoImage =
     Inl (Error False ''required environment variable RELATED_IMAGE_DEX is empty or not set'') \<and>
   syncDeployment exampleDepsNoImage exampleDexServer exampleWorldWithSecret =
     (Some (Error False ''required environment variable RELATED_IMAGE_DEX is empty or not set''),
      exampleWorldWithSecret) \<and>
   GetDexServer exampleDepsNoImage (''idp'', ''dex'') exampleWorldWithSecret = Inr exampleDexServer \<and>
   (\<exists>w. runAll exampleDepsNoImage exampleDexServer (take 6 stepTable) exampleWorldWithSecret = Some w \<and>
        (\<exists>w3. Reconcile exampleDepsNoImage (''idp'', ''dex'') exampleWorldWithSecret =
          (Returned noResult
             (Some (Error False ''required environment variable RELATED_IMAGE_DEX is empty or not set'')),
           w3))) \<and>
   Getenv exampleDeps DEX_IMAGE_ENV_NAME = Some ''quay.io/dexidp/dex:v2.30'' \<and>
   getDexImagePullSpec exampleDeps = Inr ''quay.io/dexidp/dex:v2.30''"
proof -
  have unset: "Getenv exampleDepsNoImage DEX_IMAGE_ENV_NAME = None"
    by (simp add: exampleDepsNoImage_def exampleDeps_def)
  have set: "Getenv exampleDeps DEX_IMAGE_ENV_NAME = Some ''quay.io/dexidp/dex:v2.30''"
    by (simp add: exampleDeps_def)
  have get: "GetDexServer exampleDepsNoImage (''idp'', ''dex'') exampleWorldWithSecret = Inr exampleDexServer"
    by (simp add: GetDexServer_def example_defs)
  obtain w where run: "runAll exampleDepsNoImage exampleDexServer (take 6 stepTable) exampleWorldWithSecret = Some w"
    using ex_noimage_prefix by blast
  note a = missing_image_fails_deployment_step
    [of exampleDepsNoImage exampleDexServer exampleWorldWithSecret "(''idp'', ''dex'')"
        exampleWorldWithSecret "''x''"]
  note b = missing_image_fails_deployment_step
    [of exampleDepsNoImage exampleDexServer w "(''idp'', ''dex'')" exampleWorldWithSecret "''x''"]
  note c = missing_image_fails_deployment_step
    [of exampleDeps exampleDexServer w "(''idp'', ''dex'')" exampleWorldWithSecret
        "''quay.io/dexidp/dex:v2.30''"]
  have stored: "dexServers w (''idp'', ''dex'') = Some exampleDexServer"
    using runAll_dexServers[of "take 6 stepTable" exampleDepsNoImage exampleDexServer exampleWorldWithSecret w]
      stepTable_dexServers run GetDexServer_stored[OF get]
    by (metis in_set_takeD)
  have su: "StatusUpdate exampleDepsNoImage ds' w =
      (None, w\<lparr>dexServers := (dexServers w)((Namespace ds', Name ds') \<mapsto> exampleDexServer\<lparr>Conditions := Conditions ds'\<rparr>)\<rparr>)"
    if "(Namespace ds', Name ds') = (''idp'', ''dex'')" for ds'
    using that stored by (simp add: StatusUpdate_def Let_def exampleDepsNoImage_def exampleDeps_def)
  have rec: "\<exists>w3. Reconcile exampleDepsNoImage (''idp'', ''dex'') exampleWorldWithSecret =
          (Returned noResult
             (Some (Error False ''required environment variable RELATED_IMAGE_DEX is empty or not set'')),
           w3)"
    using b unset get run by (simp add: su exampleDexServer_def)
  show ?thesis
    using a unset set get run rec c by blast
qed

text \<open>
  C8 as stated fails: nothing ends the process, and the failure is not the first thing that
  happens. With the variable not set, a pass over the example instance returns to its caller,
  with the error as a value, after it has created the mutual-TLS secret and applied the five
  manifests of the steps before the deployment.
\<close>

theorem missing_image_pass_counterexample:
  "Getenv exampleDepsNoImage DEX_IMAGE_ENV_NAME = None \<and>
   fst (Reconcile exampleDepsNoImage (''idp'', ''dex'') exampleWorldWithSecret) =
     Returned noResult
       (Some (Error False ''required environment variable RELATED_IMAGE_DEX is empty or not set'')) \<and>
   fst (Reconcile exampleDepsNoImage (''idp'', ''dex'') exampleWorldWithSecret) \<noteq> Panicked \<and>
   map Template (applied (snd (Reconcile exampleDepsNoImage (''idp'', ''dex'') exampleWorldWithSecret))) =
     [''dex-server/config_map.yaml'', ''dex-server/service_http.yaml'',
      ''dex-server/service_grpc.yaml'', ''dex-server/service_account.yaml'',
      ''dex-server/cluster_role_binding.yaml''] \<and>
   secrets exampleWorldWithSecret (''idp'', ''grpc-mtls'') = None \<and>
   secrets (snd (Reconcile exampleDepsNoImage (''idp'', ''dex'') exampleWorldWithSecret)) (''idp'', ''grpc-mtls'') =
     Some (defineMTLSSecret exampleDexServer exampleCerts)"
proof (intro conjI)
  show "Getenv exampleDepsNoImage DEX_IMAGE_ENV_NAME = None"
    by (simp add: exampleDepsNoImage_def exampleDeps_def)
  show r: "fst (Reconcile exampleDepsNoImage (''idp'', ''dex'') exampleWorldWithSecret) =
     Returned noResult
       (Some (Error False ''required environment variable RELATED_IMAGE_DEX is empty or not set''))"
    by (simp add: Reconcile_def noResult_def step_defs example_defs const_defs)
  show "fst (Reconcile exampleDepsNoImage (''idp'', ''dex'') exampleWorldWithSecret) \<noteq> Panicked"
    unfolding r by simp
  show "map Template (applied (snd (Reconcile exampleDepsNoImage (''idp'', ''dex'') exampleWorldWithSecret))) =
     [''dex-server/config_map.yaml'', ''dex-server/service_http.yaml'',
      ''dex-server/service_grpc.yaml'', ''dex-server/service_account.yaml'',
      ''dex-server/cluster_role_binding.yaml'']"
    by (simp add: Reconcile_def step_defs example_defs const_defs)
  show "secrets exampleWorldWithSecret (''idp'', ''grpc-mtls'') = None"
    by (simp add: example_defs)
  show "secrets (snd (Reconcile exampleDepsNoImage (''idp'', ''dex'') exampleWorldWithSecret)) (''idp'', ''grpc-mtls'') =
     Some (defineMTLSSecret exampleDexServer exampleCerts)"
    by (simp add: Reconcile_def step_defs example_defs const_defs)
qed

subsection \<open>The restart predicate\<close>

lemma UpdateFunc_recorded:
  "ownedByDexServer e \<Longrightarrow> r (namespacedName e) = Some (Generation (ObjectNew e)) \<Longrightarrow>
   UpdateFunc r e = (False, r)"
  by (simp add: UpdateFunc_def ownedByDexServer_def namespacedName_def Let_def)

lemma restart_detected:
  assumes "map_of new RESTARTED_AT = Some v" and "v \<noteq> []" and "map_of old RESTARTED_AT \<noteq> Some v"
  shows "length old = 0 \<or> v \<noteq> valueOf old RESTARTED_AT"
  using assms by (auto simp: valueOf_def split: option.splits)

lemma restart_not_detected:
  assumes "map_of new RESTARTED_AT = map_of old RESTARTED_AT" and "map_of new RESTARTED_AT = Some v"
  shows "\<not> (length old = 0 \<or> v \<noteq> valueOf old RESTARTED_AT)"
proof -
  from assms have old: "map_of old RESTARTED_AT = Some v" by simp
  then have "old \<noteq> []" by auto
  moreover from old have "valueOf old RESTARTED_AT = v" by (simp add: valueOf_def)
  ultimately show ?thesis by simp
qed

lemma UpdateFunc_new_restart:
  assumes "ownedByDexServer e"
    and "map_of (TemplateAnnotations (ObjectNew e)) RESTARTED_AT = Some v"
    and "v \<noteq> []"
    and "map_of (TemplateAnnotations (ObjectOld e)) RESTARTED_AT \<noteq> Some v"
  shows "UpdateFunc r e = (False, r(namespacedName e \<mapsto> Generation (ObjectNew e)))"
proof (cases "r (namespacedName e) = Some (Generation (ObjectNew e))")
  case True
  then have "r(namespacedName e \<mapsto> Generation (ObjectNew e)) = r"
    by (simp add: map_upd_triv)
  with True assms(1) show ?thesis by (simp add: UpdateFunc_recorded)
next
  case False
  from restart_detected[OF assms(2,3,4)]
  have det: "length (TemplateAnnotations (ObjectOld e)) = 0 \<or>
      v \<noteq> valueOf (TemplateAnnotations (ObjectOld e)) RESTARTED_AT" .
  show ?thesis
  proof (cases "r (namespacedName e)")
    case None
    with assms(1,2) det show ?thesis
      by (simp add: UpdateFunc_def ownedByDexServer_def namespacedName_def Let_def)
  next
    case (Some g')
    with False have "g' \<noteq> Generation (ObjectNew e)" by simp
    with Some assms(1,2) det show ?thesis
      by (simp add: UpdateFunc_def ownedByDexServer_def namespacedName_def Let_def)
  qed
qed

lemma UpdateFunc_other_generation:
  assumes "ownedByDexServer e"
    and "r (namespacedName e) = Some g'" and "g' \<noteq> Generation (ObjectNew e)"
    and "map_of (TemplateAnnotations (ObjectNew e)) RESTARTED_AT =
         map_of (TemplateAnnotations (ObjectOld e)) RESTARTED_AT"
  shows "UpdateFunc r e = (True, r(namespacedName e := None))"
proof (cases "map_of (TemplateAnnotations (ObjectNew e)) RESTARTED_AT")
  case None
  with assms(1,2,3) show ?thesis
    by (simp add: UpdateFunc_def ownedByDexServer_def namespacedName_def Let_def)
next
  case (Some v)
  from restart_not_detected[OF assms(4) Some]
  have "\<not> (length (TemplateAnnotations (ObjectOld e)) = 0 \<or>
      v \<noteq> valueOf (TemplateAnnotations (ObjectOld e)) RESTARTED_AT)" .
  with Some assms(1,2,3) show ?thesis
    by (simp add: UpdateFunc_def ownedByDexServer_def namespacedName_def Let_def)
qed

lemma processEvents_snoc:
  "processEvents r0 (es @ [e]) =
     (fst (processEvents r0 es) @ [fst (UpdateFunc (snd (processEvents r0 es)) e)],
      snd (UpdateFunc (snd (processEvents r0 es)) e))"
  by (induction es arbitrary: r0) (auto split: prod.splits)

lemma processEvents_suppressed:
  "\<forall>e \<in> set es. ownedByDexServer e \<and> namespacedName e = k \<and> Generation (ObjectNew e) = g \<Longrightarrow>
   r k = Some g \<Longrightarrow> processEvents r es = (replicate (length es) False, r)"
proof (induction es)
  case Nil
  then show ?case by simp
next
  case (Cons e es)
  then have "UpdateFunc r e = (False, r)"
    using UpdateFunc_recorded[of e r] by simp
  with Cons show ?case by simp
qed


text \<open>
  C5. For every sequence of update events and every further event on a deployment owned by a
  DexServer, with the map as the sequence left it. An event whose new pod template carries a
  restart stamp (not empty) that the old template does not carry is suppressed, and its
  generation is recorded under the name of the deployment. An event at the recorded
  generation is suppressed, and the record stays. An event at another generation than the
  recorded one, with the same restart stamp in the old and the new template, is admitted, and
  the record is cleared. So a restart, any number of events at its generation, and then an
  event at another generation with the stamp unchanged, are suppressed but for the last one,
  and leave no record.
\<close>

theorem restart_predicate_sequence:
  "processEvents r0 (es @ [e]) =
     (fst (processEvents r0 es) @ [fst (UpdateFunc (snd (processEvents r0 es)) e)],
      snd (UpdateFunc (snd (processEvents r0 es)) e)) \<and>
   (r = snd (processEvents r0 es) \<and> ownedByDexServer e \<longrightarrow>
      (map_of (TemplateAnnotations (ObjectNew e)) RESTARTED_AT = Some v \<and> v \<noteq> [] \<and>
       map_of (TemplateAnnotations (ObjectOld e)) RESTARTED_AT \<noteq> Some v \<longrightarrow>
         UpdateFunc r e = (False, r(namespacedName e \<mapsto> Generation (ObjectNew e)))) \<and>
      (r (namespacedName e) = Some (Generation (ObjectNew e)) \<longrightarrow> UpdateFunc r e = (False, r)) \<and>
      (r (namespacedName e) = Some g' \<and> g' \<noteq> Generation (ObjectNew e) \<and>
       map_of (TemplateAnnotations (ObjectNew e)) RESTARTED_AT =
         map_of (TemplateAnnotations (ObjectOld e)) RESTARTED_AT \<longrightarrow>
         UpdateFunc r e = (True, r(namespacedName e := None)))) \<and>
   (ownedByDexServer e1 \<and> namespacedName e1 = k \<and> Generation (ObjectNew e1) = g \<and>
    map_of (TemplateAnnotations (ObjectNew e1)) RESTARTED_AT = Some v1 \<and> v1 \<noteq> [] \<and>
    map_of (TemplateAnnotations (ObjectOld e1)) RESTARTED_AT \<noteq> Some v1 \<and>
    (\<forall>x \<in> set mid. ownedByDexServer x \<and> namespacedName x = k \<and> Generation (ObjectNew x) = g) \<and>
    ownedByDexServer e2 \<and> namespacedName e2 = k \<and> Generation (ObjectNew e2) \<noteq> g \<and>
    map_of (TemplateAnnotations (ObjectNew e2)) RESTARTED_AT =
      map_of (TemplateAnnotations (ObjectOld e2)) RESTARTED_AT \<longrightarrow>
      processEvents r0 (e1 # mid @ [e2]) =
        (False # replicate (length mid) False @ [True], r0(k := None)))"
proof (intro conjI impI)
  show "processEvents r0 (es @ [e]) =
     (fst (processEvents r0 es) @ [fst (UpdateFunc (snd (processEvents r0 es)) e)],
      snd (UpdateFunc (snd (processEvents r0 es)) e))"
    by (rule processEvents_snoc)
next
  assume "r = snd (processEvents r0 es) \<and> ownedByDexServer e"
    and "map_of (TemplateAnnotations (ObjectNew e)) RESTARTED_AT = Some v \<and> v \<noteq> [] \<and>
       map_of (TemplateAnnotations (ObjectOld e)) RESTARTED_AT \<noteq> Some v"
  then show "UpdateFunc r e = (False, r(namespacedName e \<mapsto> Generation (ObjectNew e)))"
    using UpdateFunc_new_restart[of e v r] by simp
next
  assume "r = snd (processEvents r0 es) \<and> ownedByDexServer e"
    and "r (namespacedName e) = Some (Generation (ObjectNew e))"
  then show "UpdateFunc r e = (False, r)"
    using UpdateFunc_recorded[of e r] by simp
next
  assume "r = snd (processEvents r0 es) \<and> ownedByDexServer e"
    and "r (namespacedName e) = Some g' \<and> g' \<noteq> Generation (ObjectNew e) \<and>
       map_of (TemplateAnnotations (ObjectNew e)) RESTARTED_AT =
         map_of (TemplateAnnotations (ObjectOld e)) RESTARTED_AT"
  then show "UpdateFunc r e = (True, r(namespacedName e := None))"
    using UpdateFunc_other_generation[of e r g'] by simp
next
  assume h: "ownedByDexServer e1 \<and> namespacedName e1 = k \<and> Generation (ObjectNew e1) = g \<and>
    map_of (TemplateAnnotations (ObjectNew e1)) RESTARTED_AT = Some v1 \<and> v1 \<noteq> [] \<and>
    map_of (TemplateAnnotations (ObjectOld e1)) RESTARTED_AT \<noteq> Some v1 \<and>
    (\<forall>x \<in> set mid. ownedByDexServer x \<and> namespacedName x = k \<and> Generation (ObjectNew x) = g) \<and>
    ownedByDexServer e2 \<and> namespacedName e2 = k \<and> Generation (ObjectNew e2) \<noteq> g \<and>
    map_of (TemplateAnnotations (ObjectNew e2)) RESTARTED_AT =
      map_of (TemplateAnnotations (ObjectOld e2)) RESTARTED_AT"
  let ?r1 = "r0(k \<mapsto> g)"
  from h have first: "UpdateFunc r0 e1 = (False, ?r1)"
    using UpdateFunc_new_restart[of e1 v1 r0] by simp
  from h have middle: "processEvents ?r1 mid = (replicate (length mid) False, ?r1)"
    using processEvents_suppressed[of mid k g ?r1] by simp
  from h have last: "UpdateFunc ?r1 e2 = (True, ?r1(k := None))"
    using UpdateFunc_other_generation[of e2 ?r1 g] by simp
  have "processEvents ?r1 (mid @ [e2]) = (replicate (length mid) False @ [True], r0(k := None))"
    by (simp add: processEvents_snoc middle last)
  with first show "processEvents r0 (e1 # mid @ [e2]) =
        (False # replicate (length mid) False @ [True], r0(k := None))"
    by simp
qed

lemmas event_defs =
  exampleDeployment_def exampleStamp_def ownedByDexServer_def namespacedName_def RESTARTED_AT_def

theorem restart_predicate_sequence_witness:
  "ownedByDexServer \<lparr>ObjectOld = exampleDeployment 4 [], ObjectNew = exampleDeployment 5 exampleStamp\<rparr> \<and>
   UpdateFunc Map.empty \<lparr>ObjectOld = exampleDeployment 4 [], ObjectNew = exampleDeployment 5 exampleStamp\<rparr> =
     (False, [''idp:dex'' \<mapsto> 5]) \<and>
   UpdateFunc [''idp:dex'' \<mapsto> 5]
       \<lparr>ObjectOld = exampleDeployment 5 exampleStamp, ObjectNew = exampleDeployment 5 exampleStamp\<rparr> =
     (False, [''idp:dex'' \<mapsto> 5]) \<and>
   UpdateFunc [''idp:dex'' \<mapsto> 5]
       \<lparr>ObjectOld = exampleDeployment 5 exampleStamp, ObjectNew = exampleDeployment 6 exampleStamp\<rparr> =
     (True, Map.empty) \<and>
   processEvents Map.empty
     [\<lparr>ObjectOld = exampleDeployment 4 [], ObjectNew = exampleDeployment 5 exampleStamp\<rparr>,
      \<lparr>ObjectOld = exampleDeployment 5 exampleStamp, ObjectNew = exampleDeployment 5 exampleStamp\<rparr>,
      \<lparr>ObjectOld = exampleDeployment 5 exampleStamp, ObjectNew = exampleDeployment 5 exampleStamp\<rparr>,
      \<lparr>ObjectOld = exampleDeployment 5 exampleStamp, ObjectNew = exampleDeployment 6 exampleStamp\<rparr>] =
     ([False, False, False, True], Map.empty)"
proof -
  let ?e1 = "\<lparr>ObjectOld = exampleDeployment 4 [], ObjectNew = exampleDeployment 5 exampleStamp\<rparr>"
  let ?m = "\<lparr>ObjectOld = exampleDeployment 5 exampleStamp, ObjectNew = exampleDeployment 5 exampleStamp\<rparr>"
  let ?e2 = "\<lparr>ObjectOld = exampleDeployment 5 exampleStamp, ObjectNew = exampleDeployment 6 exampleStamp\<rparr>"
  let ?r1 = "[''idp:dex'' \<mapsto> 5::int]"
  have owned: "ownedByDexServer ?e1" "ownedByDexServer ?m" "ownedByDexServer ?e2"
    by (simp_all add: event_defs)
  have names: "namespacedName ?e1 = ''idp:dex''" "namespacedName ?m = ''idp:dex''"
    "namespacedName ?e2 = ''idp:dex''"
    by (simp_all add: event_defs)
  have gens: "Generation (ObjectNew ?e1) = 5" "Generation (ObjectNew ?m) = 5"
    "Generation (ObjectNew ?e2) = 6"
    by (simp_all add: event_defs)
  have stamps:
    "map_of (TemplateAnnotations (ObjectNew ?e1)) RESTARTED_AT = Some ''2024-02-29T12:34:56Z''"
    "map_of (TemplateAnnotations (ObjectOld ?e1)) RESTARTED_AT = None"
    "map_of (TemplateAnnotations (ObjectNew ?m)) RESTARTED_AT = Some ''2024-02-29T12:34:56Z''"
    "map_of (TemplateAnnotations (ObjectNew ?e2)) RESTARTED_AT = Some ''2024-02-29T12:34:56Z''"
    "map_of (TemplateAnnotations (ObjectOld ?e2)) RESTARTED_AT = Some ''2024-02-29T12:34:56Z''"
    by (simp_all add: event_defs)
  have empty: "snd (processEvents Map.empty []) = (Map.empty :: string \<rightharpoonup> int)"
    by simp
  have one: "UpdateFunc Map.empty ?e1 = (False, ?r1)"
    using restart_predicate_sequence
      [of Map.empty "[]" ?e1 Map.empty "''2024-02-29T12:34:56Z''" 0 ?e1 "''idp:dex''" 5
          "''2024-02-29T12:34:56Z''" "[]" ?e2]
      owned names gens stamps
    by simp
  have two: "UpdateFunc ?r1 ?m = (False, ?r1)"
    using restart_predicate_sequence
      [of ?r1 "[]" ?m ?r1 "''2024-02-29T12:34:56Z''" 0 ?e1 "''idp:dex''" 5
          "''2024-02-29T12:34:56Z''" "[]" ?e2]
      owned names gens stamps
    by simp
  have three: "UpdateFunc ?r1 ?e2 = (True, Map.empty)"
    using restart_predicate_sequence
      [of ?r1 "[]" ?e2 ?r1 "''2024-02-29T12:34:56Z''" 5 ?e1 "''idp:dex''" 5
          "''2024-02-29T12:34:56Z''" "[]" ?e2]
      owned names gens stamps
    by simp
  have pre:
    "''2024-02-29T12:34:56Z'' \<noteq> []"
    "map_of (TemplateAnnotations (ObjectOld ?e1)) RESTARTED_AT \<noteq> Some ''2024-02-29T12:34:56Z''"
    "\<forall>x \<in> set [?m, ?m]. ownedByDexServer x \<and> namespacedName x = ''idp:dex'' \<and> Generation (ObjectNew x) = 5"
    "Generation (ObjectNew ?e2) \<noteq> 5"
    "map_of (TemplateAnnotations (ObjectNew ?e2)) RESTARTED_AT =
       map_of (TemplateAnnotations (ObjectOld ?e2)) RESTARTED_AT"
    using owned names gens stamps by simp_all
  have sc: "processEvents Map.empty (?e1 # [?m, ?m] @ [?e2]) =
      (False # replicate (length [?m, ?m]) False @ [True], Map.empty(''idp:dex'' := None))"
    using restart_predicate_sequence
      [of Map.empty "[]" ?e1 Map.empty "''2024-02-29T12:34:56Z''" 0 ?e1 "''idp:dex''" 5
          "''2024-02-29T12:34:56Z''" "[?m, ?m]" ?e2]
      owned(1,3) names(1,3) gens(1) stamps(1) pre
    by blast
  have all: "processEvents Map.empty [?e1, ?m, ?m, ?e2] = ([False, False, False, True], Map.empty)"
  proof -
    have "?e1 # [?m, ?m] @ [?e2] = [?e1, ?m, ?m, ?e2]" by simp
    moreover have "False # replicate (length [?m, ?m]) False @ [True] = [False, False, False, True]"
      by simp
    moreover have "(Map.empty :: string \<rightharpoonup> int)(''idp:dex'' := None) = Map.empty" by simp
    ultimately show ?thesis using sc by metis
  qed
  from owned(1) one two three all show ?thesis by blast
qed

subsection \<open>The configuration digest\<close>
















end
